theory Spec2Isabelle
  imports Main "HOL-Library.Word"
begin

section \<open>JavaScript values as the tool handlers use them\<close>

text \<open>
  A JavaScript string is a sequence of UTF-16 code units: \<open>jsstring\<close> is a list of 16-bit
  words. \<open>js\<close> gives the code units of a literal of the source written in ASCII. Tool
  names, schema texts and the parts of a URL are ASCII and stay \<open>string\<close>.

  The handlers never compute with numbers, they only print them. A Number is therefore
  represented by the decimal that \<open>Number::toString\<close> prints for it: \<open>Dec neg c e\<close> is
  \<open>(-1)^neg * c * 10^e\<close>, and \<open>Infinity neg\<close> is plus or minus Infinity. NaN is not a value of the
  type: \<open>z.number()\<close> refuses it. How a double is rounded to its shortest decimal is
  outside the model.
\<close>

type_synonym jsstring = "16 word list"

definition js :: "string \<Rightarrow> jsstring" where
  "js s = map (\<lambda>c. of_nat (of_char c)) s"

datatype jsnum = Dec bool nat int | Infinity bool

definition num :: "nat \<Rightarrow> jsnum" where
  "num n = Dec False n 0"

fun digits :: "nat \<Rightarrow> string" where
  "digits n = (if n < 10 then [char_of (48 + n)] else digits (n div 10) @ [char_of (48 + n mod 10)])"

declare digits.simps [simp del]

text \<open>
  \<open>Number::toString\<close> (radix 10) of ECMAScript, steps 5 to 10: \<open>ds\<close> are the \<open>k\<close> digits of
  the coefficient without its trailing zeros and \<open>n\<close> is the position of the decimal point.
\<close>

definition format_decimal :: "nat \<Rightarrow> int \<Rightarrow> string" where
  "format_decimal c e =
     (let s = digits c;
          ds = rev (dropWhile (\<lambda>d. d = CHR ''0'') (rev s));
          k = int (length ds);
          n = int (length s) + e;
          ex = (if n - 1 < 0 then ''-'' else ''+'') @ digits (nat \<bar>n - 1\<bar>)
      in if k \<le> n \<and> n \<le> 21 then ds @ replicate (nat (n - k)) (CHR ''0'')
         else if 0 < n \<and> n \<le> 21 then take (nat n) ds @ ''.'' @ drop (nat n) ds
         else if - 6 < n \<and> n \<le> 0 then ''0.'' @ replicate (nat (- n)) (CHR ''0'') @ ds
         else if k = 1 then ds @ ''e'' @ ex
         else take 1 ds @ ''.'' @ drop 1 ds @ ''e'' @ ex)"

definition Number_toString :: "jsnum \<Rightarrow> jsstring" where
  "Number_toString v =
     js (case v of
           Infinity neg \<Rightarrow> (if neg then ''-Infinity'' else ''Infinity'')
         | Dec neg c e \<Rightarrow>
             (if c = 0 then ''0'' else (if neg then ''-'' else '''') @ format_decimal c e))"

text \<open>The line feed, and \<open>Array.prototype.join\<close> on an array of strings.\<close>

definition LF :: jsstring where
  "LF = [0x0A]"

fun Array_join :: "jsstring \<Rightarrow> jsstring list \<Rightarrow> jsstring" where
  "Array_join sep [] = []"
| "Array_join sep [s] = s"
| "Array_join sep (s # t # ts) = s @ sep @ Array_join sep (t # ts)"

text \<open>
  The conditional \<open>v ? f(v) : g\<close> of the template literals. An optional string is falsy
  when it is undefined and when it is empty; an optional object or array is falsy only
  when it is undefined. \<open>or_default\<close> is a destructuring default \<open>{ v = d }\<close>, which
  applies only to undefined.
\<close>

definition if_truthy :: "jsstring option \<Rightarrow> (jsstring \<Rightarrow> jsstring) \<Rightarrow> jsstring \<Rightarrow> jsstring" where
  "if_truthy v f g = (case v of None \<Rightarrow> g | Some s \<Rightarrow> (if s = [] then g else f s))"

definition if_present :: "'a option \<Rightarrow> ('a \<Rightarrow> jsstring) \<Rightarrow> jsstring \<Rightarrow> jsstring" where
  "if_present v f g = (case v of None \<Rightarrow> g | Some a \<Rightarrow> f a)"

definition or_default :: "'a option \<Rightarrow> 'a \<Rightarrow> 'a" where
  "or_default v d = (case v of None \<Rightarrow> d | Some a \<Rightarrow> a)"

subsection \<open>JSON.stringify\<close>

datatype json =
    JString jsstring
  | JNumber jsnum
  | JBool bool
  | JArray "json list"
  | JObject "(jsstring \<times> json) list"

text \<open>
  \<open>QuoteJSONString\<close> of ECMAScript. The string is read by code points: a leading surrogate
  followed by a trailing surrogate is one code point and is copied as it is. Every other
  code unit is escaped by the table (backspace, tab, line feed, form feed, carriage
  return, double quote, backslash), or written as a backslash, the letter u and four
  lowercase hexadecimal digits when it is below \<open>0x20\<close> or a surrogate on its own, or
  copied.
\<close>

definition hex_digit :: "nat \<Rightarrow> 16 word" where
  "hex_digit n = (if n < 10 then of_nat (48 + n) else of_nat (87 + n))"

definition UnicodeEscape :: "16 word \<Rightarrow> jsstring" where
  "UnicodeEscape c =
     [0x5C, 0x75, hex_digit (unat c div 4096), hex_digit (unat c div 256 mod 16),
      hex_digit (unat c div 16 mod 16), hex_digit (unat c mod 16)]"

definition is_leading_surrogate :: "16 word \<Rightarrow> bool" where
  "is_leading_surrogate c = (0xD800 \<le> unat c \<and> unat c \<le> 0xDBFF)"

definition is_trailing_surrogate :: "16 word \<Rightarrow> bool" where
  "is_trailing_surrogate c = (0xDC00 \<le> unat c \<and> unat c \<le> 0xDFFF)"

definition escape_unit :: "16 word \<Rightarrow> jsstring" where
  "escape_unit c =
     (if c = 0x08 then [0x5C, 0x62]
      else if c = 0x09 then [0x5C, 0x74]
      else if c = 0x0A then [0x5C, 0x6E]
      else if c = 0x0C then [0x5C, 0x66]
      else if c = 0x0D then [0x5C, 0x72]
      else if c = 0x22 then [0x5C, 0x22]
      else if c = 0x5C then [0x5C, 0x5C]
      else if unat c < 0x20 \<or> is_leading_surrogate c \<or> is_trailing_surrogate c
        then UnicodeEscape c
      else [c])"

fun quote_units :: "jsstring \<Rightarrow> jsstring" where
  "quote_units [] = []"
| "quote_units [c] = escape_unit c"
| "quote_units (c # d # ds) =
     (if is_leading_surrogate c \<and> is_trailing_surrogate d then c # d # quote_units ds
      else escape_unit c @ quote_units (d # ds))"

definition QuoteJSONString :: "jsstring \<Rightarrow> jsstring" where
  "QuoteJSONString s = [0x22] @ quote_units s @ [0x22]"

text \<open>
  \<open>SerializeJSONObject\<close> and \<open>SerializeJSONArray\<close> share their layout: \<open>gap\<close> is the
  indentation unit, \<open>ind\<close> the indentation of the enclosing value.
\<close>

definition json_wrap :: "jsstring \<Rightarrow> jsstring \<Rightarrow> jsstring \<Rightarrow> jsstring \<Rightarrow> jsstring list \<Rightarrow> jsstring" where
  "json_wrap l r gap ind parts =
     (if parts = [] then l @ r
      else if gap = [] then l @ Array_join (js '','') parts @ r
      else l @ LF @ ind @ gap
             @ Array_join (js '','' @ LF @ ind @ gap) parts
             @ LF @ ind @ r)"

fun serialize :: "jsstring \<Rightarrow> jsstring \<Rightarrow> json \<Rightarrow> jsstring" where
  "serialize gap ind (JString s) = QuoteJSONString s"
| "serialize gap ind (JNumber v) =
     (case v of Dec neg c e \<Rightarrow> Number_toString v | Infinity neg \<Rightarrow> js ''null'')"
| "serialize gap ind (JBool b) = (if b then js ''true'' else js ''false'')"
| "serialize gap ind (JArray vs) =
     json_wrap (js ''['') (js '']'') gap ind (map (\<lambda>v. serialize gap (ind @ gap) v) vs)"
| "serialize gap ind (JObject kvs) =
     json_wrap (js ''{'') (js ''}'') gap ind
       (map (\<lambda>kv. QuoteJSONString (fst kv) @ (if gap = [] then js '':'' else js '': '')
                    @ serialize gap (ind @ gap) (snd kv)) kvs)"

text \<open>\<open>JSON.stringify(value)\<close> and \<open>JSON.stringify(value, null, 2)\<close>.\<close>

definition JSON_stringify :: "json \<Rightarrow> jsstring" where
  "JSON_stringify v = serialize [] [] v"

definition JSON_stringify2 :: "json \<Rightarrow> jsstring" where
  "JSON_stringify2 v = serialize (js ''  '') [] v"

subsection \<open>Reading a JSON string\<close>

text \<open>
  What the string of a JSON text denotes is fixed by the JSON grammar, not by the
  handlers: this is the string token as \<open>JSON.parse\<close> reads it, used to say which string
  a quoted field of a handler's JSON text holds. After the opening double quote,
  \<open>parse_chars\<close> reads up to the closing one: a backslash starts an escape (a double
  quote, a backslash, a slash, one of the letters b, f, n, r, t, or the letter u with four
  hexadecimal digits), a code unit below \<open>0x20\<close> is refused, every other code unit stands
  for itself. The result is the string read and the rest of the text.
\<close>

definition hex_value :: "16 word \<Rightarrow> nat option" where
  "hex_value h =
     (let n = unat h
      in if 48 \<le> n \<and> n \<le> 57 then Some (n - 48)
         else if 97 \<le> n \<and> n \<le> 102 then Some (n - 87)
         else if 65 \<le> n \<and> n \<le> 70 then Some (n - 55)
         else None)"

definition simple_escape :: "16 word \<Rightarrow> 16 word option" where
  "simple_escape e =
     (if e = 0x22 then Some 0x22
      else if e = 0x5C then Some 0x5C
      else if e = 0x2F then Some 0x2F
      else if e = 0x62 then Some 0x08
      else if e = 0x66 then Some 0x0C
      else if e = 0x6E then Some 0x0A
      else if e = 0x72 then Some 0x0D
      else if e = 0x74 then Some 0x09
      else None)"

definition prepend :: "16 word \<Rightarrow> (jsstring \<times> jsstring) option \<Rightarrow> (jsstring \<times> jsstring) option" where
  "prepend c p = (case p of None \<Rightarrow> None | Some (s, r) \<Rightarrow> Some (c # s, r))"

fun parse_chars :: "jsstring \<Rightarrow> (jsstring \<times> jsstring) option" where
  "parse_chars [] = None"
| "parse_chars (c # cs) =
     (if c = 0x22 then Some ([], cs)
      else if c = 0x5C then
        (case cs of
           [] \<Rightarrow> None
         | e # es \<Rightarrow>
             (if e = 0x75 then
                (case es of
                   h1 # h2 # h3 # h4 # rest \<Rightarrow>
                     (case (hex_value h1, hex_value h2, hex_value h3, hex_value h4) of
                        (Some a, Some b, Some d, Some f) \<Rightarrow>
                          prepend (of_nat (4096 * a + 256 * b + 16 * d + f)) (parse_chars rest)
                      | _ \<Rightarrow> None)
                 | _ \<Rightarrow> None)
              else (case simple_escape e of
                      None \<Rightarrow> None
                    | Some u \<Rightarrow> prepend u (parse_chars es))))
      else if unat c < 0x20 then None
      else prepend c (parse_chars cs))"

definition JSON_parse_string :: "jsstring \<Rightarrow> (jsstring \<times> jsstring) option" where
  "JSON_parse_string t =
     (case t of [] \<Rightarrow> None | c # cs \<Rightarrow> if c = 0x22 then parse_chars cs else None)"

section \<open>Tool operations\<close>

text \<open>
  A zod schema, as the tool modules write it. The argument types below are the values
  each schema accepts: a required field is a value, an optional field an \<open>option\<close>
  (undefined is \<open>None\<close>), an enum a datatype of its literals.
\<close>

datatype zod =
    ZString
  | ZNumber
  | ZBoolean
  | ZArray zod
  | ZEnum "string list"
  | ZUnion "zod list"
  | ZRecord zod zod
  | ZObject "(string \<times> zod) list"
  | ZOptional zod
  | ZDescribe zod string

text \<open>The result of a handler: \<open>{ content: [{ type: ..., text: ... }] }\<close>.\<close>

record content_item =
  item_type :: jsstring
  item_text :: jsstring

record response =
  content :: "content_item list"

text \<open>\<open>positionSchema\<close>: an object with the numbers \<open>x\<close> and \<open>y\<close>.\<close>

datatype position = Position jsnum jsnum

definition position_x :: "position \<Rightarrow> jsnum" where
  "position_x p = (case p of Position px py \<Rightarrow> px)"

definition position_y :: "position \<Rightarrow> jsnum" where
  "position_y p = (case p of Position px py \<Rightarrow> py)"

text \<open>
  \<open>knobValueSchema\<close>: a string, a number, a boolean, an array of those, or a record of
  those. A record is the list of its properties in enumeration order.
\<close>

datatype prim = PString jsstring | PNumber jsnum | PBoolean bool

datatype knob_value =
    KString jsstring
  | KNumber jsnum
  | KBoolean bool
  | KArray "prim list"
  | KRecord "(jsstring \<times> prim) list"

definition prim_json :: "prim \<Rightarrow> json" where
  "prim_json v = (case v of PString s \<Rightarrow> JString s | PNumber n \<Rightarrow> JNumber n | PBoolean b \<Rightarrow> JBool b)"

definition knob_json :: "knob_value \<Rightarrow> json" where
  "knob_json v =
     (case v of
        KString s \<Rightarrow> JString s
      | KNumber n \<Rightarrow> JNumber n
      | KBoolean b \<Rightarrow> JBool b
      | KArray vs \<Rightarrow> JArray (map prim_json vs)
      | KRecord kvs \<Rightarrow> JObject (map (\<lambda>kv. (fst kv, prim_json (snd kv))) kvs))"

subsection \<open>Basic operations\<close>

text \<open>The arguments of each handler, in the order of its schema.\<close>

datatype createNode_args =
  CreateNodeArgs jsstring "jsstring option" "position option" "jsstring list option"
  \<comment> \<open>nodeType, name, position, inputs\<close>

datatype setKnobValue_args =
  SetKnobValueArgs jsstring jsstring knob_value
  \<comment> \<open>nodeName, knobName, value\<close>

datatype getNode_args =
  GetNodeArgs jsstring
  \<comment> \<open>nodeName\<close>

datatype execute_args =
  ExecuteArgs jsstring "jsstring option"
  \<comment> \<open>nodeName, frameRange\<close>

datatype connectNodes_args =
  ConnectNodesArgs jsstring jsstring "jsnum option"
  \<comment> \<open>fromNode, toNode, inputIndex\<close>

datatype setNodePosition_args =
  SetNodePositionArgs jsstring position
  \<comment> \<open>nodeName, position\<close>

datatype getNodePosition_args =
  GetNodePositionArgs jsstring
  \<comment> \<open>nodeName\<close>

fun createNode_handler :: "createNode_args \<Rightarrow> response" where
  \<open>createNode_handler (CreateNodeArgs nodeType name position inputs) =
     \<lparr>content = [\<lparr>item_type = js ''text'', item_text =
        js ''Created '' @ nodeType @ js '' node''
        @ if_truthy name (\<lambda>name. js '' named "'' @ name @ js ''"'') []
        @ if_present position (\<lambda>position. js '' at position ('' @ Number_toString (position_x position)
             @ js '', '' @ Number_toString (position_y position) @ js '')'') []
        @ if_present inputs (\<lambda>inputs. js '' with inputs: '' @ Array_join (js '', '') inputs) []\<rparr>]\<rparr>\<close>

fun setKnobValue_handler :: "setKnobValue_args \<Rightarrow> response" where
  \<open>setKnobValue_handler (SetKnobValueArgs nodeName knobName v) =
     \<lparr>content = [\<lparr>item_type = js ''text'', item_text =
        js ''Set knob "'' @ knobName @ js ''" on node "'' @ nodeName @ js ''" to value: ''
        @ JSON_stringify (knob_json v)\<rparr>]\<rparr>\<close>

definition mockNodeInfo :: "jsstring \<Rightarrow> json" where
  "mockNodeInfo nodeName =
     JObject
       [(js ''name'', JString nodeName),
        (js ''type'', JString (js ''Blur'')),
        (js ''knobs'', JObject
           [(js ''size'', JNumber (Dec False 25 (- 1))),
            (js ''channels'', JString (js ''rgba'')),
            (js ''filter'', JString (js ''gaussian''))]),
        (js ''position'', JObject [(js ''x'', JNumber (num 100)), (js ''y'', JNumber (num 200))])]"

fun getNode_handler :: "getNode_args \<Rightarrow> response" where
  "getNode_handler (GetNodeArgs nodeName) =
     \<lparr>content = [\<lparr>item_type = js ''text'', item_text = JSON_stringify2 (mockNodeInfo nodeName)\<rparr>]\<rparr>"

fun execute_handler :: "execute_args \<Rightarrow> response" where
  \<open>execute_handler (ExecuteArgs nodeName frameRange) =
     \<lparr>content = [\<lparr>item_type = js ''text'', item_text =
        js ''Executing Write node "'' @ nodeName @ js ''"''
        @ if_truthy frameRange (\<lambda>frameRange. js '' for frame range: '' @ frameRange) []\<rparr>]\<rparr>\<close>

fun connectNodes_handler :: "connectNodes_args \<Rightarrow> response" where
  \<open>connectNodes_handler (ConnectNodesArgs fromNode toNode inputIndex) =
     \<lparr>content = [\<lparr>item_type = js ''text'', item_text =
        js ''Connected node "'' @ fromNode @ js ''" to input ''
        @ Number_toString (or_default inputIndex (num 0))
        @ js '' of node "'' @ toNode @ js ''"''\<rparr>]\<rparr>\<close>

fun setNodePosition_handler :: "setNodePosition_args \<Rightarrow> response" where
  \<open>setNodePosition_handler (SetNodePositionArgs nodeName position) =
     \<lparr>content = [\<lparr>item_type = js ''text'', item_text =
        js ''Set position of node "'' @ nodeName @ js ''" to ('' @ Number_toString (position_x position)
        @ js '', '' @ Number_toString (position_y position) @ js '')''\<rparr>]\<rparr>\<close>

definition mockPosition :: json where
  "mockPosition = JObject [(js ''x'', JNumber (num 100)), (js ''y'', JNumber (num 200))]"

fun getNodePosition_handler :: "getNodePosition_args \<Rightarrow> response" where
  "getNodePosition_handler (GetNodePositionArgs nodeName) =
     \<lparr>content = [\<lparr>item_type = js ''text'', item_text = JSON_stringify2 mockPosition\<rparr>]\<rparr>"

subsection \<open>Node organization\<close>

datatype direction = Horizontal | Vertical

definition direction_str :: "direction \<Rightarrow> jsstring" where
  "direction_str d = (case d of Horizontal \<Rightarrow> js ''horizontal'' | Vertical \<Rightarrow> js ''vertical'')"

datatype createGroup_args =
  CreateGroupArgs jsstring "jsstring list" "position option"
  \<comment> \<open>name, nodes, position\<close>

datatype createLiveGroup_args =
  CreateLiveGroupArgs jsstring "jsstring list" "position option" "jsstring option"
  \<comment> \<open>name, nodes, position, savePath\<close>

datatype loadTemplate_args =
  LoadTemplateArgs jsstring "position option"
  \<comment> \<open>templatePath, position\<close>

datatype saveTemplate_args =
  SaveTemplateArgs "jsstring list" jsstring jsstring
  \<comment> \<open>nodes, savePath, name\<close>

datatype autoArrangeNodes_args =
  AutoArrangeNodesArgs "jsstring list option" "direction option" "jsnum option"
  \<comment> \<open>nodes, direction, spacing\<close>

datatype createBackdrop_args =
  CreateBackdropArgs jsstring "jsstring list" "jsstring option" "jsstring option"
  \<comment> \<open>name, nodes, label, color\<close>

fun createGroup_handler :: "createGroup_args \<Rightarrow> response" where
  \<open>createGroup_handler (CreateGroupArgs name nodes position) =
     \<lparr>content = [\<lparr>item_type = js ''text'', item_text =
        js ''Created group "'' @ name @ js ''" containing nodes: '' @ Array_join (js '', '') nodes
        @ if_present position (\<lambda>position. js '' at position ('' @ Number_toString (position_x position)
             @ js '', '' @ Number_toString (position_y position) @ js '')'') []\<rparr>]\<rparr>\<close>

fun createLiveGroup_handler :: "createLiveGroup_args \<Rightarrow> response" where
  \<open>createLiveGroup_handler (CreateLiveGroupArgs name nodes position savePath) =
     \<lparr>content = [\<lparr>item_type = js ''text'', item_text =
        js ''Created LiveGroup "'' @ name @ js ''" containing nodes: '' @ Array_join (js '', '') nodes
        @ if_present position (\<lambda>position. js '' at position ('' @ Number_toString (position_x position)
             @ js '', '' @ Number_toString (position_y position) @ js '')'') []
        @ if_truthy savePath (\<lambda>savePath. js '' and saved to "'' @ savePath @ js ''"'') []\<rparr>]\<rparr>\<close>

fun loadTemplate_handler :: "loadTemplate_args \<Rightarrow> response" where
  \<open>loadTemplate_handler (LoadTemplateArgs templatePath position) =
     \<lparr>content = [\<lparr>item_type = js ''text'', item_text =
        js ''Loaded template from "'' @ templatePath @ js ''"''
        @ if_present position (\<lambda>position. js '' at position ('' @ Number_toString (position_x position)
             @ js '', '' @ Number_toString (position_y position) @ js '')'') []\<rparr>]\<rparr>\<close>

fun saveTemplate_handler :: "saveTemplate_args \<Rightarrow> response" where
  \<open>saveTemplate_handler (SaveTemplateArgs nodes savePath name) =
     \<lparr>content = [\<lparr>item_type = js ''text'', item_text =
        js ''Saved template "'' @ name @ js ''" containing nodes: '' @ Array_join (js '', '') nodes
        @ js '' to "'' @ savePath @ js ''"''\<rparr>]\<rparr>\<close>

fun autoArrangeNodes_handler :: "autoArrangeNodes_args \<Rightarrow> response" where
  \<open>autoArrangeNodes_handler (AutoArrangeNodesArgs nodes direction spacing) =
     \<lparr>content = [\<lparr>item_type = js ''text'', item_text =
        js ''Auto-arranged ''
        @ if_present nodes (\<lambda>nodes. js ''nodes: '' @ Array_join (js '', '') nodes) (js ''all nodes'')
        @ js '' in '' @ direction_str (or_default direction Horizontal)
        @ js '' direction with spacing '' @ Number_toString (or_default spacing (num 100))\<rparr>]\<rparr>\<close>

fun createBackdrop_handler :: "createBackdrop_args \<Rightarrow> response" where
  \<open>createBackdrop_handler (CreateBackdropArgs name nodes label color) =
     \<lparr>content = [\<lparr>item_type = js ''text'', item_text =
        js ''Created backdrop "'' @ name @ js ''" containing nodes: '' @ Array_join (js '', '') nodes
        @ if_truthy label (\<lambda>label. js '' with label "'' @ label @ js ''"'') []
        @ if_truthy color (\<lambda>color. js '' and color "'' @ color @ js ''"'') []\<rparr>]\<rparr>\<close>

subsection \<open>Advanced VFX operations\<close>

text \<open>The enums of the schemas, each with the string literal a value is.\<close>

datatype solveMethod = MatchMove | Equalizer3D | PFTrack

definition solveMethod_str :: "solveMethod \<Rightarrow> jsstring" where
  "solveMethod_str m =
     (case m of MatchMove \<Rightarrow> js ''MatchMove'' | Equalizer3D \<Rightarrow> js ''3DEqualizer'' | PFTrack \<Rightarrow> js ''PFTrack'')"

datatype deepOperation = DeepRecolor | DeepMerge | DeepToImage | DeepFromImage

definition deepOperation_str :: "deepOperation \<Rightarrow> jsstring" where
  "deepOperation_str m =
     (case m of DeepRecolor \<Rightarrow> js ''DeepRecolor'' | DeepMerge \<Rightarrow> js ''DeepMerge''
      | DeepToImage \<Rightarrow> js ''DeepToImage'' | DeepFromImage \<Rightarrow> js ''DeepFromImage'')"

datatype screenColor = Green | Blue | Red | Custom

definition screenColor_str :: "screenColor \<Rightarrow> jsstring" where
  "screenColor_str m =
     (case m of Green \<Rightarrow> js ''green'' | Blue \<Rightarrow> js ''blue'' | Red \<Rightarrow> js ''red'' | Custom \<Rightarrow> js ''custom'')"

datatype keyerType = Primatte | Keylight | IBK | UltraKeyer

definition keyerType_str :: "keyerType \<Rightarrow> jsstring" where
  "keyerType_str m =
     (case m of Primatte \<Rightarrow> js ''Primatte'' | Keylight \<Rightarrow> js ''Keylight'' | IBK \<Rightarrow> js ''IBK''
      | UltraKeyer \<Rightarrow> js ''UltraKeyer'')"

datatype vectorMethod = VectorGenerator | OpticalFlow | External

definition vectorMethod_str :: "vectorMethod \<Rightarrow> jsstring" where
  "vectorMethod_str m =
     (case m of VectorGenerator \<Rightarrow> js ''VectorGenerator'' | OpticalFlow \<Rightarrow> js ''OpticalFlow''
      | External \<Rightarrow> js ''External'')"

datatype emitterType = EmitPoint | EmitSphere | EmitBox | EmitGeometry

definition emitterType_str :: "emitterType \<Rightarrow> jsstring" where
  "emitterType_str m =
     (case m of EmitPoint \<Rightarrow> js ''point'' | EmitSphere \<Rightarrow> js ''sphere'' | EmitBox \<Rightarrow> js ''box''
      | EmitGeometry \<Rightarrow> js ''geometry'')"

datatype forceNode = Gravity | Wind | Turbulence | CustomForce

definition forceNode_str :: "forceNode \<Rightarrow> jsstring" where
  "forceNode_str m =
     (case m of Gravity \<Rightarrow> js ''gravity'' | Wind \<Rightarrow> js ''wind'' | Turbulence \<Rightarrow> js ''turbulence''
      | CustomForce \<Rightarrow> js ''custom'')"

datatype distortionModel = Model3DE4 | NukeX | LensDistortion

definition distortionModel_str :: "distortionModel \<Rightarrow> jsstring" where
  "distortionModel_str m =
     (case m of Model3DE4 \<Rightarrow> js ''3DE4'' | NukeX \<Rightarrow> js ''NukeX'' | LensDistortion \<Rightarrow> js ''LensDistortion'')"

datatype grainOperation = GrainAdd | GrainMatch | GrainRemove

definition grainOperation_str :: "grainOperation \<Rightarrow> jsstring" where
  "grainOperation_str m =
     (case m of GrainAdd \<Rightarrow> js ''add'' | GrainMatch \<Rightarrow> js ''match'' | GrainRemove \<Rightarrow> js ''remove'')"

datatype grainType = Kodak5248 | Kodak5279 | KodakTriX | CustomGrain

definition grainType_str :: "grainType \<Rightarrow> jsstring" where
  "grainType_str m =
     (case m of Kodak5248 \<Rightarrow> js ''Kodak5248'' | Kodak5279 \<Rightarrow> js ''Kodak5279''
      | KodakTriX \<Rightarrow> js ''KodakTri-X'' | CustomGrain \<Rightarrow> js ''custom'')"

datatype setupCameraTracking_args =
  SetupCameraTrackingArgs jsstring "jsnum option" "bool option" "solveMethod option" "jsstring option"
  \<comment> \<open>sourceName, trackingPoints, createScene, solveMethod, exportPath\<close>

datatype setupDeepCompositing_args =
  SetupDeepCompositingArgs jsstring "jsstring option" "deepOperation list option"
  \<comment> \<open>sourceName, outputName, operations\<close>

datatype batchProcess_args =
  BatchProcessArgs jsstring "jsstring list" jsstring "jsstring option" "jsstring option" "jsnum option"
  \<comment> \<open>scriptPath, inputFiles, outputDir, frameRange, fileType, threads\<close>

datatype setupMachineLearning_args =
  SetupMachineLearningArgs jsstring jsstring "jsstring option" "bool option" "(jsstring \<times> prim) list option"
  \<comment> \<open>modelPath, inputNode, outputNode, gpuEnabled, inferenceParams\<close>

datatype setupKeying_args =
  SetupKeyingArgs jsstring "screenColor option" "jsstring option" "keyerType option" "bool option"
    "bool option" "jsstring option"
  \<comment> \<open>sourceName, screenColor, customColor, keyerType, despill, edgeRefinement, outputName\<close>

datatype setupMotionBlur_args =
  SetupMotionBlurArgs jsstring "jsstring option" "vectorMethod option" "jsnum option" "jsnum option"
    "jsnum option" "jsstring option"
  \<comment> \<open>sourceName, vectorName, vectorMethod, amount, samples, shutterAngle, outputName\<close>

datatype createBasicComp_args =
  CreateBasicCompArgs jsstring jsstring jsstring "bool option" "bool option" "bool option" "jsstring option"
  \<comment> \<open>foregroundPath, backgroundPath, outputPath, includeGrade, includeLensEffects,
      includeGrain, colorSpace\<close>

datatype setupStereoRig_args =
  SetupStereoRigArgs jsstring "jsnum option" "jsnum option" "jsstring option"
  \<comment> \<open>sourceName, interocularDistance, convergenceDistance, outputName\<close>

datatype setupParticleSystem_args =
  SetupParticleSystemArgs emitterType "jsnum option" "jsnum option" "bool option"
    "forceNode list option" "jsstring option"
  \<comment> \<open>emitterType, particleCount, lifetime, velocityControl, forceNodes, outputName\<close>

datatype setupLensDistortion_args =
  SetupLensDistortionArgs jsstring "distortionModel option" "jsnum option" "jsnum option"
    "bool option" "jsstring option"
  \<comment> \<open>sourceName, distortionModel, k1, k2, undistort, outputName\<close>

datatype setupGrainManagement_args =
  SetupGrainManagementArgs jsstring grainOperation "grainType option" "jsnum option" "jsnum option"
    "jsstring option"
  \<comment> \<open>sourceName, operation, grainType, grainSize, grainAmount, outputName\<close>

fun setupCameraTracking_handler :: "setupCameraTracking_args \<Rightarrow> response" where
  \<open>setupCameraTracking_handler
       (SetupCameraTrackingArgs sourceName trackingPoints createScene solveMethod exportPath) =
     \<lparr>content = [\<lparr>item_type = js ''text'', item_text =
        js ''Set up camera tracking for "'' @ sourceName @ js ''" with ''
        @ Number_toString (or_default trackingPoints (num 10)) @ js '' tracking points using ''
        @ solveMethod_str (or_default solveMethod MatchMove) @ js '' method''
        @ (if or_default createScene False then js '' and created a 3D scene'' else [])
        @ if_truthy exportPath
            (\<lambda>exportPath. js '' and exported tracking data to "'' @ exportPath @ js ''"'') []\<rparr>]\<rparr>\<close>

fun setupDeepCompositing_handler :: "setupDeepCompositing_args \<Rightarrow> response" where
  \<open>setupDeepCompositing_handler (SetupDeepCompositingArgs sourceName outputName operations) =
     \<lparr>content = [\<lparr>item_type = js ''text'', item_text =
        js ''Set up deep compositing pipeline from "'' @ sourceName @ js ''" with operations: ''
        @ Array_join (js '', '')
            (map deepOperation_str (or_default operations [DeepRecolor, DeepToImage]))
        @ if_truthy outputName (\<lambda>outputName. js '' and output node "'' @ outputName @ js ''"'') []\<rparr>]\<rparr>\<close>

fun batchProcess_handler :: "batchProcess_args \<Rightarrow> response" where
  \<open>batchProcess_handler
       (BatchProcessArgs scriptPath inputFiles outputDir frameRange fileType threads) =
     \<lparr>content = [\<lparr>item_type = js ''text'', item_text =
        js ''Batch processed '' @ Number_toString (num (length inputFiles))
        @ js '' files using script "'' @ scriptPath @ js ''" to output directory "'' @ outputDir
        @ js ''" as '' @ or_default fileType (js ''exr'') @ js '' files''
        @ if_truthy frameRange (\<lambda>frameRange. js '' for frame range: '' @ frameRange) []
        @ js '' using '' @ Number_toString (or_default threads (num 4)) @ js '' threads''\<rparr>]\<rparr>\<close>

fun setupMachineLearning_handler :: "setupMachineLearning_args \<Rightarrow> response" where
  \<open>setupMachineLearning_handler
       (SetupMachineLearningArgs modelPath inputNode outputNode gpuEnabled inferenceParams) =
     \<lparr>content = [\<lparr>item_type = js ''text'', item_text =
        js ''Set up machine learning pipeline using model "'' @ modelPath
        @ js ''" with input node "'' @ inputNode @ js ''"''
        @ if_truthy outputNode (\<lambda>outputNode. js '' and output node "'' @ outputNode @ js ''"'') []
        @ js '', GPU '' @ (if or_default gpuEnabled True then js ''enabled'' else js ''disabled'')
        @ js '', inference parameters: ''
        @ JSON_stringify (knob_json (KRecord (or_default inferenceParams [])))\<rparr>]\<rparr>\<close>

fun setupKeying_handler :: "setupKeying_args \<Rightarrow> response" where
  \<open>setupKeying_handler
       (SetupKeyingArgs sourceName screenColor customColor keyerType despill edgeRefinement
          outputName) =
     (let colorInfo =
            (if or_default screenColor Green = Custom then or_default customColor (js ''#00FF00'')
             else screenColor_str (or_default screenColor Green))
      in \<lparr>content = [\<lparr>item_type = js ''text'', item_text =
           js ''Set up keying pipeline for "'' @ sourceName @ js ''" using ''
           @ keyerType_str (or_default keyerType Keylight) @ js '' with '' @ colorInfo @ js '' screen''
           @ (if or_default despill True then js '', despill correction'' else [])
           @ (if or_default edgeRefinement True then js '', edge refinement'' else [])
           @ if_truthy outputName
               (\<lambda>outputName. js '' and output node "'' @ outputName @ js ''"'') []\<rparr>]\<rparr>)\<close>

text \<open>The degree sign of the motion blur text is the code unit \<open>0xB0\<close>.\<close>

fun setupMotionBlur_handler :: "setupMotionBlur_args \<Rightarrow> response" where
  \<open>setupMotionBlur_handler
       (SetupMotionBlurArgs sourceName vectorName vectorMethod amount samples shutterAngle
          outputName) =
     \<lparr>content = [\<lparr>item_type = js ''text'', item_text =
        js ''Set up motion blur for "'' @ sourceName @ js ''"''
        @ if_truthy vectorName (\<lambda>vectorName. js '' using vector node "'' @ vectorName @ js ''"'')
            (js '' using '' @ vectorMethod_str (or_default vectorMethod VectorGenerator))
        @ js '' with amount '' @ Number_toString (or_default amount (num 1)) @ js '', ''
        @ Number_toString (or_default samples (num 10)) @ js '' samples, ''
        @ Number_toString (or_default shutterAngle (num 180)) @ [0xB0] @ js '' shutter angle''
        @ if_truthy outputName
            (\<lambda>outputName. js '' and output node "'' @ outputName @ js ''"'') []\<rparr>]\<rparr>\<close>

fun createBasicComp_handler :: "createBasicComp_args \<Rightarrow> response" where
  \<open>createBasicComp_handler
       (CreateBasicCompArgs foregroundPath backgroundPath outputPath includeGrade
          includeLensEffects includeGrain colorSpace) =
     (let effects =
            (if or_default includeGrade True then [js ''grade nodes''] else [])
            @ (if or_default includeLensEffects False then [js ''lens effects''] else [])
            @ (if or_default includeGrain True then [js ''film grain''] else [])
      in \<lparr>content = [\<lparr>item_type = js ''text'', item_text =
           js ''Created basic comp with foreground "'' @ foregroundPath @ js ''" and background "''
           @ backgroundPath @ js ''" in '' @ or_default colorSpace (js ''ACES'')
           @ js '' color space with output to "'' @ outputPath @ js ''"''
           @ (if length effects > 0 then js '' including '' @ Array_join (js '', '') effects
              else [])\<rparr>]\<rparr>)\<close>

fun setupStereoRig_handler :: "setupStereoRig_args \<Rightarrow> response" where
  \<open>setupStereoRig_handler
       (SetupStereoRigArgs sourceName interocularDistance convergenceDistance outputName) =
     \<lparr>content = [\<lparr>item_type = js ''text'', item_text =
        js ''Set up stereo rig for "'' @ sourceName @ js ''" with ''
        @ Number_toString (or_default interocularDistance (Dec False 65 (- 1)))
        @ js ''cm interocular distance and ''
        @ Number_toString (or_default convergenceDistance (num 200))
        @ js ''cm convergence distance''
        @ if_truthy outputName
            (\<lambda>outputName. js '' and output node "'' @ outputName @ js ''"'') []\<rparr>]\<rparr>\<close>

fun setupParticleSystem_handler :: "setupParticleSystem_args \<Rightarrow> response" where
  \<open>setupParticleSystem_handler
       (SetupParticleSystemArgs emitterType particleCount lifetime velocityControl forceNodes
          outputName) =
     (let forceNodes = or_default forceNodes [Gravity]
      in \<lparr>content = [\<lparr>item_type = js ''text'', item_text =
           js ''Set up particle system with '' @ emitterType_str emitterType @ js '' emitter, ''
           @ Number_toString (or_default particleCount (num 1000)) @ js '' particles, ''
           @ Number_toString (or_default lifetime (num 100)) @ js '' frames lifetime''
           @ (if or_default velocityControl True then js '', velocity control'' else [])
           @ (if length forceNodes > 0
              then js '', forces: '' @ Array_join (js '', '') (map forceNode_str forceNodes) else [])
           @ if_truthy outputName
               (\<lambda>outputName. js '' and output node "'' @ outputName @ js ''"'') []\<rparr>]\<rparr>)\<close>

fun setupLensDistortion_handler :: "setupLensDistortion_args \<Rightarrow> response" where
  \<open>setupLensDistortion_handler
       (SetupLensDistortionArgs sourceName distortionModel k1 k2 undistort outputName) =
     \<lparr>content = [\<lparr>item_type = js ''text'', item_text =
        js ''Set up '' @ (if or_default undistort True then js ''undistortion'' else js ''distortion'')
        @ js '' for "'' @ sourceName @ js ''" using ''
        @ distortionModel_str (or_default distortionModel LensDistortion)
        @ js '' model with parameters k1='' @ Number_toString (or_default k1 (Dec False 1 (- 1)))
        @ js '', k2='' @ Number_toString (or_default k2 (Dec False 5 (- 2)))
        @ if_truthy outputName
            (\<lambda>outputName. js '' and output node "'' @ outputName @ js ''"'') []\<rparr>]\<rparr>\<close>

fun setupGrainManagement_handler :: "setupGrainManagement_args \<Rightarrow> response" where
  \<open>setupGrainManagement_handler
       (SetupGrainManagementArgs sourceName operation grainType grainSize grainAmount
          outputName) =
     \<lparr>content = [\<lparr>item_type = js ''text'', item_text =
        js ''Set up grain '' @ grainOperation_str operation @ js '' for "'' @ sourceName
        @ js ''" using '' @ grainType_str (or_default grainType Kodak5248)
        @ js '' grain with size '' @ Number_toString (or_default grainSize (num 1))
        @ js '' and amount '' @ Number_toString (or_default grainAmount (Dec False 5 (- 1)))
        @ if_truthy outputName
            (\<lambda>outputName. js '' and output node "'' @ outputName @ js ''"'') []\<rparr>]\<rparr>\<close>

subsection \<open>The schemas and the tool modules\<close>

text \<open>
  \<open>positionSchema\<close> is declared with the same text in the basic operations and in the
  node organization module.
\<close>

text \<open>
  A tool is \<open>{ schema, handler, description }\<close>. The handlers of one tool object have
  different argument types, so a handler is tagged with its operation. \<open>'p\<close> is the type of
  the handlers of the project management module, which the server imports and whose file is
  not part of the sources.
\<close>

datatype 'p handler =
    H_createNode "createNode_args \<Rightarrow> response"
  | H_setKnobValue "setKnobValue_args \<Rightarrow> response"
  | H_getNode "getNode_args \<Rightarrow> response"
  | H_execute "execute_args \<Rightarrow> response"
  | H_connectNodes "connectNodes_args \<Rightarrow> response"
  | H_setNodePosition "setNodePosition_args \<Rightarrow> response"
  | H_getNodePosition "getNodePosition_args \<Rightarrow> response"
  | H_createGroup "createGroup_args \<Rightarrow> response"
  | H_createLiveGroup "createLiveGroup_args \<Rightarrow> response"
  | H_loadTemplate "loadTemplate_args \<Rightarrow> response"
  | H_saveTemplate "saveTemplate_args \<Rightarrow> response"
  | H_autoArrangeNodes "autoArrangeNodes_args \<Rightarrow> response"
  | H_createBackdrop "createBackdrop_args \<Rightarrow> response"
  | H_setupCameraTracking "setupCameraTracking_args \<Rightarrow> response"
  | H_setupDeepCompositing "setupDeepCompositing_args \<Rightarrow> response"
  | H_batchProcess "batchProcess_args \<Rightarrow> response"
  | H_setupMachineLearning "setupMachineLearning_args \<Rightarrow> response"
  | H_setupKeying "setupKeying_args \<Rightarrow> response"
  | H_setupMotionBlur "setupMotionBlur_args \<Rightarrow> response"
  | H_createBasicComp "createBasicComp_args \<Rightarrow> response"
  | H_setupStereoRig "setupStereoRig_args \<Rightarrow> response"
  | H_setupParticleSystem "setupParticleSystem_args \<Rightarrow> response"
  | H_setupLensDistortion "setupLensDistortion_args \<Rightarrow> response"
  | H_setupGrainManagement "setupGrainManagement_args \<Rightarrow> response"
  | H_projectManagement 'p

record 'p tool =
  schema :: "(string \<times> zod) list"
  handler :: "'p handler"
  description :: string

definition positionSchema :: zod where
  \<open>positionSchema =
     ZObject [(''x'', ZDescribe ZNumber ''X coordinate in the node graph''),
     (''y'', ZDescribe ZNumber ''Y coordinate in the node graph'')]\<close>

definition knobValueSchema :: zod where
  \<open>knobValueSchema =
     ZDescribe (ZUnion [ZString, ZNumber, ZBoolean, ZArray (ZUnion [ZString, ZNumber, ZBoolean]), ZRecord ZString (ZUnion [ZString, ZNumber, ZBoolean])]) ''Value to set on the knob''\<close>

definition createNode_schema :: "(string \<times> zod) list" where
  \<open>createNode_schema =
    [(''nodeType'', ZDescribe ZString ''Type of node to create (e.g., \'Blur\', \'Grade\', \'Read\')''),
     (''name'', ZDescribe (ZOptional ZString) ''Optional name for the node''),
     (''position'', ZDescribe (ZOptional positionSchema) ''Optional position for the node in the node graph''),
     (''inputs'', ZDescribe (ZOptional (ZArray ZString)) ''Optional array of input node names to connect'')]\<close>

definition setKnobValue_schema :: "(string \<times> zod) list" where
  \<open>setKnobValue_schema =
    [(''nodeName'', ZDescribe ZString ''Name of the node to modify''),
     (''knobName'', ZDescribe ZString ''Name of the knob to set''),
     (''value'', knobValueSchema)]\<close>

definition getNode_schema :: "(string \<times> zod) list" where
  \<open>getNode_schema =
    [(''nodeName'', ZDescribe ZString ''Name of the node to retrieve'')]\<close>

definition execute_schema :: "(string \<times> zod) list" where
  \<open>execute_schema =
    [(''nodeName'', ZDescribe ZString ''Name of the Write node to execute''),
     (''frameRange'', ZDescribe (ZOptional ZString) ''Optional frame range to render (e.g., \'1-10\', \'1,3,5\')'')]\<close>

definition connectNodes_schema :: "(string \<times> zod) list" where
  \<open>connectNodes_schema =
    [(''fromNode'', ZDescribe ZString ''Name of the source node''),
     (''toNode'', ZDescribe ZString ''Name of the destination node''),
     (''inputIndex'', ZDescribe (ZOptional ZNumber) ''Optional input index on the destination node (defaults to 0)'')]\<close>

definition setNodePosition_schema :: "(string \<times> zod) list" where
  \<open>setNodePosition_schema =
    [(''nodeName'', ZDescribe ZString ''Name of the node to position''),
     (''position'', ZDescribe positionSchema ''Position coordinates in the node graph'')]\<close>

definition getNodePosition_schema :: "(string \<times> zod) list" where
  \<open>getNodePosition_schema =
    [(''nodeName'', ZDescribe ZString ''Name of the node to query'')]\<close>

definition basicOperations :: "(string \<times> 'p tool) list" where
  \<open>basicOperations =
    [(''createNode'', \<lparr>schema = createNode_schema, handler = H_createNode createNode_handler,
        description = ''Create a new node in the Nuke node graph''\<rparr>),
     (''setKnobValue'', \<lparr>schema = setKnobValue_schema, handler = H_setKnobValue setKnobValue_handler,
        description = ''Set a value on a node\'s knob''\<rparr>),
     (''getNode'', \<lparr>schema = getNode_schema, handler = H_getNode getNode_handler,
        description = ''Retrieve information about a node including its knob values''\<rparr>),
     (''execute'', \<lparr>schema = execute_schema, handler = H_execute execute_handler,
        description = ''Render frames from a Write node''\<rparr>),
     (''connectNodes'', \<lparr>schema = connectNodes_schema, handler = H_connectNodes connectNodes_handler,
        description = ''Connect two nodes in the node graph''\<rparr>),
     (''setNodePosition'', \<lparr>schema = setNodePosition_schema, handler = H_setNodePosition setNodePosition_handler,
        description = ''Set the position of a node in the node graph''\<rparr>),
     (''getNodePosition'', \<lparr>schema = getNodePosition_schema, handler = H_getNodePosition getNodePosition_handler,
        description = ''Get the position of a node in the node graph''\<rparr>)]\<close>

definition createGroup_schema :: "(string \<times> zod) list" where
  \<open>createGroup_schema =
    [(''name'', ZDescribe ZString ''Name for the group''),
     (''nodes'', ZDescribe (ZArray ZString) ''Array of node names to include in the group''),
     (''position'', ZDescribe (ZOptional positionSchema) ''Optional position for the group in the node graph'')]\<close>

definition createLiveGroup_schema :: "(string \<times> zod) list" where
  \<open>createLiveGroup_schema =
    [(''name'', ZDescribe ZString ''Name for the LiveGroup''),
     (''nodes'', ZDescribe (ZArray ZString) ''Array of node names to include in the LiveGroup''),
     (''position'', ZDescribe (ZOptional positionSchema) ''Optional position for the LiveGroup in the node graph''),
     (''savePath'', ZDescribe (ZOptional ZString) ''Optional path to save the LiveGroup'')]\<close>

definition loadTemplate_schema :: "(string \<times> zod) list" where
  \<open>loadTemplate_schema =
    [(''templatePath'', ZDescribe ZString ''Path to the template/toolset to load''),
     (''position'', ZDescribe (ZOptional positionSchema) ''Optional position for the loaded template in the node graph'')]\<close>

definition saveTemplate_schema :: "(string \<times> zod) list" where
  \<open>saveTemplate_schema =
    [(''nodes'', ZDescribe (ZArray ZString) ''Array of node names to include in the template''),
     (''savePath'', ZDescribe ZString ''Path to save the template/toolset''),
     (''name'', ZDescribe ZString ''Name for the template/toolset'')]\<close>

definition autoArrangeNodes_schema :: "(string \<times> zod) list" where
  \<open>autoArrangeNodes_schema =
    [(''nodes'', ZDescribe (ZOptional (ZArray ZString)) ''Optional array of node names to arrange (defaults to all nodes)''),
     (''direction'', ZDescribe (ZOptional (ZEnum [''horizontal'', ''vertical''])) ''Direction of arrangement (defaults to horizontal)''),
     (''spacing'', ZDescribe (ZOptional ZNumber) ''Spacing between nodes (defaults to 100)'')]\<close>

definition createBackdrop_schema :: "(string \<times> zod) list" where
  \<open>createBackdrop_schema =
    [(''name'', ZDescribe ZString ''Name for the backdrop''),
     (''nodes'', ZDescribe (ZArray ZString) ''Array of node names to include in the backdrop''),
     (''label'', ZDescribe (ZOptional ZString) ''Optional label for the backdrop''),
     (''color'', ZDescribe (ZOptional ZString) ''Optional color for the backdrop (e.g., \'#FF0000\')'')]\<close>

definition nodeOrganization :: "(string \<times> 'p tool) list" where
  \<open>nodeOrganization =
    [(''createGroup'', \<lparr>schema = createGroup_schema, handler = H_createGroup createGroup_handler,
        description = ''Package nodes into a Nuke group''\<rparr>),
     (''createLiveGroup'', \<lparr>schema = createLiveGroup_schema, handler = H_createLiveGroup createLiveGroup_handler,
        description = ''Create a LiveGroup for collaborative workflows''\<rparr>),
     (''loadTemplate'', \<lparr>schema = loadTemplate_schema, handler = H_loadTemplate loadTemplate_handler,
        description = ''Load a Nuke toolset/template''\<rparr>),
     (''saveTemplate'', \<lparr>schema = saveTemplate_schema, handler = H_saveTemplate saveTemplate_handler,
        description = ''Save nodes as a Nuke toolset/template''\<rparr>),
     (''autoArrangeNodes'', \<lparr>schema = autoArrangeNodes_schema, handler = H_autoArrangeNodes autoArrangeNodes_handler,
        description = ''Automatically arrange nodes in the node graph''\<rparr>),
     (''createBackdrop'', \<lparr>schema = createBackdrop_schema, handler = H_createBackdrop createBackdrop_handler,
        description = ''Create a backdrop to organize nodes''\<rparr>)]\<close>

definition setupCameraTracking_schema :: "(string \<times> zod) list" where
  \<open>setupCameraTracking_schema =
    [(''sourceName'', ZDescribe ZString ''Name of the source node containing footage to track''),
     (''trackingPoints'', ZDescribe (ZOptional ZNumber) ''Number of tracking points to create (defaults to 10)''),
     (''createScene'', ZDescribe (ZOptional ZBoolean) ''Whether to create a 3D scene after tracking (defaults to false)''),
     (''solveMethod'', ZDescribe (ZOptional (ZEnum [''MatchMove'', ''3DEqualizer'', ''PFTrack''])) ''Tracking solve method to use''),
     (''exportPath'', ZDescribe (ZOptional ZString) ''Optional path to export tracking data'')]\<close>

definition setupDeepCompositing_schema :: "(string \<times> zod) list" where
  \<open>setupDeepCompositing_schema =
    [(''sourceName'', ZDescribe ZString ''Name of the source deep image node''),
     (''outputName'', ZDescribe (ZOptional ZString) ''Optional name for the output node''),
     (''operations'', ZDescribe (ZOptional (ZArray (ZEnum [''DeepRecolor'', ''DeepMerge'', ''DeepToImage'', ''DeepFromImage'']))) ''Deep operations to include in the pipeline'')]\<close>

definition batchProcess_schema :: "(string \<times> zod) list" where
  \<open>batchProcess_schema =
    [(''scriptPath'', ZDescribe ZString ''Path to the processing script''),
     (''inputFiles'', ZDescribe (ZArray ZString) ''Array of input file paths''),
     (''outputDir'', ZDescribe ZString ''Output directory for processed files''),
     (''frameRange'', ZDescribe (ZOptional ZString) ''Optional frame range to process''),
     (''fileType'', ZDescribe (ZOptional ZString) ''Output file type (e.g., \'exr\', \'dpx\')''),
     (''threads'', ZDescribe (ZOptional ZNumber) ''Number of threads to use for processing'')]\<close>

definition setupMachineLearning_schema :: "(string \<times> zod) list" where
  \<open>setupMachineLearning_schema =
    [(''modelPath'', ZDescribe ZString ''Path to the CopyCat model''),
     (''inputNode'', ZDescribe ZString ''Name of the input node''),
     (''outputNode'', ZDescribe (ZOptional ZString) ''Optional name for the output node''),
     (''gpuEnabled'', ZDescribe (ZOptional ZBoolean) ''Whether to use GPU acceleration''),
     (''inferenceParams'', ZDescribe (ZOptional (ZRecord ZString (ZUnion [ZString, ZNumber, ZBoolean]))) ''Additional inference parameters'')]\<close>

definition setupKeying_schema :: "(string \<times> zod) list" where
  \<open>setupKeying_schema =
    [(''sourceName'', ZDescribe ZString ''Name of the source node containing footage to key''),
     (''screenColor'', ZDescribe (ZOptional (ZEnum [''green'', ''blue'', ''red'', ''custom''])) ''Screen color to key''),
     (''customColor'', ZDescribe (ZOptional ZString) ''Custom color for keying (hex format, e.g. \'#00FF00\')''),
     (''keyerType'', ZDescribe (ZOptional (ZEnum [''Primatte'', ''Keylight'', ''IBK'', ''UltraKeyer''])) ''Type of keyer to use''),
     (''despill'', ZDescribe (ZOptional ZBoolean) ''Whether to include despill correction''),
     (''edgeRefinement'', ZDescribe (ZOptional ZBoolean) ''Whether to include edge refinement''),
     (''outputName'', ZDescribe (ZOptional ZString) ''Optional name for the output node'')]\<close>

definition setupMotionBlur_schema :: "(string \<times> zod) list" where
  \<open>setupMotionBlur_schema =
    [(''sourceName'', ZDescribe ZString ''Name of the source node''),
     (''vectorName'', ZDescribe (ZOptional ZString) ''Optional name of the motion vector node''),
     (''vectorMethod'', ZDescribe (ZOptional (ZEnum [''VectorGenerator'', ''OpticalFlow'', ''External''])) ''Method to generate motion vectors''),
     (''amount'', ZDescribe (ZOptional ZNumber) ''Amount of motion blur (defaults to 1.0)''),
     (''samples'', ZDescribe (ZOptional ZNumber) ''Number of motion blur samples''),
     (''shutterAngle'', ZDescribe (ZOptional ZNumber) ''Shutter angle in degrees''),
     (''outputName'', ZDescribe (ZOptional ZString) ''Optional name for the output node'')]\<close>

definition createBasicComp_schema :: "(string \<times> zod) list" where
  \<open>createBasicComp_schema =
    [(''foregroundPath'', ZDescribe ZString ''Path to the foreground footage''),
     (''backgroundPath'', ZDescribe ZString ''Path to the background footage''),
     (''outputPath'', ZDescribe ZString ''Path for the output file''),
     (''includeGrade'', ZDescribe (ZOptional ZBoolean) ''Whether to include grade nodes''),
     (''includeLensEffects'', ZDescribe (ZOptional ZBoolean) ''Whether to include lens effects (flare, chromatic aberration)''),
     (''includeGrain'', ZDescribe (ZOptional ZBoolean) ''Whether to include film grain''),
     (''colorSpace'', ZDescribe (ZOptional ZString) ''Color space for the comp (e.g., \'ACES\', \'sRGB\')'')]\<close>

definition setupStereoRig_schema :: "(string \<times> zod) list" where
  \<open>setupStereoRig_schema =
    [(''sourceName'', ZDescribe ZString ''Name of the source node''),
     (''interocularDistance'', ZDescribe (ZOptional ZNumber) ''Interocular distance (eye separation)''),
     (''convergenceDistance'', ZDescribe (ZOptional ZNumber) ''Convergence distance''),
     (''outputName'', ZDescribe (ZOptional ZString) ''Optional name for the output node'')]\<close>

definition setupParticleSystem_schema :: "(string \<times> zod) list" where
  \<open>setupParticleSystem_schema =
    [(''emitterType'', ZDescribe (ZEnum [''point'', ''sphere'', ''box'', ''geometry'']) ''Type of particle emitter''),
     (''particleCount'', ZDescribe (ZOptional ZNumber) ''Number of particles to emit''),
     (''lifetime'', ZDescribe (ZOptional ZNumber) ''Particle lifetime in frames''),
     (''velocityControl'', ZDescribe (ZOptional ZBoolean) ''Whether to include velocity control''),
     (''forceNodes'', ZDescribe (ZOptional (ZArray (ZEnum [''gravity'', ''wind'', ''turbulence'', ''custom'']))) ''Force nodes to add''),
     (''outputName'', ZDescribe (ZOptional ZString) ''Optional name for the output node'')]\<close>

definition setupLensDistortion_schema :: "(string \<times> zod) list" where
  \<open>setupLensDistortion_schema =
    [(''sourceName'', ZDescribe ZString ''Name of the source node''),
     (''distortionModel'', ZDescribe (ZOptional (ZEnum [''3DE4'', ''NukeX'', ''LensDistortion''])) ''Distortion model to use''),
     (''k1'', ZDescribe (ZOptional ZNumber) ''K1 distortion parameter''),
     (''k2'', ZDescribe (ZOptional ZNumber) ''K2 distortion parameter''),
     (''undistort'', ZDescribe (ZOptional ZBoolean) ''Whether to undistort (true) or distort (false)''),
     (''outputName'', ZDescribe (ZOptional ZString) ''Optional name for the output node'')]\<close>

definition setupGrainManagement_schema :: "(string \<times> zod) list" where
  \<open>setupGrainManagement_schema =
    [(''sourceName'', ZDescribe ZString ''Name of the source node''),
     (''operation'', ZDescribe (ZEnum [''add'', ''match'', ''remove'']) ''Grain operation to perform''),
     (''grainType'', ZDescribe (ZOptional (ZEnum [''Kodak5248'', ''Kodak5279'', ''KodakTri-X'', ''custom''])) ''Type of film grain''),
     (''grainSize'', ZDescribe (ZOptional ZNumber) ''Size of grain''),
     (''grainAmount'', ZDescribe (ZOptional ZNumber) ''Amount of grain''),
     (''outputName'', ZDescribe (ZOptional ZString) ''Optional name for the output node'')]\<close>

definition advancedVfxOperations :: "(string \<times> 'p tool) list" where
  \<open>advancedVfxOperations =
    [(''setupCameraTracking'', \<lparr>schema = setupCameraTracking_schema, handler = H_setupCameraTracking setupCameraTracking_handler,
        description = ''Set up camera tracking with optional 3D scene creation''\<rparr>),
     (''setupDeepCompositing'', \<lparr>schema = setupDeepCompositing_schema, handler = H_setupDeepCompositing setupDeepCompositing_handler,
        description = ''Set up a deep compositing pipeline''\<rparr>),
     (''batchProcess'', \<lparr>schema = batchProcess_schema, handler = H_batchProcess batchProcess_handler,
        description = ''Batch process multiple files using a processing script''\<rparr>),
     (''setupMachineLearning'', \<lparr>schema = setupMachineLearning_schema, handler = H_setupMachineLearning setupMachineLearning_handler,
        description = ''Set up a machine learning pipeline using CopyCat''\<rparr>),
     (''setupKeying'', \<lparr>schema = setupKeying_schema, handler = H_setupKeying setupKeying_handler,
        description = ''Set up a keying pipeline for green/blue screen footage''\<rparr>),
     (''setupMotionBlur'', \<lparr>schema = setupMotionBlur_schema, handler = H_setupMotionBlur setupMotionBlur_handler,
        description = ''Set up a motion blur pipeline''\<rparr>),
     (''createBasicComp'', \<lparr>schema = createBasicComp_schema, handler = H_createBasicComp createBasicComp_handler,
        description = ''Create a basic compositing setup with foreground and background''\<rparr>),
     (''setupStereoRig'', \<lparr>schema = setupStereoRig_schema, handler = H_setupStereoRig setupStereoRig_handler,
        description = ''Set up a stereo 3D rig''\<rparr>),
     (''setupParticleSystem'', \<lparr>schema = setupParticleSystem_schema, handler = H_setupParticleSystem setupParticleSystem_handler,
        description = ''Set up a particle system''\<rparr>),
     (''setupLensDistortion'', \<lparr>schema = setupLensDistortion_schema, handler = H_setupLensDistortion setupLensDistortion_handler,
        description = ''Set up lens distortion/undistortion''\<rparr>),
     (''setupGrainManagement'', \<lparr>schema = setupGrainManagement_schema, handler = H_setupGrainManagement setupGrainManagement_handler,
        description = ''Set up film grain management (add, match, or remove grain)''\<rparr>)]\<close>

section \<open>The server\<close>

subsection \<open>Resources\<close>

text \<open>
  A resource handler reads \<open>uri.pathname\<close> and \<open>uri.href\<close> of the URL it is given.
  Both are ASCII: a URL is serialized with everything else percent-encoded.
  \<open>String.prototype.split\<close> on a one-character separator never returns the empty array, so
  \<open>pop()\<close> is the last element.
\<close>

record url =
  pathname :: string
  href :: string

fun split_on :: "char \<Rightarrow> string \<Rightarrow> string list" where
  "split_on c [] = [[]]"
| "split_on c (x # xs) =
     (if x = c then [] # split_on c xs
      else (case split_on c xs of [] \<Rightarrow> [[x]] | p # ps \<Rightarrow> (x # p) # ps))"

definition last_segment :: "url \<Rightarrow> string" where
  "last_segment uri = last (split_on (CHR ''/'') (pathname uri))"

text \<open>
  \<open>pythonBridgeCode[path]\<close> is a property read on an object: it finds an own property, and
  otherwise what the object inherits from \<open>Object.prototype\<close>. A value read that way is a
  string (an own property) or one of the built-ins of \<open>Object.prototype\<close>, named by its key.
  Only properties with an ASCII key can be read with the segment of a pathname.
  Undefined is \<open>None\<close>.
\<close>

datatype jsval = Str jsstring | Builtin string

definition Object_prototype_keys :: "string list" where
  "Object_prototype_keys =
     [''constructor'', ''__defineGetter__'', ''__defineSetter__'', ''hasOwnProperty'',
      ''__lookupGetter__'', ''__lookupSetter__'', ''isPrototypeOf'', ''propertyIsEnumerable'',
      ''toString'', ''valueOf'', ''__proto__'', ''toLocaleString'']"

definition object_get :: "(string \<rightharpoonup> jsstring) \<Rightarrow> string \<Rightarrow> jsval option" where
  "object_get obj k =
     (case obj k of
        Some v \<Rightarrow> Some (Str v)
      | None \<Rightarrow> (if k \<in> set Object_prototype_keys then Some (Builtin k) else None))"

definition truthy :: "jsval option \<Rightarrow> bool" where
  "truthy v = (case v of None \<Rightarrow> False | Some (Str s) \<Rightarrow> s \<noteq> [] | Some (Builtin k) \<Rightarrow> True)"

record resource_item =
  item_uri :: string
  item_value :: jsval

record resource_response =
  contents :: "resource_item list"

text \<open>
  The handler of the \<open>pythonBridge\<close> resource. \<open>pythonBridgeCode\<close> is imported from
  \<open>./resources/python-bridge-code.js\<close>, which is not part of the sources: the own
  properties of that object are the parameter \<open>code\<close>. The handler returns what
  \<open>pythonBridgeCode[path]\<close> reads when that is truthy, and the text
  \<open>Resource not found: ...\<close> otherwise.
\<close>

definition pythonBridge_handler :: "(string \<rightharpoonup> jsstring) \<Rightarrow> url \<Rightarrow> resource_response" where
  "pythonBridge_handler code uri =
     (let path = last_segment uri
      in case object_get code path of
           Some v \<Rightarrow>
             (if truthy (Some v) then \<lparr>contents = [\<lparr>item_uri = href uri, item_value = v\<rparr>]\<rparr>
              else \<lparr>contents = [\<lparr>item_uri = href uri,
                     item_value = Str (js (''Resource not found: '' @ path))\<rparr>]\<rparr>)
         | None \<Rightarrow>
             \<lparr>contents = [\<lparr>item_uri = href uri,
                item_value = Str (js (''Resource not found: '' @ path))\<rparr>]\<rparr>)"

definition unlines :: "string list \<Rightarrow> string" where
  "unlines ls = concat (map (\<lambda>l. l @ [CHR 0x0A]) ls)"

definition setup_guide :: string where
  \<open>setup_guide = unlines
    [''# Nuke MCP Bridge Setup Guide'',
     '''',
     ''1. Copy the Python bridge files to your .nuke directory:'',
     ''   - nuke_bridge.py'',
     ''   - nuke_bridge_vfx.py'',
     ''   - nuke_bridge_enhanced.py'',
     ''   - nuke_bridge_server.py'',
     ''   - full_bridge.py'',
     ''   - mcp_client.py'',
     '''',
     ''2. Add the following to your init.py in your .nuke directory:'',
     ''   ```python'',
     ''   import full_bridge'',
     ''   ```'',
     '''',
     ''3. Launch Nuke and run the following in the Script Editor:'',
     ''   ```python'',
     ''   import nuke_bridge_server'',
     ''   nuke_bridge_server.start_server()'',
     ''   ```'',
     '''',
     ''4. The bridge server will start and listen for connections on port 8765 by default.'']\<close>

definition usage_guide :: string where
  \<open>usage_guide = unlines
    [''# Nuke MCP Bridge Usage Guide'',
     '''',
     ''## Basic Node Operations'',
     ''- createNode: Create nodes with optional naming and input connections'',
     ''- setKnobValue: Set values on node parameters'',
     ''- getNode: Retrieve node information including knob values'',
     ''- execute: Render frames from a Write node with frame range control'',
     ''- connectNodes: Connect nodes in the node graph with input indexing'',
     ''- setNodePosition/getNodePosition: Control node placement in the UI'',
     '''',
     ''## Node Organization'',
     ''- createGroup: Package nodes into Nuke groups'',
     ''- createLiveGroup: Create LiveGroups for collaborative workflows'',
     ''- loadTemplate/saveTemplate: Load and save Nuke toolsets with positioning'',
     '''',
     ''## Advanced VFX Operations'',
     ''- setupCameraTracking: Create tracker nodes, solve camera tracks, set up 3D scenes'',
     ''- setupDeepCompositing: Set up pipelines for deep image processing'',
     ''- batchProcess: Process multiple files using a processing script'',
     ''- setupMachineLearning: Interface with CopyCat for ML-based tools'',
     ''- setupKeying: Create a keying setup with pre-configured nodes'',
     ''- setupMotionBlur: Create a motion blur setup'',
     ''- createBasicComp: Create a basic compositing setup'',
     '''',
     ''## Project Management'',
     ''- loadScript: Load a Nuke script'',
     ''- saveScript: Save the current Nuke script'',
     ''- configureProjectSettings: Configure project settings'',
     ''- listNodes: List all nodes in the script'',
     ''- filterNodes: Filter nodes by type or name'']\<close>

definition examples_guide :: string where
  \<open>examples_guide = unlines
    [''# Nuke MCP Bridge Examples'',
     '''',
     ''## Example 1: Creating a Simple Compositing Tree'',
     ''```json'',
     ''{'',
     ''  "operations": ['',
     ''    {"tool": "createNode", "args": {"nodeType": "Read", "name": "ReadInput", "position": {"x": 0, "y": 0}}},'',
     ''    {"tool": "setKnobValue", "args": {"nodeName": "ReadInput", "knobName": "file", "value": "/path/to/input.exr"}},'',
     ''    {"tool": "createNode", "args": {"nodeType": "Grade", "name": "GradeNode", "position": {"x": 0, "y": 100}}},'',
     ''    {"tool": "connectNodes", "args": {"fromNode": "ReadInput", "toNode": "GradeNode", "inputIndex": 0}},'',
     ''    {"tool": "setKnobValue", "args": {"nodeName": "GradeNode", "knobName": "gamma", "value": 0.8}},'',
     ''    {"tool": "createNode", "args": {"nodeType": "Write", "name": "WriteOutput", "position": {"x": 0, "y": 200}}},'',
     ''    {"tool": "connectNodes", "args": {"fromNode": "GradeNode", "toNode": "WriteOutput", "inputIndex": 0}},'',
     ''    {"tool": "setKnobValue", "args": {"nodeName": "WriteOutput", "knobName": "file", "value": "/path/to/output.exr"}},'',
     ''    {"tool": "execute", "args": {"nodeName": "WriteOutput", "frameRange": "1-10"}}'',
     ''  ]'',
     ''}'',
     ''```'',
     '''',
     ''## Example 2: Setting Up Camera Tracking'',
     ''```json'',
     ''{'',
     ''  "operations": ['',
     ''    {"tool": "createNode", "args": {"nodeType": "Read", "name": "PlateInput", "position": {"x": 0, "y": 0}}},'',
     ''    {"tool": "setKnobValue", "args": {"nodeName": "PlateInput", "knobName": "file", "value": "/path/to/plate.exr"}},'',
     ''    {"tool": "setupCameraTracking", "args": {"sourceName": "PlateInput", "trackingPoints": 15, "createScene": true}}'',
     ''  ]'',
     ''}'',
     ''```'',
     '''',
     ''## Example 3: Deep Compositing Setup'',
     ''```json'',
     ''{'',
     ''  "operations": ['',
     ''    {"tool": "createNode", "args": {"nodeType": "Read", "name": "DeepInput", "position": {"x": 0, "y": 0}}},'',
     ''    {"tool": "setKnobValue", "args": {"nodeName": "DeepInput", "knobName": "file", "value": "/path/to/deep.exr"}},'',
     ''    {"tool": "setupDeepCompositing", "args": {"sourceName": "DeepInput", "outputName": "DeepOutput"}}'',
     ''  ]'',
     ''}'',
     ''```'']\<close>


definition setupGuide_handler :: "url \<Rightarrow> resource_response" where
  "setupGuide_handler uri =
     (let path = last_segment uri
      in if path = ''setup''
           then \<lparr>contents = [\<lparr>item_uri = href uri, item_value = Str (js setup_guide)\<rparr>]\<rparr>
         else if path = ''usage''
           then \<lparr>contents = [\<lparr>item_uri = href uri, item_value = Str (js usage_guide)\<rparr>]\<rparr>
         else if path = ''examples''
           then \<lparr>contents = [\<lparr>item_uri = href uri, item_value = Str (js examples_guide)\<rparr>]\<rparr>
         else \<lparr>contents = [\<lparr>item_uri = href uri,
                item_value = Str (js ''Available guides: setup, usage, examples'')\<rparr>]\<rparr>)"

subsection \<open>Registration\<close>

text \<open>
  The server is an object of the protocol library. The model keeps what the module does
  to it: the constructor's argument and the calls of \<open>server.tool\<close> and
  \<open>server.resource\<close>, in the order they are made, each with its arguments.
\<close>

datatype implementation = Implementation string string string
  \<comment> \<open>name, version, description\<close>

datatype 'p call =
    ToolCall string "(string \<times> zod) list" "'p handler" string
    \<comment> \<open>\<open>server.tool(name, schema, handler, { description })\<close>\<close>
  | ResourceCall string "string list" "url \<Rightarrow> resource_response"
    \<comment> \<open>\<open>server.resource(name, { list: () => names }, handler)\<close>\<close>

record 'p mcp_server =
  info :: implementation
  calls :: "'p call list"

definition McpServer :: "implementation \<Rightarrow> 'p mcp_server" where
  "McpServer i = \<lparr>info = i, calls = []\<rparr>"

definition server_tool ::
  "string \<Rightarrow> (string \<times> zod) list \<Rightarrow> 'p handler \<Rightarrow> string \<Rightarrow> 'p mcp_server \<Rightarrow> 'p mcp_server" where
  "server_tool name sch h d srv = srv\<lparr>calls := calls srv @ [ToolCall name sch h d]\<rparr>"

definition server_resource ::
  "string \<Rightarrow> string list \<Rightarrow> (url \<Rightarrow> resource_response) \<Rightarrow> 'p mcp_server \<Rightarrow> 'p mcp_server" where
  "server_resource name ls h srv = srv\<lparr>calls := calls srv @ [ResourceCall name ls h]\<rparr>"

text \<open>\<open>Object.entries(toolsObject).forEach(([name, tool]) => server.tool(...))\<close>\<close>

definition registerTools :: "(string \<times> 'p tool) list \<Rightarrow> 'p mcp_server \<Rightarrow> 'p mcp_server" where
  "registerTools toolsObject srv =
     foldl (\<lambda>s entry. server_tool (fst entry) (schema (snd entry)) (handler (snd entry))
                         (description (snd entry)) s)
       srv toolsObject"

text \<open>
  The module, top to bottom. \<open>projectManagement\<close> is imported from
  \<open>./tools/project-management.js\<close>, which is not part of the sources: its entries are a
  parameter, as the own properties of \<open>pythonBridgeCode\<close> are.
\<close>

definition registered :: "(string \<times> 'p tool) list \<Rightarrow> 'p mcp_server" where
  \<open>registered projectManagement =
     registerTools projectManagement
       (registerTools advancedVfxOperations
          (registerTools nodeOrganization
             (registerTools basicOperations
                (McpServer (Implementation ''Nuke MCP Bridge'' ''1.0.0''
                   ''A bridge for automating VFX workflows in Foundry\'s Nuke software'')))))\<close>

definition server :: "(string \<times> 'p tool) list \<Rightarrow> (string \<rightharpoonup> jsstring) \<Rightarrow> 'p mcp_server" where
  "server projectManagement pythonBridgeCode =
     server_resource ''setupGuide'' [''setup'', ''usage'', ''examples''] setupGuide_handler
       (server_resource ''pythonBridge''
          [''nuke_bridge.py'', ''nuke_bridge_vfx.py'', ''nuke_bridge_enhanced.py'',
           ''nuke_bridge_server.py'', ''full_bridge.py'', ''mcp_client.py'']
          (pythonBridge_handler pythonBridgeCode)
          (registered projectManagement))"

text \<open>The tools a server holds: the \<open>server.tool\<close> calls made on it.\<close>

fun is_tool_call :: "'p call \<Rightarrow> bool" where
  "is_tool_call (ToolCall name sch h d) = True"
| "is_tool_call (ResourceCall name ls h) = False"

fun call_name :: "'p call \<Rightarrow> string" where
  "call_name (ToolCall name sch h d) = name"
| "call_name (ResourceCall name ls h) = name"


definition tool_call :: "string \<times> 'p tool \<Rightarrow> 'p call" where
  "tool_call entry =
     ToolCall (fst entry) (schema (snd entry)) (handler (snd entry)) (description (snd entry))"

section \<open>What the tool modules hold and what a handler returns\<close>


text \<open>
  \<open>handler_returns h r\<close>: the handler \<open>h\<close> returns \<open>r\<close> on some arguments its schema
  accepts. The handlers of the project management module are not in the sources and
  have no rule.
\<close>

inductive handler_returns :: "'p handler \<Rightarrow> response \<Rightarrow> bool" where
  createNode: "handler_returns (H_createNode h) (h a)"
| setKnobValue: "handler_returns (H_setKnobValue h) (h a)"
| getNode: "handler_returns (H_getNode h) (h a)"
| execute: "handler_returns (H_execute h) (h a)"
| connectNodes: "handler_returns (H_connectNodes h) (h a)"
| setNodePosition: "handler_returns (H_setNodePosition h) (h a)"
| getNodePosition: "handler_returns (H_getNodePosition h) (h a)"
| createGroup: "handler_returns (H_createGroup h) (h a)"
| createLiveGroup: "handler_returns (H_createLiveGroup h) (h a)"
| loadTemplate: "handler_returns (H_loadTemplate h) (h a)"
| saveTemplate: "handler_returns (H_saveTemplate h) (h a)"
| autoArrangeNodes: "handler_returns (H_autoArrangeNodes h) (h a)"
| createBackdrop: "handler_returns (H_createBackdrop h) (h a)"
| setupCameraTracking: "handler_returns (H_setupCameraTracking h) (h a)"
| setupDeepCompositing: "handler_returns (H_setupDeepCompositing h) (h a)"
| batchProcess: "handler_returns (H_batchProcess h) (h a)"
| setupMachineLearning: "handler_returns (H_setupMachineLearning h) (h a)"
| setupKeying: "handler_returns (H_setupKeying h) (h a)"
| setupMotionBlur: "handler_returns (H_setupMotionBlur h) (h a)"
| createBasicComp: "handler_returns (H_createBasicComp h) (h a)"
| setupStereoRig: "handler_returns (H_setupStereoRig h) (h a)"
| setupParticleSystem: "handler_returns (H_setupParticleSystem h) (h a)"
| setupLensDistortion: "handler_returns (H_setupLensDistortion h) (h a)"
| setupGrainManagement: "handler_returns (H_setupGrainManagement h) (h a)"

text \<open>
  A response whose \<open>content\<close> is exactly one item, of type \<open>text\<close>, with a text that is
  not empty.
\<close>

definition is_text_response :: "response \<Rightarrow> bool" where
  "is_text_response r =
     (case content r of
        [c] \<Rightarrow> item_type c = js ''text'' \<and> item_text c \<noteq> []
      | _ \<Rightarrow> False)"

section \<open>The command-batch execution model\<close>

text \<open>
  The sources hold no batch execution: each tool call stands alone. The specification
  designs one (an operation registry, a dependency resolver, a batch executor and a
  result aggregator), and the definitions of this section follow its words. Steps run one
  at a time, in submission order (a concurrency limit of one). Values of arguments and
  outputs have the type \<open>'v\<close>, schemas the type \<open>'s\<close>, and the state of the external
  application the type \<open>'w\<close>.
\<close>

text \<open>
  Modelled from the spec: the error taxonomy (section 7 of the specification); no source
  file declares it.
\<close>

datatype error =
    DuplicateOperation
  | UnknownOperation
  | DanglingReference
  | ValidationError
  | MissingOutputField
  | ExternalExecutionError
  | Cancelled

text \<open>
  Modelled from the spec: an OperationSpec \<open>{name, inputSchema, resultSchema,
  sideEffectFree}\<close> and the Operation Registry with \<open>register\<close> and \<open>lookup\<close>
  (sections 3 and 4.1); no source file implements them.
\<close>

datatype 's operation_spec = OperationSpec string 's 's bool

definition spec_name :: "'s operation_spec \<Rightarrow> string" where
  "spec_name sp = (case sp of OperationSpec n i r f \<Rightarrow> n)"

definition register :: "'s operation_spec \<Rightarrow> 's operation_spec list \<Rightarrow> error + 's operation_spec list" where
  "register sp reg =
     (if spec_name sp \<in> set (map spec_name reg) then Inl DuplicateOperation else Inr (reg @ [sp]))"

definition lookup :: "'s operation_spec list \<Rightarrow> string \<Rightarrow> error + 's operation_spec" where
  "lookup reg n =
     (case find (\<lambda>sp. spec_name sp = n) reg of None \<Rightarrow> Inl UnknownOperation | Some sp \<Rightarrow> Inr sp)"

text \<open>
  Modelled from the spec: an argument is a literal or a SymbolicRef \<open>(producingStepId,
  outputField)\<close>; an Invocation is \<open>{operationName, arguments, stepId}\<close> (section 3); no
  source file declares them.
\<close>

datatype 'v argument = Literal 'v | SymbolicRef string string

record 'v invocation =
  operationName :: string
  arguments :: "(string \<times> 'v argument) list"
  stepId :: string

text \<open>
  Modelled from the spec: a StepResult \<open>{stepId, status, output: mapping | error}\<close> and a
  BatchReport, the ordered StepResults with an overall status (section 3); no source file
  declares them. A skipped step has the empty mapping as its output.
\<close>

datatype step_status = Success | Failed | Skipped

datatype 'v step_result = StepResult string step_status "error + (string \<times> 'v) list"

definition result_id :: "'v step_result \<Rightarrow> string" where
  "result_id r = (case r of StepResult i s out \<Rightarrow> i)"

definition status :: "'v step_result \<Rightarrow> step_status" where
  "status r = (case r of StepResult i s out \<Rightarrow> s)"

definition result_output :: "'v step_result \<Rightarrow> error + (string \<times> 'v) list" where
  "result_output r = (case r of StepResult i s out \<Rightarrow> out)"

datatype overall_status = Succeeded | BatchFailed | PartialSuccess

record 'v batch_report =
  steps :: "'v step_result list"
  overall :: overall_status

text \<open>
  Modelled from the spec: the Dependency Resolver (section 4.2); no source file implements
  it. It scans the invocations in submission order; every SymbolicRef must name a step
  declared earlier, or the batch fails with DanglingReference; an edge \<open>(A, B)\<close> says that
  the arguments of step \<open>B\<close> refer to the output of step \<open>A\<close>.
\<close>

definition refs :: "'v invocation \<Rightarrow> string list" where
  "refs step =
     concat (map (\<lambda>pa. case snd pa of Literal v \<Rightarrow> [] | SymbolicRef s f \<Rightarrow> [s]) (arguments step))"

fun resolve_from :: "string list \<Rightarrow> 'v invocation list \<Rightarrow> error + (string \<times> string) list" where
  "resolve_from declared [] = Inr []"
| "resolve_from declared (step # rest) =
     (if \<not> set (refs step) \<subseteq> set declared then Inl DanglingReference
      else (case resolve_from (declared @ [stepId step]) rest of
              Inl e \<Rightarrow> Inl e
            | Inr edges \<Rightarrow> Inr (map (\<lambda>s. (s, stepId step)) (refs step) @ edges)))"

definition resolve :: "'v invocation list \<Rightarrow> error + (string \<times> string) list" where
  "resolve batch = resolve_from [] batch"

text \<open>
  Modelled from the spec: the substitution of resolved SymbolicRefs by the values of the
  referenced StepResult's output, which fails with MissingOutputField when the field is
  absent (section 4.3); no source file implements it.
\<close>

definition lookup_output :: "'v step_result list \<Rightarrow> string \<Rightarrow> string \<Rightarrow> 'v option" where
  "lookup_output rs s f =
     (case find (\<lambda>r. result_id r = s) rs of
        None \<Rightarrow> None
      | Some r \<Rightarrow> (case result_output r of Inl e \<Rightarrow> None | Inr m \<Rightarrow> map_of m f))"

fun substitute :: "'v step_result list \<Rightarrow> (string \<times> 'v argument) list \<Rightarrow> error + (string \<times> 'v) list" where
  "substitute rs [] = Inr []"
| "substitute rs (pa # args) =
     (case (case snd pa of Literal v \<Rightarrow> Some v | SymbolicRef s f \<Rightarrow> lookup_output rs s f) of
        None \<Rightarrow> Inl MissingOutputField
      | Some v \<Rightarrow>
          (case substitute rs args of
             Inl e \<Rightarrow> Inl e
           | Inr vs \<Rightarrow> Inr ((fst pa, v) # vs)))"

text \<open>
  Modelled from the spec: the Batch Executor (sections 4.3 and 6); no source file
  implements it. The external executor capability \<open>cap\<close> takes the operation name and the
  resolved arguments and returns an output or a failure (\<open>None\<close>); it acts on the external
  state. The executor state holds the results so far, the external state, and the steps
  for which the capability was invoked (the invocation counter is the length of that
  list). A step runs when no failure has halted the batch and all the steps it depends
  on succeeded; otherwise it is skipped and the capability is not invoked.
\<close>

datatype failure_policy = HaltOnFirstFailure | ContinueIndependent

record ('v, 'w) exec_state =
  results :: "'v step_result list"
  world :: 'w
  invoked :: "string list"

definition dependencies :: "(string \<times> string) list \<Rightarrow> string \<Rightarrow> string list" where
  "dependencies edges b = map fst (filter (\<lambda>e. snd e = b) edges)"

definition succeeded :: "'v step_result list \<Rightarrow> string \<Rightarrow> bool" where
  "succeeded rs s =
     (case find (\<lambda>r. result_id r = s) rs of None \<Rightarrow> False | Some r \<Rightarrow> status r = Success)"

definition ready :: "failure_policy \<Rightarrow> (string \<times> string) list \<Rightarrow> 'v step_result list \<Rightarrow> 'v invocation \<Rightarrow> bool" where
  "ready policy edges rs step =
     (\<not> (policy = HaltOnFirstFailure \<and> Failed \<in> set (map status rs))
      \<and> list_all (succeeded rs) (dependencies edges (stepId step)))"

definition run_step ::
  "failure_policy \<Rightarrow> (string \<Rightarrow> (string \<times> 'v) list \<Rightarrow> 'w \<Rightarrow> (string \<times> 'v) list option \<times> 'w)
   \<Rightarrow> (string \<times> string) list \<Rightarrow> 'v invocation \<Rightarrow> ('v, 'w) exec_state \<Rightarrow> ('v, 'w) exec_state" where
  "run_step policy cap edges step st =
     (if \<not> ready policy edges (results st) step
        then st\<lparr>results := results st @ [StepResult (stepId step) Skipped (Inr [])]\<rparr>
      else (case substitute (results st) (arguments step) of
              Inl e \<Rightarrow> st\<lparr>results := results st @ [StepResult (stepId step) Failed (Inl e)]\<rparr>
            | Inr args \<Rightarrow>
                (case cap (operationName step) args (world st) of
                   (None, w) \<Rightarrow>
                     \<lparr>results = results st
                        @ [StepResult (stepId step) Failed (Inl ExternalExecutionError)],
                      world = w, invoked = invoked st @ [stepId step]\<rparr>
                 | (Some out, w) \<Rightarrow>
                     \<lparr>results = results st @ [StepResult (stepId step) Success (Inr out)],
                      world = w, invoked = invoked st @ [stepId step]\<rparr>)))"

fun run_steps ::
  "failure_policy \<Rightarrow> (string \<Rightarrow> (string \<times> 'v) list \<Rightarrow> 'w \<Rightarrow> (string \<times> 'v) list option \<times> 'w)
   \<Rightarrow> (string \<times> string) list \<Rightarrow> 'v invocation list \<Rightarrow> ('v, 'w) exec_state \<Rightarrow> ('v, 'w) exec_state" where
  "run_steps policy cap edges [] st = st"
| "run_steps policy cap edges (step # rest) st =
     run_steps policy cap edges rest (run_step policy cap edges step st)"

text \<open>
  Modelled from the spec: the Result Aggregator (section 4.4); no source file implements
  it. The report lists the StepResults in the order their stepIds have in the submitted
  batch; it is Failed if any step Failed, PartialSuccess if none Failed and some were
  Skipped, and Succeeded otherwise.
\<close>

fun position_in :: "string list \<Rightarrow> string \<Rightarrow> nat" where
  "position_in [] s = 0"
| "position_in (t # ts) s = (if t = s then 0 else Suc (position_in ts s))"

definition aggregate :: "string list \<Rightarrow> 'v step_result list \<Rightarrow> 'v batch_report" where
  "aggregate order rs =
     \<lparr>steps = sort_key (\<lambda>r. position_in order (result_id r)) rs,
      overall =
        (if Failed \<in> set (map status rs) then BatchFailed
         else if Skipped \<in> set (map status rs) then PartialSuccess
         else Succeeded)\<rparr>"

text \<open>
  Modelled from the spec: the control flow of a submitted batch (sections 2 and 7); no
  source file implements it. The resolver comes first, then the lookup of every operation
  in the registry. Resolver and registry errors abort the batch before any step runs: the
  external state is as it was and the capability was not invoked. Otherwise the executor
  walks the steps and the aggregator builds the report.
\<close>

definition run_batch ::
  "'s operation_spec list \<Rightarrow> (string \<Rightarrow> (string \<times> 'v) list \<Rightarrow> 'w \<Rightarrow> (string \<times> 'v) list option \<times> 'w)
   \<Rightarrow> failure_policy \<Rightarrow> 'v invocation list \<Rightarrow> 'w \<Rightarrow> (error + 'v batch_report) \<times> 'w \<times> string list" where
  "run_batch reg cap policy batch w =
     (case resolve batch of
        Inl e \<Rightarrow> (Inl e, w, [])
      | Inr edges \<Rightarrow>
          (if \<not> set (map operationName batch) \<subseteq> set (map spec_name reg)
             then (Inl UnknownOperation, w, [])
           else (let st = run_steps policy cap edges batch \<lparr>results = [], world = w, invoked = []\<rparr>
                 in (Inr (aggregate (map stepId batch) (results st)), world st, invoked st))))"

section \<open>The numbers the handlers print\<close>

lemma format_0_1: "format_decimal 1 (- 1) = ''0.1''" "format_decimal (Suc 0) (- 1) = ''0.1''"
  by code_simp+
lemma format_0_05: "format_decimal 5 (- 2) = ''0.05''" by code_simp
lemma format_0_5: "format_decimal 5 (- 1) = ''0.5''" by code_simp
lemma format_1: "format_decimal 1 0 = ''1''" "format_decimal (Suc 0) 0 = ''1''"
  by code_simp+
lemma format_2_5: "format_decimal 25 (- 1) = ''2.5''" by code_simp
lemma format_4: "format_decimal 4 0 = ''4''" by code_simp
lemma format_6_5: "format_decimal 65 (- 1) = ''6.5''" by code_simp
lemma format_10: "format_decimal 10 0 = ''10''" by code_simp
lemma format_100: "format_decimal 100 0 = ''100''" by code_simp
lemma format_180: "format_decimal 180 0 = ''180''" by code_simp
lemma format_200: "format_decimal 200 0 = ''200''" by code_simp
lemma format_1000: "format_decimal 1000 0 = ''1000''" by code_simp

lemma num_0: "Number_toString (Dec False 0 0) = js ''0''"
  by (simp add: Number_toString_def)

lemma num_0_1: "Number_toString (Dec False 1 (- 1)) = js ''0.1''"
    "Number_toString (Dec False (Suc 0) (- 1)) = js ''0.1''"
  by (simp_all add: Number_toString_def format_0_1)

lemma num_0_05: "Number_toString (Dec False 5 (- 2)) = js ''0.05''"
  by (simp add: Number_toString_def format_0_05)

lemma num_0_5: "Number_toString (Dec False 5 (- 1)) = js ''0.5''"
  by (simp add: Number_toString_def format_0_5)

lemma num_1: "Number_toString (Dec False 1 0) = js ''1''"
    "Number_toString (Dec False (Suc 0) 0) = js ''1''"
  by (simp_all add: Number_toString_def format_1)

lemma num_2_5: "Number_toString (Dec False 25 (- 1)) = js ''2.5''"
  by (simp add: Number_toString_def format_2_5)

lemma num_4: "Number_toString (Dec False 4 0) = js ''4''"
  by (simp add: Number_toString_def format_4)

lemma num_6_5: "Number_toString (Dec False 65 (- 1)) = js ''6.5''"
  by (simp add: Number_toString_def format_6_5)

lemma num_10: "Number_toString (Dec False 10 0) = js ''10''"
  by (simp add: Number_toString_def format_10)

lemma num_100: "Number_toString (Dec False 100 0) = js ''100''"
  by (simp add: Number_toString_def format_100)

lemma num_180: "Number_toString (Dec False 180 0) = js ''180''"
  by (simp add: Number_toString_def format_180)

lemma num_200: "Number_toString (Dec False 200 0) = js ''200''"
  by (simp add: Number_toString_def format_200)

lemma num_1000: "Number_toString (Dec False 1000 0) = js ''1000''"
  by (simp add: Number_toString_def format_1000)

lemmas default_numbers = num_def num_0 num_0_1 num_0_05 num_0_5 num_1 num_4 num_6_5 num_10 num_100
  num_180 num_200 num_1000

section \<open>The mock queries\<close>

lemma unat_of_nat_16: "m < 65536 \<Longrightarrow> unat (of_nat m :: 16 word) = m"
  by (simp add: unat_of_nat)

lemma unat_hex_digit: "n < 16 \<Longrightarrow> unat (hex_digit n) = (if n < 10 then 48 + n else 87 + n)"
  by (simp add: hex_digit_def unat_of_nat_16 del: of_nat_add)

lemma hex_value_hex_digit: "n < 16 \<Longrightarrow> hex_value (hex_digit n) = Some n"
  by (simp add: hex_value_def unat_hex_digit Let_def)

lemma horner_16:
  fixes p q r s :: nat
  shows "4096 * p + 256 * q + 16 * r + s = 16 * (16 * (16 * p + q) + r) + s"
  by simp

lemma hex_digits_value:
  fixes n :: nat
  shows "4096 * (n div 4096) + 256 * (n div 256 mod 16) + 16 * (n div 16 mod 16) + n mod 16 = n"
proof -
  define a where "a = n div 16"
  define b where "b = a div 16"
  have d: "n div 256 = b" "n div 4096 = b div 16"
    by (simp_all add: a_def b_def div_mult2_eq)
  have 1: "16 * a + n mod 16 = n"
    by (simp add: a_def)
  have 2: "16 * b + a mod 16 = a"
    by (simp add: b_def)
  have 3: "16 * (b div 16) + b mod 16 = b"
    by simp
  have "4096 * (b div 16) + 256 * (b mod 16) + 16 * (a mod 16) + n mod 16
        = 16 * (16 * (16 * (b div 16) + b mod 16) + a mod 16) + n mod 16"
    by (rule horner_16)
  also have "\<dots> = n"
    by (simp only: 3 2 1)
  finally show ?thesis
    by (simp only: d a_def [symmetric])
qed

lemma unat_16_less: "unat (c :: 16 word) < 65536"
  using unsigned_less [of c, where ?'a = nat] by simp

lemma parse_UnicodeEscape:
  "parse_chars (UnicodeEscape c @ xs) = prepend c (parse_chars xs)"
proof -
  have "unat c div 4096 < 16"
    using unat_16_less [of c] by simp
  then show ?thesis
    by (simp add: UnicodeEscape_def hex_value_hex_digit hex_digits_value)
qed

lemma parse_literal:
  "c \<noteq> 0x22 \<Longrightarrow> c \<noteq> 0x5C \<Longrightarrow> \<not> unat c < 0x20 \<Longrightarrow>
   parse_chars (c # xs) = prepend c (parse_chars xs)"
  by simp

lemma parse_escape_unit: "parse_chars (escape_unit c @ xs) = prepend c (parse_chars xs)"
  by (simp add: escape_unit_def parse_UnicodeEscape simple_escape_def)

lemma surrogate_literal:
  assumes "is_leading_surrogate c \<or> is_trailing_surrogate c"
  shows "parse_chars (c # xs) = prepend c (parse_chars xs)"
proof -
  from assms have "55296 \<le> unat c"
    by (auto simp: is_leading_surrogate_def is_trailing_surrogate_def)
  then have "c \<noteq> 0x22" and "c \<noteq> 0x5C" and "\<not> unat c < 0x20"
    by auto
  then show ?thesis
    by (rule parse_literal)
qed

lemma parse_quote_units:
  "parse_chars (quote_units s @ 0x22 # rest) = Some (s, rest)"
proof (induction s rule: quote_units.induct)
  case 1
  show ?case by simp
next
  case (2 c)
  show ?case
    by (simp add: parse_escape_unit prepend_def)
next
  case (3 c d ds)
  show ?case
  proof (cases "is_leading_surrogate c \<and> is_trailing_surrogate d")
    case True
    with 3 have "parse_chars (quote_units ds @ 0x22 # rest) = Some (ds, rest)"
      by simp
    with True show ?thesis
      by (simp add: surrogate_literal prepend_def del: parse_chars.simps)
  next
    case False
    with 3 have "parse_chars (quote_units (d # ds) @ 0x22 # rest) = Some (d # ds, rest)"
      by simp
    moreover from False have "quote_units (c # d # ds) = escape_unit c @ quote_units (d # ds)"
      by (simp only: quote_units.simps if_False)
    ultimately show ?thesis
      by (simp add: parse_escape_unit prepend_def del: parse_chars.simps quote_units.simps)
  qed
qed

lemma parse_QuoteJSONString: "JSON_parse_string (QuoteJSONString s @ rest) = Some (s, rest)"
  by (simp add: JSON_parse_string_def QuoteJSONString_def parse_quote_units del: parse_chars.simps)

lemma QuoteJSONString_inj: "inj QuoteJSONString"
proof (rule injI)
  fix s t
  assume "QuoteJSONString s = QuoteJSONString t"
  then have "JSON_parse_string (QuoteJSONString s @ []) = JSON_parse_string (QuoteJSONString t @ [])"
    by simp
  then show "s = t"
    by (simp only: parse_QuoteJSONString) simp
qed

lemma getNode_text_exact:
  \<open>getNode_handler (GetNodeArgs nodeName) =
     \<lparr>content = [\<lparr>item_type = js ''text'', item_text =
        js ''{'' @ LF
        @ js ''  "name": '' @ QuoteJSONString nodeName @ js '','' @ LF
        @ js ''  "type": "Blur",'' @ LF
        @ js ''  "knobs": {'' @ LF
        @ js ''    "size": 2.5,'' @ LF
        @ js ''    "channels": "rgba",'' @ LF
        @ js ''    "filter": "gaussian"'' @ LF
        @ js ''  },'' @ LF
        @ js ''  "position": {'' @ LF
        @ js ''    "x": 100,'' @ LF
        @ js ''    "y": 200'' @ LF
        @ js ''  }'' @ LF
        @ js ''}''\<rparr>]\<rparr>\<close>
proof -
  have q: "QuoteJSONString (js s) = js (''\"'' @ s @ ''\"'')"
    if "s \<in> {''name'', ''type'', ''knobs'', ''size'', ''channels'', ''filter'', ''position'',
                ''x'', ''y'', ''Blur'', ''rgba'', ''gaussian''}" for s
    using that
    by (auto simp: QuoteJSONString_def js_def escape_unit_def is_leading_surrogate_def
        is_trailing_surrogate_def)
  show ?thesis
    by (simp add: JSON_stringify2_def mockNodeInfo_def json_wrap_def num_def num_100 num_200
        num_2_5 q) (simp add: js_def LF_def)
qed

lemma getNodePosition_text_exact:
  \<open>getNodePosition_handler (GetNodePositionArgs nodeName) =
     \<lparr>content = [\<lparr>item_type = js ''text'', item_text =
        js ''{'' @ LF
        @ js ''  "x": 100,'' @ LF
        @ js ''  "y": 200'' @ LF
        @ js ''}''\<rparr>]\<rparr>\<close>
proof -
  have q: "QuoteJSONString (js s) = js (''\"'' @ s @ ''\"'')" if "s \<in> {''x'', ''y''}" for s
    using that
    by (auto simp: QuoteJSONString_def js_def escape_unit_def is_leading_surrogate_def
        is_trailing_surrogate_def)
  show ?thesis
    by (simp add: JSON_stringify2_def mockPosition_def json_wrap_def num_def num_100 num_200 q)
      (simp add: js_def LF_def)
qed

lemma quote_sample:
  \<open>QuoteJSONString (js ''a"b'' @ [0x5C, 0x0A, 0x1F, 0xD800, 0xD83D, 0xDE00, 0xE9])
   = js ''"a'' @ [0x5C] @ js ''"b'' @ [0x5C, 0x5C, 0x5C] @ js ''n'' @ [0x5C] @ js ''u001f''
     @ [0x5C] @ js ''ud800'' @ [0xD83D, 0xDE00, 0xE9] @ js ''"''\<close>
  by (simp add: QuoteJSONString_def js_def escape_unit_def UnicodeEscape_def hex_digit_def
      is_leading_surrogate_def is_trailing_surrogate_def)

text \<open>
  C8. For every \<open>nodeName\<close>, a string of UTF-16 code units, the text \<open>getNode\<close> returns is
  the JSON object, indented by two spaces, whose \<open>name\<close> is the quoted \<open>nodeName\<close> and whose
  other fields are fixed: type \<open>Blur\<close>, knobs \<open>size 2.5\<close>, \<open>channels rgba\<close>,
  \<open>filter gaussian\<close>, position \<open>x 100\<close>, \<open>y 200\<close>. The text \<open>getNodePosition\<close> returns is
  the fixed position \<open>x 100\<close>, \<open>y 200\<close>, whatever \<open>nodeName\<close> is. The \<open>name\<close> field holds
  the supplied \<open>nodeName\<close>: reading the JSON string that stands after the first twelve code
  units of the text gives back \<open>nodeName\<close> and leaves the fixed rest of the text; more
  generally the quotation of any string, followed by any text, reads back as that string
  and that text. The last conjunct shows the escapes on a sample: a double quote, a
  backslash, a line feed, the code unit \<open>0x1F\<close>, a leading surrogate on its own, a
  surrogate pair and a code unit above \<open>0x7F\<close>.
\<close>

theorem mock_queries:
  \<open>getNode_handler (GetNodeArgs nodeName) =
     \<lparr>content = [\<lparr>item_type = js ''text'', item_text =
        js ''{'' @ LF
        @ js ''  "name": '' @ QuoteJSONString nodeName @ js '','' @ LF
        @ js ''  "type": "Blur",'' @ LF
        @ js ''  "knobs": {'' @ LF
        @ js ''    "size": 2.5,'' @ LF
        @ js ''    "channels": "rgba",'' @ LF
        @ js ''    "filter": "gaussian"'' @ LF
        @ js ''  },'' @ LF
        @ js ''  "position": {'' @ LF
        @ js ''    "x": 100,'' @ LF
        @ js ''    "y": 200'' @ LF
        @ js ''  }'' @ LF
        @ js ''}''\<rparr>]\<rparr>
   \<and> getNodePosition_handler (GetNodePositionArgs nodeName) =
     \<lparr>content = [\<lparr>item_type = js ''text'', item_text =
        js ''{'' @ LF
        @ js ''  "x": 100,'' @ LF
        @ js ''  "y": 200'' @ LF
        @ js ''}''\<rparr>]\<rparr>
   \<and> take 12 (item_text (hd (content (getNode_handler (GetNodeArgs nodeName)))))
       = js ''{'' @ LF @ js ''  "name": ''
   \<and> JSON_parse_string (drop 12 (item_text (hd (content (getNode_handler (GetNodeArgs nodeName))))))
       = Some (nodeName,
           js '','' @ LF
           @ js ''  "type": "Blur",'' @ LF
           @ js ''  "knobs": {'' @ LF
           @ js ''    "size": 2.5,'' @ LF
           @ js ''    "channels": "rgba",'' @ LF
           @ js ''    "filter": "gaussian"'' @ LF
           @ js ''  },'' @ LF
           @ js ''  "position": {'' @ LF
           @ js ''    "x": 100,'' @ LF
           @ js ''    "y": 200'' @ LF
           @ js ''  }'' @ LF
           @ js ''}'')
   \<and> JSON_parse_string (QuoteJSONString s @ rest) = Some (s, rest)
   \<and> inj QuoteJSONString
   \<and> QuoteJSONString (js ''a"b'' @ [0x5C, 0x0A, 0x1F, 0xD800, 0xD83D, 0xDE00, 0xE9])
       = js ''"a'' @ [0x5C] @ js ''"b'' @ [0x5C, 0x5C, 0x5C] @ js ''n'' @ [0x5C] @ js ''u001f''
         @ [0x5C] @ js ''ud800'' @ [0xD83D, 0xDE00, 0xE9] @ js ''"''\<close>
proof (intro conjI)
  let ?prefix = \<open>js ''{'' @ LF @ js ''  "name": ''\<close>
  have len: "length ?prefix = 12"
    by (simp add: js_def LF_def)
  show \<open>take 12 (item_text (hd (content (getNode_handler (GetNodeArgs nodeName)))))
       = js ''{'' @ LF @ js ''  "name": ''\<close>
    unfolding getNode_text_exact using len by (simp del: getNode_handler.simps)
  show \<open>JSON_parse_string (drop 12 (item_text (hd (content (getNode_handler (GetNodeArgs nodeName))))))
       = Some (nodeName,
           js '','' @ LF
           @ js ''  "type": "Blur",'' @ LF
           @ js ''  "knobs": {'' @ LF
           @ js ''    "size": 2.5,'' @ LF
           @ js ''    "channels": "rgba",'' @ LF
           @ js ''    "filter": "gaussian"'' @ LF
           @ js ''  },'' @ LF
           @ js ''  "position": {'' @ LF
           @ js ''    "x": 100,'' @ LF
           @ js ''    "y": 200'' @ LF
           @ js ''  }'' @ LF
           @ js ''}'')\<close>
    unfolding getNode_text_exact using len
    by (simp add: parse_QuoteJSONString del: getNode_handler.simps)
qed (rule getNode_text_exact getNodePosition_text_exact parse_QuoteJSONString
    QuoteJSONString_inj quote_sample)+
section \<open>What the handlers return\<close>

lemma createNode_prints:
  \<open>createNode_handler (CreateNodeArgs nodeType name position inputs) =
     \<lparr>content = [\<lparr>item_type = js ''text'', item_text =
        js ''Created '' @ nodeType @ js '' node''
        @ (case name of None \<Rightarrow> [] | Some n \<Rightarrow> if n = [] then [] else js '' named "'' @ n @ js ''"'')
        @ (case position of None \<Rightarrow> []
           | Some (Position px py) \<Rightarrow>
               js '' at position ('' @ Number_toString px @ js '', '' @ Number_toString py @ js '')'')
        @ (case inputs of None \<Rightarrow> []
           | Some names \<Rightarrow> js '' with inputs: '' @ Array_join (js '', '') names)\<rparr>]\<rparr>\<close>
  by (simp add: if_truthy_def if_present_def or_default_def position_x_def position_y_def Let_def default_numbers
      direction_str_def screenColor_str_def deepOperation_str_def forceNode_str_def
      solveMethod_str_def keyerType_str_def vectorMethod_str_def distortionModel_str_def
      grainType_str_def knob_json_def JSON_stringify_def
      split: option.splits position.splits direction.splits screenColor.splits list.splits)

lemma setKnobValue_prints:
  \<open>setKnobValue_handler (SetKnobValueArgs nodeName knobName v) =
     \<lparr>content = [\<lparr>item_type = js ''text'', item_text =
        js ''Set knob "'' @ knobName @ js ''" on node "'' @ nodeName @ js ''" to value: ''
        @ JSON_stringify (knob_json v)\<rparr>]\<rparr>\<close>
  by (simp add: if_truthy_def if_present_def or_default_def position_x_def position_y_def Let_def default_numbers
      direction_str_def screenColor_str_def deepOperation_str_def forceNode_str_def
      solveMethod_str_def keyerType_str_def vectorMethod_str_def distortionModel_str_def
      grainType_str_def knob_json_def JSON_stringify_def
      split: option.splits position.splits direction.splits screenColor.splits list.splits)

lemma getNode_prints:
  \<open>getNode_handler (GetNodeArgs nodeName) =
     \<lparr>content = [\<lparr>item_type = js ''text'', item_text =
        js ''{'' @ LF
        @ js ''  "name": '' @ QuoteJSONString nodeName @ js '','' @ LF
        @ js ''  "type": "Blur",'' @ LF
        @ js ''  "knobs": {'' @ LF
        @ js ''    "size": 2.5,'' @ LF
        @ js ''    "channels": "rgba",'' @ LF
        @ js ''    "filter": "gaussian"'' @ LF
        @ js ''  },'' @ LF
        @ js ''  "position": {'' @ LF
        @ js ''    "x": 100,'' @ LF
        @ js ''    "y": 200'' @ LF
        @ js ''  }'' @ LF
        @ js ''}''\<rparr>]\<rparr>\<close>
  by (rule getNode_text_exact)

lemma execute_prints:
  \<open>execute_handler (ExecuteArgs nodeName frameRange) =
     \<lparr>content = [\<lparr>item_type = js ''text'', item_text =
        js ''Executing Write node "'' @ nodeName @ js ''"''
        @ (case frameRange of None \<Rightarrow> []
           | Some f \<Rightarrow> if f = [] then [] else js '' for frame range: '' @ f)\<rparr>]\<rparr>\<close>
  by (simp add: if_truthy_def if_present_def or_default_def position_x_def position_y_def Let_def default_numbers
      direction_str_def screenColor_str_def deepOperation_str_def forceNode_str_def
      solveMethod_str_def keyerType_str_def vectorMethod_str_def distortionModel_str_def
      grainType_str_def knob_json_def JSON_stringify_def
      split: option.splits position.splits direction.splits screenColor.splits list.splits)

lemma connectNodes_prints:
  \<open>connectNodes_handler (ConnectNodesArgs fromNode toNode inputIndex) =
     \<lparr>content = [\<lparr>item_type = js ''text'', item_text =
        js ''Connected node "'' @ fromNode @ js ''" to input ''
        @ (case inputIndex of None \<Rightarrow> js ''0'' | Some i \<Rightarrow> Number_toString i)
        @ js '' of node "'' @ toNode @ js ''"''\<rparr>]\<rparr>\<close>
  by (simp add: if_truthy_def if_present_def or_default_def position_x_def position_y_def Let_def default_numbers
      direction_str_def screenColor_str_def deepOperation_str_def forceNode_str_def
      solveMethod_str_def keyerType_str_def vectorMethod_str_def distortionModel_str_def
      grainType_str_def knob_json_def JSON_stringify_def
      split: option.splits position.splits direction.splits screenColor.splits list.splits)

lemma setNodePosition_prints:
  \<open>setNodePosition_handler (SetNodePositionArgs nodeName (Position px py)) =
     \<lparr>content = [\<lparr>item_type = js ''text'', item_text =
        js ''Set position of node "'' @ nodeName @ js ''" to ('' @ Number_toString px
        @ js '', '' @ Number_toString py @ js '')''\<rparr>]\<rparr>\<close>
  by (simp add: if_truthy_def if_present_def or_default_def position_x_def position_y_def Let_def default_numbers
      direction_str_def screenColor_str_def deepOperation_str_def forceNode_str_def
      solveMethod_str_def keyerType_str_def vectorMethod_str_def distortionModel_str_def
      grainType_str_def knob_json_def JSON_stringify_def
      split: option.splits position.splits direction.splits screenColor.splits list.splits)

lemma getNodePosition_prints:
  \<open>getNodePosition_handler (GetNodePositionArgs nodeName) =
     \<lparr>content = [\<lparr>item_type = js ''text'', item_text =
        js ''{'' @ LF
        @ js ''  "x": 100,'' @ LF
        @ js ''  "y": 200'' @ LF
        @ js ''}''\<rparr>]\<rparr>\<close>
  by (rule getNodePosition_text_exact)

lemma createGroup_prints:
  \<open>createGroup_handler (CreateGroupArgs name nodes position) =
     \<lparr>content = [\<lparr>item_type = js ''text'', item_text =
        js ''Created group "'' @ name @ js ''" containing nodes: '' @ Array_join (js '', '') nodes
        @ (case position of None \<Rightarrow> []
           | Some (Position px py) \<Rightarrow>
               js '' at position ('' @ Number_toString px @ js '', '' @ Number_toString py @ js '')'')\<rparr>]\<rparr>\<close>
  by (simp add: if_truthy_def if_present_def or_default_def position_x_def position_y_def Let_def default_numbers
      direction_str_def screenColor_str_def deepOperation_str_def forceNode_str_def
      solveMethod_str_def keyerType_str_def vectorMethod_str_def distortionModel_str_def
      grainType_str_def knob_json_def JSON_stringify_def
      split: option.splits position.splits direction.splits screenColor.splits list.splits)

lemma createLiveGroup_prints:
  \<open>createLiveGroup_handler (CreateLiveGroupArgs name nodes position savePath) =
     \<lparr>content = [\<lparr>item_type = js ''text'', item_text =
        js ''Created LiveGroup "'' @ name @ js ''" containing nodes: '' @ Array_join (js '', '') nodes
        @ (case position of None \<Rightarrow> []
           | Some (Position px py) \<Rightarrow>
               js '' at position ('' @ Number_toString px @ js '', '' @ Number_toString py @ js '')'')
        @ (case savePath of None \<Rightarrow> []
           | Some p \<Rightarrow> if p = [] then [] else js '' and saved to "'' @ p @ js ''"'')\<rparr>]\<rparr>\<close>
  by (simp add: if_truthy_def if_present_def or_default_def position_x_def position_y_def Let_def default_numbers
      direction_str_def screenColor_str_def deepOperation_str_def forceNode_str_def
      solveMethod_str_def keyerType_str_def vectorMethod_str_def distortionModel_str_def
      grainType_str_def knob_json_def JSON_stringify_def
      split: option.splits position.splits direction.splits screenColor.splits list.splits)

lemma loadTemplate_prints:
  \<open>loadTemplate_handler (LoadTemplateArgs templatePath position) =
     \<lparr>content = [\<lparr>item_type = js ''text'', item_text =
        js ''Loaded template from "'' @ templatePath @ js ''"''
        @ (case position of None \<Rightarrow> []
           | Some (Position px py) \<Rightarrow>
               js '' at position ('' @ Number_toString px @ js '', '' @ Number_toString py @ js '')'')\<rparr>]\<rparr>\<close>
  by (simp add: if_truthy_def if_present_def or_default_def position_x_def position_y_def Let_def default_numbers
      direction_str_def screenColor_str_def deepOperation_str_def forceNode_str_def
      solveMethod_str_def keyerType_str_def vectorMethod_str_def distortionModel_str_def
      grainType_str_def knob_json_def JSON_stringify_def
      split: option.splits position.splits direction.splits screenColor.splits list.splits)

lemma saveTemplate_prints:
  \<open>saveTemplate_handler (SaveTemplateArgs nodes savePath name) =
     \<lparr>content = [\<lparr>item_type = js ''text'', item_text =
        js ''Saved template "'' @ name @ js ''" containing nodes: '' @ Array_join (js '', '') nodes
        @ js '' to "'' @ savePath @ js ''"''\<rparr>]\<rparr>\<close>
  by (simp add: if_truthy_def if_present_def or_default_def position_x_def position_y_def Let_def default_numbers
      direction_str_def screenColor_str_def deepOperation_str_def forceNode_str_def
      solveMethod_str_def keyerType_str_def vectorMethod_str_def distortionModel_str_def
      grainType_str_def knob_json_def JSON_stringify_def
      split: option.splits position.splits direction.splits screenColor.splits list.splits)

lemma autoArrangeNodes_prints:
  \<open>autoArrangeNodes_handler (AutoArrangeNodesArgs nodes direction spacing) =
     \<lparr>content = [\<lparr>item_type = js ''text'', item_text =
        js ''Auto-arranged ''
        @ (case nodes of None \<Rightarrow> js ''all nodes''
           | Some names \<Rightarrow> js ''nodes: '' @ Array_join (js '', '') names)
        @ js '' in ''
        @ (case direction of None \<Rightarrow> js ''horizontal'' | Some Horizontal \<Rightarrow> js ''horizontal''
           | Some Vertical \<Rightarrow> js ''vertical'')
        @ js '' direction with spacing ''
        @ (case spacing of None \<Rightarrow> js ''100'' | Some n \<Rightarrow> Number_toString n)\<rparr>]\<rparr>\<close>
  by (simp add: if_truthy_def if_present_def or_default_def position_x_def position_y_def Let_def default_numbers
      direction_str_def screenColor_str_def deepOperation_str_def forceNode_str_def
      solveMethod_str_def keyerType_str_def vectorMethod_str_def distortionModel_str_def
      grainType_str_def knob_json_def JSON_stringify_def
      split: option.splits position.splits direction.splits screenColor.splits list.splits)

lemma createBackdrop_prints:
  \<open>createBackdrop_handler (CreateBackdropArgs name nodes label color) =
     \<lparr>content = [\<lparr>item_type = js ''text'', item_text =
        js ''Created backdrop "'' @ name @ js ''" containing nodes: '' @ Array_join (js '', '') nodes
        @ (case label of None \<Rightarrow> []
           | Some l \<Rightarrow> if l = [] then [] else js '' with label "'' @ l @ js ''"'')
        @ (case color of None \<Rightarrow> []
           | Some c \<Rightarrow> if c = [] then [] else js '' and color "'' @ c @ js ''"'')\<rparr>]\<rparr>\<close>
  by (simp add: if_truthy_def if_present_def or_default_def position_x_def position_y_def Let_def default_numbers
      direction_str_def screenColor_str_def deepOperation_str_def forceNode_str_def
      solveMethod_str_def keyerType_str_def vectorMethod_str_def distortionModel_str_def
      grainType_str_def knob_json_def JSON_stringify_def
      split: option.splits position.splits direction.splits screenColor.splits list.splits)

lemma setupCameraTracking_prints:
  \<open>setupCameraTracking_handler
       (SetupCameraTrackingArgs sourceName trackingPoints createScene solveMethod exportPath) =
     \<lparr>content = [\<lparr>item_type = js ''text'', item_text =
        js ''Set up camera tracking for "'' @ sourceName @ js ''" with ''
        @ (case trackingPoints of None \<Rightarrow> js ''10'' | Some n \<Rightarrow> Number_toString n)
        @ js '' tracking points using ''
        @ (case solveMethod of None \<Rightarrow> js ''MatchMove'' | Some m \<Rightarrow> solveMethod_str m)
        @ js '' method''
        @ (if createScene = Some True then js '' and created a 3D scene'' else [])
        @ (case exportPath of None \<Rightarrow> []
           | Some p \<Rightarrow>
               if p = [] then [] else js '' and exported tracking data to "'' @ p @ js ''"'')\<rparr>]\<rparr>\<close>
  by (simp add: if_truthy_def if_present_def or_default_def position_x_def position_y_def Let_def default_numbers
      direction_str_def screenColor_str_def deepOperation_str_def forceNode_str_def
      solveMethod_str_def keyerType_str_def vectorMethod_str_def distortionModel_str_def
      grainType_str_def knob_json_def JSON_stringify_def
      split: option.splits position.splits direction.splits screenColor.splits list.splits)

lemma setupDeepCompositing_prints:
  \<open>setupDeepCompositing_handler (SetupDeepCompositingArgs sourceName outputName operations) =
     \<lparr>content = [\<lparr>item_type = js ''text'', item_text =
        js ''Set up deep compositing pipeline from "'' @ sourceName @ js ''" with operations: ''
        @ (case operations of None \<Rightarrow> js ''DeepRecolor, DeepToImage''
           | Some ops \<Rightarrow> Array_join (js '', '') (map deepOperation_str ops))
        @ (case outputName of None \<Rightarrow> []
           | Some out \<Rightarrow> if out = [] then [] else js '' and output node "'' @ out @ js ''"'')\<rparr>]\<rparr>\<close>
  by (simp add: if_truthy_def if_present_def or_default_def position_x_def position_y_def Let_def default_numbers
      direction_str_def screenColor_str_def deepOperation_str_def forceNode_str_def
      solveMethod_str_def keyerType_str_def vectorMethod_str_def distortionModel_str_def
      grainType_str_def knob_json_def JSON_stringify_def
      split: option.splits position.splits direction.splits screenColor.splits list.splits)
    (simp add: js_def)

lemma batchProcess_prints:
  \<open>batchProcess_handler
       (BatchProcessArgs scriptPath inputFiles outputDir frameRange fileType threads) =
     \<lparr>content = [\<lparr>item_type = js ''text'', item_text =
        js ''Batch processed '' @ Number_toString (num (length inputFiles))
        @ js '' files using script "'' @ scriptPath @ js ''" to output directory "'' @ outputDir
        @ js ''" as '' @ (case fileType of None \<Rightarrow> js ''exr'' | Some t \<Rightarrow> t) @ js '' files''
        @ (case frameRange of None \<Rightarrow> []
           | Some f \<Rightarrow> if f = [] then [] else js '' for frame range: '' @ f)
        @ js '' using '' @ (case threads of None \<Rightarrow> js ''4'' | Some n \<Rightarrow> Number_toString n)
        @ js '' threads''\<rparr>]\<rparr>\<close>
  by (simp add: if_truthy_def if_present_def or_default_def position_x_def position_y_def Let_def default_numbers
      direction_str_def screenColor_str_def deepOperation_str_def forceNode_str_def
      solveMethod_str_def keyerType_str_def vectorMethod_str_def distortionModel_str_def
      grainType_str_def knob_json_def JSON_stringify_def
      split: option.splits position.splits direction.splits screenColor.splits list.splits)

lemma setupMachineLearning_prints:
  \<open>setupMachineLearning_handler
       (SetupMachineLearningArgs modelPath inputNode outputNode gpuEnabled inferenceParams) =
     \<lparr>content = [\<lparr>item_type = js ''text'', item_text =
        js ''Set up machine learning pipeline using model "'' @ modelPath
        @ js ''" with input node "'' @ inputNode @ js ''"''
        @ (case outputNode of None \<Rightarrow> []
           | Some out \<Rightarrow> if out = [] then [] else js '' and output node "'' @ out @ js ''"'')
        @ js '', GPU '' @ (if gpuEnabled = Some False then js ''disabled'' else js ''enabled'')
        @ js '', inference parameters: ''
        @ (case inferenceParams of None \<Rightarrow> js ''{}''
           | Some params \<Rightarrow> JSON_stringify (knob_json (KRecord params)))\<rparr>]\<rparr>\<close>
  by (simp add: if_truthy_def if_present_def or_default_def position_x_def position_y_def Let_def default_numbers
      direction_str_def screenColor_str_def deepOperation_str_def forceNode_str_def
      solveMethod_str_def keyerType_str_def vectorMethod_str_def distortionModel_str_def
      grainType_str_def knob_json_def JSON_stringify_def
      split: option.splits position.splits direction.splits screenColor.splits list.splits)
    (simp add: json_wrap_def js_def)

lemma setupKeying_prints:
  \<open>setupKeying_handler
       (SetupKeyingArgs sourceName screenColor customColor keyerType despill edgeRefinement
          outputName) =
     \<lparr>content = [\<lparr>item_type = js ''text'', item_text =
        js ''Set up keying pipeline for "'' @ sourceName @ js ''" using ''
        @ (case keyerType of None \<Rightarrow> js ''Keylight'' | Some k \<Rightarrow> keyerType_str k)
        @ js '' with ''
        @ (case screenColor of None \<Rightarrow> js ''green''
           | Some Custom \<Rightarrow> (case customColor of None \<Rightarrow> js ''#00FF00'' | Some c \<Rightarrow> c)
           | Some Green \<Rightarrow> js ''green'' | Some Blue \<Rightarrow> js ''blue'' | Some Red \<Rightarrow> js ''red'')
        @ js '' screen''
        @ (if despill = Some False then [] else js '', despill correction'')
        @ (if edgeRefinement = Some False then [] else js '', edge refinement'')
        @ (case outputName of None \<Rightarrow> []
           | Some out \<Rightarrow> if out = [] then [] else js '' and output node "'' @ out @ js ''"'')\<rparr>]\<rparr>\<close>
  by (simp add: if_truthy_def if_present_def or_default_def position_x_def position_y_def Let_def default_numbers
      direction_str_def screenColor_str_def deepOperation_str_def forceNode_str_def
      solveMethod_str_def keyerType_str_def vectorMethod_str_def distortionModel_str_def
      grainType_str_def knob_json_def JSON_stringify_def
      split: option.splits position.splits direction.splits screenColor.splits list.splits)

lemma setupMotionBlur_prints:
  \<open>setupMotionBlur_handler
       (SetupMotionBlurArgs sourceName vectorName vectorMethod amount samples shutterAngle
          outputName) =
     \<lparr>content = [\<lparr>item_type = js ''text'', item_text =
        js ''Set up motion blur for "'' @ sourceName @ js ''"''
        @ (if vectorName = None \<or> vectorName = Some []
           then js '' using ''
                @ (case vectorMethod of None \<Rightarrow> js ''VectorGenerator'' | Some m \<Rightarrow> vectorMethod_str m)
           else js '' using vector node "'' @ (case vectorName of None \<Rightarrow> [] | Some v \<Rightarrow> v) @ js ''"'')
        @ js '' with amount '' @ (case amount of None \<Rightarrow> js ''1'' | Some n \<Rightarrow> Number_toString n)
        @ js '', '' @ (case samples of None \<Rightarrow> js ''10'' | Some n \<Rightarrow> Number_toString n)
        @ js '' samples, ''
        @ (case shutterAngle of None \<Rightarrow> js ''180'' | Some n \<Rightarrow> Number_toString n)
        @ [0xB0] @ js '' shutter angle''
        @ (case outputName of None \<Rightarrow> []
           | Some out \<Rightarrow> if out = [] then [] else js '' and output node "'' @ out @ js ''"'')\<rparr>]\<rparr>\<close>
  by (simp add: if_truthy_def if_present_def or_default_def position_x_def position_y_def Let_def default_numbers
      direction_str_def screenColor_str_def deepOperation_str_def forceNode_str_def
      solveMethod_str_def keyerType_str_def vectorMethod_str_def distortionModel_str_def
      grainType_str_def knob_json_def JSON_stringify_def
      split: option.splits position.splits direction.splits screenColor.splits list.splits)

lemma createBasicComp_prints:
  \<open>createBasicComp_handler
       (CreateBasicCompArgs foregroundPath backgroundPath outputPath includeGrade
          includeLensEffects includeGrain colorSpace) =
     \<lparr>content = [\<lparr>item_type = js ''text'', item_text =
        js ''Created basic comp with foreground "'' @ foregroundPath @ js ''" and background "''
        @ backgroundPath @ js ''" in '' @ (case colorSpace of None \<Rightarrow> js ''ACES'' | Some c \<Rightarrow> c)
        @ js '' color space with output to "'' @ outputPath @ js ''"''
        @ (case (if includeGrade = Some False then [] else [js ''grade nodes''])
                @ (if includeLensEffects = Some True then [js ''lens effects''] else [])
                @ (if includeGrain = Some False then [] else [js ''film grain'']) of
             [] \<Rightarrow> []
           | e # es \<Rightarrow> js '' including '' @ Array_join (js '', '') (e # es))\<rparr>]\<rparr>\<close>
  by (simp add: if_truthy_def if_present_def or_default_def position_x_def position_y_def Let_def default_numbers
      direction_str_def screenColor_str_def deepOperation_str_def forceNode_str_def
      solveMethod_str_def keyerType_str_def vectorMethod_str_def distortionModel_str_def
      grainType_str_def knob_json_def JSON_stringify_def
      split: option.splits position.splits direction.splits screenColor.splits list.splits)

lemma setupStereoRig_prints:
  \<open>setupStereoRig_handler
       (SetupStereoRigArgs sourceName interocularDistance convergenceDistance outputName) =
     \<lparr>content = [\<lparr>item_type = js ''text'', item_text =
        js ''Set up stereo rig for "'' @ sourceName @ js ''" with ''
        @ (case interocularDistance of None \<Rightarrow> js ''6.5'' | Some n \<Rightarrow> Number_toString n)
        @ js ''cm interocular distance and ''
        @ (case convergenceDistance of None \<Rightarrow> js ''200'' | Some n \<Rightarrow> Number_toString n)
        @ js ''cm convergence distance''
        @ (case outputName of None \<Rightarrow> []
           | Some out \<Rightarrow> if out = [] then [] else js '' and output node "'' @ out @ js ''"'')\<rparr>]\<rparr>\<close>
  by (simp add: if_truthy_def if_present_def or_default_def position_x_def position_y_def Let_def default_numbers
      direction_str_def screenColor_str_def deepOperation_str_def forceNode_str_def
      solveMethod_str_def keyerType_str_def vectorMethod_str_def distortionModel_str_def
      grainType_str_def knob_json_def JSON_stringify_def
      split: option.splits position.splits direction.splits screenColor.splits list.splits)

lemma setupParticleSystem_prints:
  \<open>setupParticleSystem_handler
       (SetupParticleSystemArgs emitterType particleCount lifetime velocityControl forceNodes
          outputName) =
     \<lparr>content = [\<lparr>item_type = js ''text'', item_text =
        js ''Set up particle system with '' @ emitterType_str emitterType @ js '' emitter, ''
        @ (case particleCount of None \<Rightarrow> js ''1000'' | Some n \<Rightarrow> Number_toString n)
        @ js '' particles, ''
        @ (case lifetime of None \<Rightarrow> js ''100'' | Some n \<Rightarrow> Number_toString n)
        @ js '' frames lifetime''
        @ (if velocityControl = Some False then [] else js '', velocity control'')
        @ (case forceNodes of None \<Rightarrow> js '', forces: gravity''
           | Some [] \<Rightarrow> []
           | Some (f # fs) \<Rightarrow> js '', forces: '' @ Array_join (js '', '') (map forceNode_str (f # fs)))
        @ (case outputName of None \<Rightarrow> []
           | Some out \<Rightarrow> if out = [] then [] else js '' and output node "'' @ out @ js ''"'')\<rparr>]\<rparr>\<close>
  by (simp add: if_truthy_def if_present_def or_default_def position_x_def position_y_def Let_def default_numbers
      direction_str_def screenColor_str_def deepOperation_str_def forceNode_str_def
      solveMethod_str_def keyerType_str_def vectorMethod_str_def distortionModel_str_def
      grainType_str_def knob_json_def JSON_stringify_def
      split: option.splits position.splits direction.splits screenColor.splits list.splits)
    (simp add: js_def)

lemma setupLensDistortion_prints:
  \<open>setupLensDistortion_handler
       (SetupLensDistortionArgs sourceName distortionModel k1 k2 undistort outputName) =
     \<lparr>content = [\<lparr>item_type = js ''text'', item_text =
        js ''Set up '' @ (if undistort = Some False then js ''distortion'' else js ''undistortion'')
        @ js '' for "'' @ sourceName @ js ''" using ''
        @ (case distortionModel of None \<Rightarrow> js ''LensDistortion'' | Some m \<Rightarrow> distortionModel_str m)
        @ js '' model with parameters k1=''
        @ (case k1 of None \<Rightarrow> js ''0.1'' | Some n \<Rightarrow> Number_toString n)
        @ js '', k2='' @ (case k2 of None \<Rightarrow> js ''0.05'' | Some n \<Rightarrow> Number_toString n)
        @ (case outputName of None \<Rightarrow> []
           | Some out \<Rightarrow> if out = [] then [] else js '' and output node "'' @ out @ js ''"'')\<rparr>]\<rparr>\<close>
  by (simp add: if_truthy_def if_present_def or_default_def position_x_def position_y_def Let_def default_numbers
      direction_str_def screenColor_str_def deepOperation_str_def forceNode_str_def
      solveMethod_str_def keyerType_str_def vectorMethod_str_def distortionModel_str_def
      grainType_str_def knob_json_def JSON_stringify_def
      split: option.splits position.splits direction.splits screenColor.splits list.splits)

lemma setupGrainManagement_prints:
  \<open>setupGrainManagement_handler
       (SetupGrainManagementArgs sourceName operation grainType grainSize grainAmount outputName) =
     \<lparr>content = [\<lparr>item_type = js ''text'', item_text =
        js ''Set up grain '' @ grainOperation_str operation @ js '' for "'' @ sourceName
        @ js ''" using '' @ (case grainType of None \<Rightarrow> js ''Kodak5248'' | Some g \<Rightarrow> grainType_str g)
        @ js '' grain with size '' @ (case grainSize of None \<Rightarrow> js ''1'' | Some n \<Rightarrow> Number_toString n)
        @ js '' and amount ''
        @ (case grainAmount of None \<Rightarrow> js ''0.5'' | Some n \<Rightarrow> Number_toString n)
        @ (case outputName of None \<Rightarrow> []
           | Some out \<Rightarrow> if out = [] then [] else js '' and output node "'' @ out @ js ''"'')\<rparr>]\<rparr>\<close>
  by (simp add: if_truthy_def if_present_def or_default_def position_x_def position_y_def Let_def default_numbers
      direction_str_def screenColor_str_def deepOperation_str_def forceNode_str_def
      solveMethod_str_def keyerType_str_def vectorMethod_str_def distortionModel_str_def
      grainType_str_def knob_json_def JSON_stringify_def
      split: option.splits position.splits direction.splits screenColor.splits list.splits)
lemma createNode_text: "is_text_response (createNode_handler a)"
  by (cases a) (simp add: is_text_response_def js_def Let_def)

lemma setKnobValue_text: "is_text_response (setKnobValue_handler a)"
  by (cases a) (simp add: is_text_response_def js_def Let_def)

lemma getNode_text: "is_text_response (getNode_handler a)"
  by (cases a) (simp add: getNode_prints is_text_response_def js_def del: getNode_handler.simps)

lemma execute_text: "is_text_response (execute_handler a)"
  by (cases a) (simp add: is_text_response_def js_def Let_def)

lemma connectNodes_text: "is_text_response (connectNodes_handler a)"
  by (cases a) (simp add: is_text_response_def js_def Let_def)

lemma setNodePosition_text: "is_text_response (setNodePosition_handler a)"
proof (cases a)
  case (SetNodePositionArgs nodeName p)
  then show ?thesis
    by (simp add: is_text_response_def js_def)
qed

lemma getNodePosition_text: "is_text_response (getNodePosition_handler a)"
  by (cases a) (simp add: getNodePosition_prints is_text_response_def js_def del: getNodePosition_handler.simps)

lemma createGroup_text: "is_text_response (createGroup_handler a)"
  by (cases a) (simp add: is_text_response_def js_def Let_def)

lemma createLiveGroup_text: "is_text_response (createLiveGroup_handler a)"
  by (cases a) (simp add: is_text_response_def js_def Let_def)

lemma loadTemplate_text: "is_text_response (loadTemplate_handler a)"
  by (cases a) (simp add: is_text_response_def js_def Let_def)

lemma saveTemplate_text: "is_text_response (saveTemplate_handler a)"
  by (cases a) (simp add: is_text_response_def js_def Let_def)

lemma autoArrangeNodes_text: "is_text_response (autoArrangeNodes_handler a)"
  by (cases a) (simp add: is_text_response_def js_def Let_def)

lemma createBackdrop_text: "is_text_response (createBackdrop_handler a)"
  by (cases a) (simp add: is_text_response_def js_def Let_def)

lemma setupCameraTracking_text: "is_text_response (setupCameraTracking_handler a)"
  by (cases a) (simp add: is_text_response_def js_def Let_def)

lemma setupDeepCompositing_text: "is_text_response (setupDeepCompositing_handler a)"
  by (cases a) (simp add: is_text_response_def js_def Let_def)

lemma batchProcess_text: "is_text_response (batchProcess_handler a)"
  by (cases a) (simp add: is_text_response_def js_def Let_def)

lemma setupMachineLearning_text: "is_text_response (setupMachineLearning_handler a)"
  by (cases a) (simp add: is_text_response_def js_def Let_def)

lemma setupKeying_text: "is_text_response (setupKeying_handler a)"
  by (cases a) (simp add: is_text_response_def js_def Let_def)

lemma setupMotionBlur_text: "is_text_response (setupMotionBlur_handler a)"
  by (cases a) (simp add: is_text_response_def js_def Let_def)

lemma createBasicComp_text: "is_text_response (createBasicComp_handler a)"
  by (cases a) (simp add: is_text_response_def js_def Let_def)

lemma setupStereoRig_text: "is_text_response (setupStereoRig_handler a)"
  by (cases a) (simp add: is_text_response_def js_def Let_def)

lemma setupParticleSystem_text: "is_text_response (setupParticleSystem_handler a)"
  by (cases a) (simp add: is_text_response_def js_def Let_def)

lemma setupLensDistortion_text: "is_text_response (setupLensDistortion_handler a)"
  by (cases a) (simp add: is_text_response_def js_def Let_def)

lemma setupGrainManagement_text: "is_text_response (setupGrainManagement_handler a)"
  by (cases a) (simp add: is_text_response_def js_def Let_def)

lemmas handler_text = createNode_text setKnobValue_text getNode_text execute_text connectNodes_text
  setNodePosition_text getNodePosition_text createGroup_text createLiveGroup_text loadTemplate_text
  saveTemplate_text autoArrangeNodes_text createBackdrop_text setupCameraTracking_text
  setupDeepCompositing_text batchProcess_text setupMachineLearning_text setupKeying_text
  setupMotionBlur_text createBasicComp_text setupStereoRig_text setupParticleSystem_text
  setupLensDistortion_text setupGrainManagement_text

lemmas handler_prints = createNode_prints setKnobValue_prints getNode_prints execute_prints
  connectNodes_prints setNodePosition_prints getNodePosition_prints createGroup_prints
  createLiveGroup_prints loadTemplate_prints saveTemplate_prints autoArrangeNodes_prints
  createBackdrop_prints setupCameraTracking_prints setupDeepCompositing_prints batchProcess_prints
  setupMachineLearning_prints setupKeying_prints setupMotionBlur_prints createBasicComp_prints
  setupStereoRig_prints setupParticleSystem_prints setupLensDistortion_prints
  setupGrainManagement_prints

lemma returns_text_basic:
  "entry \<in> set basicOperations \<Longrightarrow> handler_returns (handler (snd entry)) r \<Longrightarrow> is_text_response r"
  by (auto simp: basicOperations_def elim!: handler_returns.cases intro: handler_text)

lemma returns_text_org:
  "entry \<in> set nodeOrganization \<Longrightarrow> handler_returns (handler (snd entry)) r \<Longrightarrow> is_text_response r"
  by (auto simp: nodeOrganization_def elim!: handler_returns.cases intro: handler_text)

lemma returns_text_vfx:
  "entry \<in> set advancedVfxOperations \<Longrightarrow> handler_returns (handler (snd entry)) r \<Longrightarrow> is_text_response r"
  by (auto simp: advancedVfxOperations_def elim!: handler_returns.cases intro: handler_text)
lemma returns_text:
  "\<forall>entry r. entry \<in> set (basicOperations @ nodeOrganization @ advancedVfxOperations)
     \<longrightarrow> handler_returns (handler (snd entry)) r \<longrightarrow> is_text_response r"
proof (intro allI impI)
  fix entry :: "string \<times> 'p tool" and r
  assume m: "entry \<in> set (basicOperations @ nodeOrganization @ advancedVfxOperations)"
    and h: "handler_returns (handler (snd entry)) r"
  from m consider "entry \<in> set basicOperations" | "entry \<in> set nodeOrganization"
    | "entry \<in> set advancedVfxOperations"
    by auto
  then show "is_text_response r"
  proof cases
    case 1
    then show ?thesis using h by (rule returns_text_basic)
  next
    case 2
    then show ?thesis using h by (rule returns_text_org)
  next
    case 3
    then show ?thesis using h by (rule returns_text_vfx)
  qed
qed

lemma tool_handlers:
  "map (\<lambda>entry. (fst entry, handler (snd entry)))
       (basicOperations @ nodeOrganization @ advancedVfxOperations) =
       [(''createNode'', H_createNode createNode_handler),
        (''setKnobValue'', H_setKnobValue setKnobValue_handler),
        (''getNode'', H_getNode getNode_handler),
        (''execute'', H_execute execute_handler),
        (''connectNodes'', H_connectNodes connectNodes_handler),
        (''setNodePosition'', H_setNodePosition setNodePosition_handler),
        (''getNodePosition'', H_getNodePosition getNodePosition_handler),
        (''createGroup'', H_createGroup createGroup_handler),
        (''createLiveGroup'', H_createLiveGroup createLiveGroup_handler),
        (''loadTemplate'', H_loadTemplate loadTemplate_handler),
        (''saveTemplate'', H_saveTemplate saveTemplate_handler),
        (''autoArrangeNodes'', H_autoArrangeNodes autoArrangeNodes_handler),
        (''createBackdrop'', H_createBackdrop createBackdrop_handler),
        (''setupCameraTracking'', H_setupCameraTracking setupCameraTracking_handler),
        (''setupDeepCompositing'', H_setupDeepCompositing setupDeepCompositing_handler),
        (''batchProcess'', H_batchProcess batchProcess_handler),
        (''setupMachineLearning'', H_setupMachineLearning setupMachineLearning_handler),
        (''setupKeying'', H_setupKeying setupKeying_handler),
        (''setupMotionBlur'', H_setupMotionBlur setupMotionBlur_handler),
        (''createBasicComp'', H_createBasicComp createBasicComp_handler),
        (''setupStereoRig'', H_setupStereoRig setupStereoRig_handler),
        (''setupParticleSystem'', H_setupParticleSystem setupParticleSystem_handler),
        (''setupLensDistortion'', H_setupLensDistortion setupLensDistortion_handler),
        (''setupGrainManagement'', H_setupGrainManagement setupGrainManagement_handler)]"
  by (simp add: basicOperations_def nodeOrganization_def advancedVfxOperations_def)

lemma enum_literals:
  "map solveMethod_str [MatchMove, Equalizer3D, PFTrack]
     = [js ''MatchMove'', js ''3DEqualizer'', js ''PFTrack'']"
  "map deepOperation_str [DeepRecolor, DeepMerge, DeepToImage, DeepFromImage]
     = [js ''DeepRecolor'', js ''DeepMerge'', js ''DeepToImage'', js ''DeepFromImage'']"
  "map keyerType_str [Primatte, Keylight, IBK, UltraKeyer]
     = [js ''Primatte'', js ''Keylight'', js ''IBK'', js ''UltraKeyer'']"
  "map vectorMethod_str [VectorGenerator, OpticalFlow, External]
     = [js ''VectorGenerator'', js ''OpticalFlow'', js ''External'']"
  "map emitterType_str [EmitPoint, EmitSphere, EmitBox, EmitGeometry]
     = [js ''point'', js ''sphere'', js ''box'', js ''geometry'']"
  "map forceNode_str [Gravity, Wind, Turbulence, CustomForce]
     = [js ''gravity'', js ''wind'', js ''turbulence'', js ''custom'']"
  "map distortionModel_str [Model3DE4, NukeX, LensDistortion]
     = [js ''3DE4'', js ''NukeX'', js ''LensDistortion'']"
  "map grainOperation_str [GrainAdd, GrainMatch, GrainRemove]
     = [js ''add'', js ''match'', js ''remove'']"
  "map grainType_str [Kodak5248, Kodak5279, KodakTriX, CustomGrain]
     = [js ''Kodak5248'', js ''Kodak5279'', js ''KodakTri-X'', js ''custom'']"
  by (simp_all add: solveMethod_str_def deepOperation_str_def keyerType_str_def vectorMethod_str_def
      emitterType_str_def forceNode_str_def distortionModel_str_def grainOperation_str_def
      grainType_str_def)

text \<open>
  C2. For every operation of the three tool modules and every argument record its schema
  accepts, the handler returns a response whose \<open>content\<close> is a list of exactly one item;
  the item has type \<open>text\<close> and its text is a string that is not empty. The tool objects
  hold the 24 handlers below under these names, and each handler returns the text
  written out here: the description of the requested operation, with the required
  arguments in it, an optional argument where the template tests it (a string that is
  empty counts as absent), and a default where the handler declares one. An enum value
  is printed as its literal.
\<close>

theorem handlers_return_one_text_item:
  \<open>(\<forall>entry r. entry \<in> set (basicOperations @ nodeOrganization @ advancedVfxOperations)
      \<longrightarrow> handler_returns (handler (snd entry)) r \<longrightarrow> is_text_response r)
   \<and> map (\<lambda>entry. (fst entry, handler (snd entry)))
         (basicOperations @ nodeOrganization @ advancedVfxOperations) =
       [(''createNode'', H_createNode createNode_handler),
        (''setKnobValue'', H_setKnobValue setKnobValue_handler),
        (''getNode'', H_getNode getNode_handler),
        (''execute'', H_execute execute_handler),
        (''connectNodes'', H_connectNodes connectNodes_handler),
        (''setNodePosition'', H_setNodePosition setNodePosition_handler),
        (''getNodePosition'', H_getNodePosition getNodePosition_handler),
        (''createGroup'', H_createGroup createGroup_handler),
        (''createLiveGroup'', H_createLiveGroup createLiveGroup_handler),
        (''loadTemplate'', H_loadTemplate loadTemplate_handler),
        (''saveTemplate'', H_saveTemplate saveTemplate_handler),
        (''autoArrangeNodes'', H_autoArrangeNodes autoArrangeNodes_handler),
        (''createBackdrop'', H_createBackdrop createBackdrop_handler),
        (''setupCameraTracking'', H_setupCameraTracking setupCameraTracking_handler),
        (''setupDeepCompositing'', H_setupDeepCompositing setupDeepCompositing_handler),
        (''batchProcess'', H_batchProcess batchProcess_handler),
        (''setupMachineLearning'', H_setupMachineLearning setupMachineLearning_handler),
        (''setupKeying'', H_setupKeying setupKeying_handler),
        (''setupMotionBlur'', H_setupMotionBlur setupMotionBlur_handler),
        (''createBasicComp'', H_createBasicComp createBasicComp_handler),
        (''setupStereoRig'', H_setupStereoRig setupStereoRig_handler),
        (''setupParticleSystem'', H_setupParticleSystem setupParticleSystem_handler),
        (''setupLensDistortion'', H_setupLensDistortion setupLensDistortion_handler),
        (''setupGrainManagement'', H_setupGrainManagement setupGrainManagement_handler)]
   \<and> (\<forall>nodeType name position inputs.
        createNode_handler (CreateNodeArgs nodeType name position inputs) =
          \<lparr>content = [\<lparr>item_type = js ''text'', item_text =
             js ''Created '' @ nodeType @ js '' node''
             @ (case name of None \<Rightarrow> [] | Some n \<Rightarrow> if n = [] then [] else js '' named "'' @ n @ js ''"'')
             @ (case position of None \<Rightarrow> []
                | Some (Position px py) \<Rightarrow>
                    js '' at position ('' @ Number_toString px @ js '', '' @ Number_toString py @ js '')'')
             @ (case inputs of None \<Rightarrow> []
                | Some names \<Rightarrow> js '' with inputs: '' @ Array_join (js '', '') names)\<rparr>]\<rparr>)
   \<and> (\<forall>nodeName knobName v.
        setKnobValue_handler (SetKnobValueArgs nodeName knobName v) =
          \<lparr>content = [\<lparr>item_type = js ''text'', item_text =
             js ''Set knob "'' @ knobName @ js ''" on node "'' @ nodeName @ js ''" to value: ''
             @ JSON_stringify (knob_json v)\<rparr>]\<rparr>)
   \<and> (\<forall>nodeName.
        getNode_handler (GetNodeArgs nodeName) =
          \<lparr>content = [\<lparr>item_type = js ''text'', item_text =
             js ''{'' @ LF
             @ js ''  "name": '' @ QuoteJSONString nodeName @ js '','' @ LF
             @ js ''  "type": "Blur",'' @ LF
             @ js ''  "knobs": {'' @ LF
             @ js ''    "size": 2.5,'' @ LF
             @ js ''    "channels": "rgba",'' @ LF
             @ js ''    "filter": "gaussian"'' @ LF
             @ js ''  },'' @ LF
             @ js ''  "position": {'' @ LF
             @ js ''    "x": 100,'' @ LF
             @ js ''    "y": 200'' @ LF
             @ js ''  }'' @ LF
             @ js ''}''\<rparr>]\<rparr>)
   \<and> (\<forall>nodeName frameRange.
        execute_handler (ExecuteArgs nodeName frameRange) =
          \<lparr>content = [\<lparr>item_type = js ''text'', item_text =
             js ''Executing Write node "'' @ nodeName @ js ''"''
             @ (case frameRange of None \<Rightarrow> []
                | Some f \<Rightarrow> if f = [] then [] else js '' for frame range: '' @ f)\<rparr>]\<rparr>)
   \<and> (\<forall>fromNode toNode inputIndex.
        connectNodes_handler (ConnectNodesArgs fromNode toNode inputIndex) =
          \<lparr>content = [\<lparr>item_type = js ''text'', item_text =
             js ''Connected node "'' @ fromNode @ js ''" to input ''
             @ (case inputIndex of None \<Rightarrow> js ''0'' | Some i \<Rightarrow> Number_toString i)
             @ js '' of node "'' @ toNode @ js ''"''\<rparr>]\<rparr>)
   \<and> (\<forall>nodeName px py.
        setNodePosition_handler (SetNodePositionArgs nodeName (Position px py)) =
          \<lparr>content = [\<lparr>item_type = js ''text'', item_text =
             js ''Set position of node "'' @ nodeName @ js ''" to ('' @ Number_toString px
             @ js '', '' @ Number_toString py @ js '')''\<rparr>]\<rparr>)
   \<and> (\<forall>nodeName.
        getNodePosition_handler (GetNodePositionArgs nodeName) =
          \<lparr>content = [\<lparr>item_type = js ''text'', item_text =
             js ''{'' @ LF
             @ js ''  "x": 100,'' @ LF
             @ js ''  "y": 200'' @ LF
             @ js ''}''\<rparr>]\<rparr>)
   \<and> (\<forall>name nodes position.
        createGroup_handler (CreateGroupArgs name nodes position) =
          \<lparr>content = [\<lparr>item_type = js ''text'', item_text =
             js ''Created group "'' @ name @ js ''" containing nodes: '' @ Array_join (js '', '') nodes
             @ (case position of None \<Rightarrow> []
                | Some (Position px py) \<Rightarrow>
                    js '' at position ('' @ Number_toString px @ js '', '' @ Number_toString py @ js '')'')\<rparr>]\<rparr>)
   \<and> (\<forall>name nodes position savePath.
        createLiveGroup_handler (CreateLiveGroupArgs name nodes position savePath) =
          \<lparr>content = [\<lparr>item_type = js ''text'', item_text =
             js ''Created LiveGroup "'' @ name @ js ''" containing nodes: '' @ Array_join (js '', '') nodes
             @ (case position of None \<Rightarrow> []
                | Some (Position px py) \<Rightarrow>
                    js '' at position ('' @ Number_toString px @ js '', '' @ Number_toString py @ js '')'')
             @ (case savePath of None \<Rightarrow> []
                | Some p \<Rightarrow> if p = [] then [] else js '' and saved to "'' @ p @ js ''"'')\<rparr>]\<rparr>)
   \<and> (\<forall>templatePath position.
        loadTemplate_handler (LoadTemplateArgs templatePath position) =
          \<lparr>content = [\<lparr>item_type = js ''text'', item_text =
             js ''Loaded template from "'' @ templatePath @ js ''"''
             @ (case position of None \<Rightarrow> []
                | Some (Position px py) \<Rightarrow>
                    js '' at position ('' @ Number_toString px @ js '', '' @ Number_toString py @ js '')'')\<rparr>]\<rparr>)
   \<and> (\<forall>nodes savePath name.
        saveTemplate_handler (SaveTemplateArgs nodes savePath name) =
          \<lparr>content = [\<lparr>item_type = js ''text'', item_text =
             js ''Saved template "'' @ name @ js ''" containing nodes: '' @ Array_join (js '', '') nodes
             @ js '' to "'' @ savePath @ js ''"''\<rparr>]\<rparr>)
   \<and> (\<forall>nodes direction spacing.
        autoArrangeNodes_handler (AutoArrangeNodesArgs nodes direction spacing) =
          \<lparr>content = [\<lparr>item_type = js ''text'', item_text =
             js ''Auto-arranged ''
             @ (case nodes of None \<Rightarrow> js ''all nodes''
                | Some names \<Rightarrow> js ''nodes: '' @ Array_join (js '', '') names)
             @ js '' in ''
             @ (case direction of None \<Rightarrow> js ''horizontal'' | Some Horizontal \<Rightarrow> js ''horizontal''
                | Some Vertical \<Rightarrow> js ''vertical'')
             @ js '' direction with spacing ''
             @ (case spacing of None \<Rightarrow> js ''100'' | Some n \<Rightarrow> Number_toString n)\<rparr>]\<rparr>)
   \<and> (\<forall>name nodes label color.
        createBackdrop_handler (CreateBackdropArgs name nodes label color) =
          \<lparr>content = [\<lparr>item_type = js ''text'', item_text =
             js ''Created backdrop "'' @ name @ js ''" containing nodes: '' @ Array_join (js '', '') nodes
             @ (case label of None \<Rightarrow> []
                | Some l \<Rightarrow> if l = [] then [] else js '' with label "'' @ l @ js ''"'')
             @ (case color of None \<Rightarrow> []
                | Some c \<Rightarrow> if c = [] then [] else js '' and color "'' @ c @ js ''"'')\<rparr>]\<rparr>)
   \<and> (\<forall>sourceName trackingPoints createScene solveMethod exportPath.
        setupCameraTracking_handler
            (SetupCameraTrackingArgs sourceName trackingPoints createScene solveMethod exportPath) =
          \<lparr>content = [\<lparr>item_type = js ''text'', item_text =
             js ''Set up camera tracking for "'' @ sourceName @ js ''" with ''
             @ (case trackingPoints of None \<Rightarrow> js ''10'' | Some n \<Rightarrow> Number_toString n)
             @ js '' tracking points using ''
             @ (case solveMethod of None \<Rightarrow> js ''MatchMove'' | Some m \<Rightarrow> solveMethod_str m)
             @ js '' method''
             @ (if createScene = Some True then js '' and created a 3D scene'' else [])
             @ (case exportPath of None \<Rightarrow> []
                | Some p \<Rightarrow>
                    if p = [] then [] else js '' and exported tracking data to "'' @ p @ js ''"'')\<rparr>]\<rparr>)
   \<and> (\<forall>sourceName outputName operations.
        setupDeepCompositing_handler (SetupDeepCompositingArgs sourceName outputName operations) =
          \<lparr>content = [\<lparr>item_type = js ''text'', item_text =
             js ''Set up deep compositing pipeline from "'' @ sourceName @ js ''" with operations: ''
             @ (case operations of None \<Rightarrow> js ''DeepRecolor, DeepToImage''
                | Some ops \<Rightarrow> Array_join (js '', '') (map deepOperation_str ops))
             @ (case outputName of None \<Rightarrow> []
                | Some out \<Rightarrow> if out = [] then [] else js '' and output node "'' @ out @ js ''"'')\<rparr>]\<rparr>)
   \<and> (\<forall>scriptPath inputFiles outputDir frameRange fileType threads.
        batchProcess_handler
            (BatchProcessArgs scriptPath inputFiles outputDir frameRange fileType threads) =
          \<lparr>content = [\<lparr>item_type = js ''text'', item_text =
             js ''Batch processed '' @ Number_toString (num (length inputFiles))
             @ js '' files using script "'' @ scriptPath @ js ''" to output directory "'' @ outputDir
             @ js ''" as '' @ (case fileType of None \<Rightarrow> js ''exr'' | Some t \<Rightarrow> t) @ js '' files''
             @ (case frameRange of None \<Rightarrow> []
                | Some f \<Rightarrow> if f = [] then [] else js '' for frame range: '' @ f)
             @ js '' using '' @ (case threads of None \<Rightarrow> js ''4'' | Some n \<Rightarrow> Number_toString n)
             @ js '' threads''\<rparr>]\<rparr>)
   \<and> (\<forall>modelPath inputNode outputNode gpuEnabled inferenceParams.
        setupMachineLearning_handler
            (SetupMachineLearningArgs modelPath inputNode outputNode gpuEnabled inferenceParams) =
          \<lparr>content = [\<lparr>item_type = js ''text'', item_text =
             js ''Set up machine learning pipeline using model "'' @ modelPath
             @ js ''" with input node "'' @ inputNode @ js ''"''
             @ (case outputNode of None \<Rightarrow> []
                | Some out \<Rightarrow> if out = [] then [] else js '' and output node "'' @ out @ js ''"'')
             @ js '', GPU '' @ (if gpuEnabled = Some False then js ''disabled'' else js ''enabled'')
             @ js '', inference parameters: ''
             @ (case inferenceParams of None \<Rightarrow> js ''{}''
                | Some params \<Rightarrow> JSON_stringify (knob_json (KRecord params)))\<rparr>]\<rparr>)
   \<and> (\<forall>sourceName screenColor customColor keyerType despill edgeRefinement outputName.
        setupKeying_handler
            (SetupKeyingArgs sourceName screenColor customColor keyerType despill edgeRefinement
               outputName) =
          \<lparr>content = [\<lparr>item_type = js ''text'', item_text =
             js ''Set up keying pipeline for "'' @ sourceName @ js ''" using ''
             @ (case keyerType of None \<Rightarrow> js ''Keylight'' | Some k \<Rightarrow> keyerType_str k)
             @ js '' with ''
             @ (case screenColor of None \<Rightarrow> js ''green''
                | Some Custom \<Rightarrow> (case customColor of None \<Rightarrow> js ''#00FF00'' | Some c \<Rightarrow> c)
                | Some Green \<Rightarrow> js ''green'' | Some Blue \<Rightarrow> js ''blue'' | Some Red \<Rightarrow> js ''red'')
             @ js '' screen''
             @ (if despill = Some False then [] else js '', despill correction'')
             @ (if edgeRefinement = Some False then [] else js '', edge refinement'')
             @ (case outputName of None \<Rightarrow> []
                | Some out \<Rightarrow> if out = [] then [] else js '' and output node "'' @ out @ js ''"'')\<rparr>]\<rparr>)
   \<and> (\<forall>sourceName vectorName vectorMethod amount samples shutterAngle outputName.
        setupMotionBlur_handler
            (SetupMotionBlurArgs sourceName vectorName vectorMethod amount samples shutterAngle
               outputName) =
          \<lparr>content = [\<lparr>item_type = js ''text'', item_text =
             js ''Set up motion blur for "'' @ sourceName @ js ''"''
             @ (if vectorName = None \<or> vectorName = Some []
                then js '' using ''
                     @ (case vectorMethod of None \<Rightarrow> js ''VectorGenerator'' | Some m \<Rightarrow> vectorMethod_str m)
                else js '' using vector node "'' @ (case vectorName of None \<Rightarrow> [] | Some v \<Rightarrow> v) @ js ''"'')
             @ js '' with amount '' @ (case amount of None \<Rightarrow> js ''1'' | Some n \<Rightarrow> Number_toString n)
             @ js '', '' @ (case samples of None \<Rightarrow> js ''10'' | Some n \<Rightarrow> Number_toString n)
             @ js '' samples, ''
             @ (case shutterAngle of None \<Rightarrow> js ''180'' | Some n \<Rightarrow> Number_toString n)
             @ [0xB0] @ js '' shutter angle''
             @ (case outputName of None \<Rightarrow> []
                | Some out \<Rightarrow> if out = [] then [] else js '' and output node "'' @ out @ js ''"'')\<rparr>]\<rparr>)
   \<and> (\<forall>foregroundPath backgroundPath outputPath includeGrade includeLensEffects includeGrain colorSpace.
        createBasicComp_handler
            (CreateBasicCompArgs foregroundPath backgroundPath outputPath includeGrade
               includeLensEffects includeGrain colorSpace) =
          \<lparr>content = [\<lparr>item_type = js ''text'', item_text =
             js ''Created basic comp with foreground "'' @ foregroundPath @ js ''" and background "''
             @ backgroundPath @ js ''" in '' @ (case colorSpace of None \<Rightarrow> js ''ACES'' | Some c \<Rightarrow> c)
             @ js '' color space with output to "'' @ outputPath @ js ''"''
             @ (case (if includeGrade = Some False then [] else [js ''grade nodes''])
                     @ (if includeLensEffects = Some True then [js ''lens effects''] else [])
                     @ (if includeGrain = Some False then [] else [js ''film grain'']) of
                  [] \<Rightarrow> []
                | e # es \<Rightarrow> js '' including '' @ Array_join (js '', '') (e # es))\<rparr>]\<rparr>)
   \<and> (\<forall>sourceName interocularDistance convergenceDistance outputName.
        setupStereoRig_handler
            (SetupStereoRigArgs sourceName interocularDistance convergenceDistance outputName) =
          \<lparr>content = [\<lparr>item_type = js ''text'', item_text =
             js ''Set up stereo rig for "'' @ sourceName @ js ''" with ''
             @ (case interocularDistance of None \<Rightarrow> js ''6.5'' | Some n \<Rightarrow> Number_toString n)
             @ js ''cm interocular distance and ''
             @ (case convergenceDistance of None \<Rightarrow> js ''200'' | Some n \<Rightarrow> Number_toString n)
             @ js ''cm convergence distance''
             @ (case outputName of None \<Rightarrow> []
                | Some out \<Rightarrow> if out = [] then [] else js '' and output node "'' @ out @ js ''"'')\<rparr>]\<rparr>)
   \<and> (\<forall>emitterType particleCount lifetime velocityControl forceNodes outputName.
        setupParticleSystem_handler
            (SetupParticleSystemArgs emitterType particleCount lifetime velocityControl forceNodes
               outputName) =
          \<lparr>content = [\<lparr>item_type = js ''text'', item_text =
             js ''Set up particle system with '' @ emitterType_str emitterType @ js '' emitter, ''
             @ (case particleCount of None \<Rightarrow> js ''1000'' | Some n \<Rightarrow> Number_toString n)
             @ js '' particles, ''
             @ (case lifetime of None \<Rightarrow> js ''100'' | Some n \<Rightarrow> Number_toString n)
             @ js '' frames lifetime''
             @ (if velocityControl = Some False then [] else js '', velocity control'')
             @ (case forceNodes of None \<Rightarrow> js '', forces: gravity''
                | Some [] \<Rightarrow> []
                | Some (f # fs) \<Rightarrow> js '', forces: '' @ Array_join (js '', '') (map forceNode_str (f # fs)))
             @ (case outputName of None \<Rightarrow> []
                | Some out \<Rightarrow> if out = [] then [] else js '' and output node "'' @ out @ js ''"'')\<rparr>]\<rparr>)
   \<and> (\<forall>sourceName distortionModel k1 k2 undistort outputName.
        setupLensDistortion_handler
            (SetupLensDistortionArgs sourceName distortionModel k1 k2 undistort outputName) =
          \<lparr>content = [\<lparr>item_type = js ''text'', item_text =
             js ''Set up '' @ (if undistort = Some False then js ''distortion'' else js ''undistortion'')
             @ js '' for "'' @ sourceName @ js ''" using ''
             @ (case distortionModel of None \<Rightarrow> js ''LensDistortion'' | Some m \<Rightarrow> distortionModel_str m)
             @ js '' model with parameters k1=''
             @ (case k1 of None \<Rightarrow> js ''0.1'' | Some n \<Rightarrow> Number_toString n)
             @ js '', k2='' @ (case k2 of None \<Rightarrow> js ''0.05'' | Some n \<Rightarrow> Number_toString n)
             @ (case outputName of None \<Rightarrow> []
                | Some out \<Rightarrow> if out = [] then [] else js '' and output node "'' @ out @ js ''"'')\<rparr>]\<rparr>)
   \<and> (\<forall>sourceName operation grainType grainSize grainAmount outputName.
        setupGrainManagement_handler
            (SetupGrainManagementArgs sourceName operation grainType grainSize grainAmount outputName) =
          \<lparr>content = [\<lparr>item_type = js ''text'', item_text =
             js ''Set up grain '' @ grainOperation_str operation @ js '' for "'' @ sourceName
             @ js ''" using '' @ (case grainType of None \<Rightarrow> js ''Kodak5248'' | Some g \<Rightarrow> grainType_str g)
             @ js '' grain with size '' @ (case grainSize of None \<Rightarrow> js ''1'' | Some n \<Rightarrow> Number_toString n)
             @ js '' and amount ''
             @ (case grainAmount of None \<Rightarrow> js ''0.5'' | Some n \<Rightarrow> Number_toString n)
             @ (case outputName of None \<Rightarrow> []
                | Some out \<Rightarrow> if out = [] then [] else js '' and output node "'' @ out @ js ''"'')\<rparr>]\<rparr>)
   \<and> map solveMethod_str [MatchMove, Equalizer3D, PFTrack]
       = [js ''MatchMove'', js ''3DEqualizer'', js ''PFTrack'']
   \<and> map deepOperation_str [DeepRecolor, DeepMerge, DeepToImage, DeepFromImage]
       = [js ''DeepRecolor'', js ''DeepMerge'', js ''DeepToImage'', js ''DeepFromImage'']
   \<and> map keyerType_str [Primatte, Keylight, IBK, UltraKeyer]
       = [js ''Primatte'', js ''Keylight'', js ''IBK'', js ''UltraKeyer'']
   \<and> map vectorMethod_str [VectorGenerator, OpticalFlow, External]
       = [js ''VectorGenerator'', js ''OpticalFlow'', js ''External'']
   \<and> map emitterType_str [EmitPoint, EmitSphere, EmitBox, EmitGeometry]
       = [js ''point'', js ''sphere'', js ''box'', js ''geometry'']
   \<and> map forceNode_str [Gravity, Wind, Turbulence, CustomForce]
       = [js ''gravity'', js ''wind'', js ''turbulence'', js ''custom'']
   \<and> map distortionModel_str [Model3DE4, NukeX, LensDistortion]
       = [js ''3DE4'', js ''NukeX'', js ''LensDistortion'']
   \<and> map grainOperation_str [GrainAdd, GrainMatch, GrainRemove]
       = [js ''add'', js ''match'', js ''remove'']
   \<and> map grainType_str [Kodak5248, Kodak5279, KodakTriX, CustomGrain]
       = [js ''Kodak5248'', js ''Kodak5279'', js ''KodakTri-X'', js ''custom'']\<close>
  by (intro conjI returns_text tool_handlers enum_literals allI handler_prints)

theorem handlers_return_one_text_item_witness:
  \<open>(''createNode'', \<lparr>schema = createNode_schema, handler = H_createNode createNode_handler,
      description = ''Create a new node in the Nuke node graph''\<rparr>)
     \<in> set (basicOperations @ nodeOrganization @ advancedVfxOperations)
   \<and> handler_returns (H_createNode createNode_handler)
        (createNode_handler
           (CreateNodeArgs (js ''Blur'') (Some (js ''Blur1''))
              (Some (Position (num 10) (Dec True 25 (- 1)))) (Some [js ''Read1'', js ''Read2''])))
   \<and> is_text_response
        (createNode_handler
           (CreateNodeArgs (js ''Blur'') (Some (js ''Blur1''))
              (Some (Position (num 10) (Dec True 25 (- 1)))) (Some [js ''Read1'', js ''Read2''])))
   \<and> createNode_handler
        (CreateNodeArgs (js ''Blur'') (Some (js ''Blur1''))
           (Some (Position (num 10) (Dec True 25 (- 1)))) (Some [js ''Read1'', js ''Read2'']))
      = \<lparr>content = [\<lparr>item_type = js ''text'', item_text =
           js ''Created Blur node named "Blur1" at position (10, -2.5) with inputs: Read1, Read2''\<rparr>]\<rparr>
   \<and> setKnobValue_handler
        (SetKnobValueArgs (js ''Blur1'') (js ''label'') (KString (js ''a"b'' @ [0x5C, 0x0A])))
      = \<lparr>content = [\<lparr>item_type = js ''text'', item_text =
           js ''Set knob "label" on node "Blur1" to value: "a'' @ [0x5C] @ js ''"b''
           @ [0x5C, 0x5C, 0x5C] @ js ''n"''\<rparr>]\<rparr>\<close>
proof -
  let ?e = "(''createNode'', \<lparr>schema = createNode_schema, handler = H_createNode createNode_handler,
      description = ''Create a new node in the Nuke node graph''\<rparr>)"
  let ?a = "CreateNodeArgs (js ''Blur'') (Some (js ''Blur1''))
      (Some (Position (num 10) (Dec True 25 (- 1)))) (Some [js ''Read1'', js ''Read2''])"
  have m: "?e \<in> set (basicOperations @ nodeOrganization @ advancedVfxOperations)"
    by (simp add: basicOperations_def)
  have r: "handler_returns (handler (snd ?e)) (createNode_handler ?a)"
    by (simp del: createNode_handler.simps add: handler_returns.createNode)
  have t: "is_text_response (createNode_handler ?a)"
    by (rule handlers_return_one_text_item [THEN conjunct1, rule_format, OF m r])
  have n: "Number_toString (Dec True 25 (- 1)) = js ''-2.5''"
    by (simp add: Number_toString_def format_2_5)
  have c: \<open>createNode_handler ?a
      = \<lparr>content = [\<lparr>item_type = js ''text'', item_text =
           js ''Created Blur node named "Blur1" at position (10, -2.5) with inputs: Read1, Read2''\<rparr>]\<rparr>\<close>
    using handlers_return_one_text_item [THEN conjunct2, THEN conjunct2, THEN conjunct1,
        rule_format, of "js ''Blur''" "Some (js ''Blur1'')"
        "Some (Position (num 10) (Dec True 25 (- 1)))" "Some [js ''Read1'', js ''Read2'']"]
    by (simp del: createNode_handler.simps add: num_def num_10 n js_def)
  have k: \<open>setKnobValue_handler
        (SetKnobValueArgs (js ''Blur1'') (js ''label'') (KString (js ''a"b'' @ [0x5C, 0x0A])))
      = \<lparr>content = [\<lparr>item_type = js ''text'', item_text =
           js ''Set knob "label" on node "Blur1" to value: "a'' @ [0x5C] @ js ''"b''
           @ [0x5C, 0x5C, 0x5C] @ js ''n"''\<rparr>]\<rparr>\<close>
    using handlers_return_one_text_item [THEN conjunct2, THEN conjunct2, THEN conjunct2,
        THEN conjunct1, rule_format, of \<open>js ''Blur1''\<close> \<open>js ''label''\<close>
        \<open>KString (js ''a"b'' @ [0x5C, 0x0A])\<close>]
    by (simp del: setKnobValue_handler.simps
        add: knob_json_def JSON_stringify_def QuoteJSONString_def js_def escape_unit_def
          is_leading_surrogate_def is_trailing_surrogate_def)
  from m r t c k show ?thesis by simp
qed

section \<open>The custom color of the keying setup\<close>

text \<open>
  C9. When \<open>screenColor\<close> is not \<open>custom\<close> (undefined, so the default \<open>green\<close>,
  included), \<open>setupKeying\<close> returns the same response for any two values of
  \<open>customColor\<close>. When \<open>screenColor\<close> is \<open>custom\<close>, the text has \<open>customColor\<close>, or
  \<open>#00FF00\<close> when it is undefined, where the name of the screen color would stand, and
  two custom colors that differ give responses that differ.
\<close>

theorem setupKeying_customColor:
  \<open>(screenColor \<noteq> Some Custom \<longrightarrow>
      setupKeying_handler (SetupKeyingArgs sourceName screenColor c1 keyerType despill edge outputName)
      = setupKeying_handler (SetupKeyingArgs sourceName screenColor c2 keyerType despill edge outputName))
   \<and> setupKeying_handler (SetupKeyingArgs sourceName (Some Custom) c keyerType despill edge outputName) =
       \<lparr>content = [\<lparr>item_type = js ''text'', item_text =
          js ''Set up keying pipeline for "'' @ sourceName @ js ''" using ''
          @ keyerType_str (or_default keyerType Keylight) @ js '' with ''
          @ (case c of None \<Rightarrow> js ''#00FF00'' | Some customColor \<Rightarrow> customColor) @ js '' screen''
          @ (if or_default despill True then js '', despill correction'' else [])
          @ (if or_default edge True then js '', edge refinement'' else [])
          @ if_truthy outputName (\<lambda>outputName. js '' and output node "'' @ outputName @ js ''"'') []\<rparr>]\<rparr>
   \<and> (or_default c1 (js ''#00FF00'') \<noteq> or_default c2 (js ''#00FF00'') \<longrightarrow>
      setupKeying_handler (SetupKeyingArgs sourceName (Some Custom) c1 keyerType despill edge outputName)
      \<noteq> setupKeying_handler (SetupKeyingArgs sourceName (Some Custom) c2 keyerType despill edge outputName))\<close>
proof (intro conjI impI)
  assume "screenColor \<noteq> Some Custom"
  then show "setupKeying_handler (SetupKeyingArgs sourceName screenColor c1 keyerType despill edge outputName)
      = setupKeying_handler (SetupKeyingArgs sourceName screenColor c2 keyerType despill edge outputName)"
    by (cases screenColor) (auto simp: or_default_def)
next
  show \<open>setupKeying_handler (SetupKeyingArgs sourceName (Some Custom) c keyerType despill edge outputName) =
       \<lparr>content = [\<lparr>item_type = js ''text'', item_text =
          js ''Set up keying pipeline for "'' @ sourceName @ js ''" using ''
          @ keyerType_str (or_default keyerType Keylight) @ js '' with ''
          @ (case c of None \<Rightarrow> js ''#00FF00'' | Some customColor \<Rightarrow> customColor) @ js '' screen''
          @ (if or_default despill True then js '', despill correction'' else [])
          @ (if or_default edge True then js '', edge refinement'' else [])
          @ if_truthy outputName (\<lambda>outputName. js '' and output node "'' @ outputName @ js ''"'') []\<rparr>]\<rparr>\<close>
    by (simp add: or_default_def split: option.splits)
next
  assume "or_default c1 (js ''#00FF00'') \<noteq> or_default c2 (js ''#00FF00'')"
  then show "setupKeying_handler (SetupKeyingArgs sourceName (Some Custom) c1 keyerType despill edge outputName)
      \<noteq> setupKeying_handler (SetupKeyingArgs sourceName (Some Custom) c2 keyerType despill edge outputName)"
    by (simp add: or_default_def [of "Some Custom"])
qed

theorem setupKeying_customColor_witness:
  \<open>Some Blue \<noteq> Some Custom
   \<and> setupKeying_handler (SetupKeyingArgs (js ''Plate'') (Some Blue) (Some (js ''#112233'')) None None None None)
     = setupKeying_handler (SetupKeyingArgs (js ''Plate'') (Some Blue) None None None None None)
   \<and> or_default (Some (js ''#112233'')) (js ''#00FF00'') \<noteq> or_default None (js ''#00FF00'')
   \<and> setupKeying_handler (SetupKeyingArgs (js ''Plate'') (Some Custom) (Some (js ''#112233'')) None None None None)
     \<noteq> setupKeying_handler (SetupKeyingArgs (js ''Plate'') (Some Custom) None None None None None)\<close>
proof -
  note t = setupKeying_customColor [of "Some Blue" "js ''Plate''" "Some (js ''#112233'')" None None None None
      None None]
  have 1: "Some Blue \<noteq> Some Custom"
    by simp
  have 2: "or_default (Some (js ''#112233'')) (js ''#00FF00'') \<noteq> or_default None (js ''#00FF00'')"
    by (simp add: or_default_def js_def)
  from t [THEN conjunct1] 1
  have a: "setupKeying_handler (SetupKeyingArgs (js ''Plate'') (Some Blue) (Some (js ''#112233'')) None None None None)
     = setupKeying_handler (SetupKeyingArgs (js ''Plate'') (Some Blue) None None None None None)"
    by (rule mp)
  from t [THEN conjunct2, THEN conjunct2] 2
  have b: "setupKeying_handler (SetupKeyingArgs (js ''Plate'') (Some Custom) (Some (js ''#112233'')) None None None None)
     \<noteq> setupKeying_handler (SetupKeyingArgs (js ''Plate'') (Some Custom) None None None None None)"
    by (rule mp)
  from 1 a 2 b show ?thesis
    by (intro conjI)
qed

section \<open>Unknown resources\<close>

lemma split_on_not_Nil: "split_on c s \<noteq> []"
  by (induction s) (auto split: list.splits)

lemma setupGuide_unknown:
  "last_segment uri \<notin> {''setup'', ''usage'', ''examples''} \<Longrightarrow>
   setupGuide_handler uri =
     \<lparr>contents = [\<lparr>item_uri = href uri, item_value = Str (js ''Available guides: setup, usage, examples'')\<rparr>]\<rparr>"
  by (simp add: setupGuide_handler_def Let_def)

lemma pythonBridge_unknown:
  "code (last_segment uri) = None \<Longrightarrow> last_segment uri \<notin> set Object_prototype_keys \<Longrightarrow>
   pythonBridge_handler code uri =
     \<lparr>contents = [\<lparr>item_uri = href uri,
        item_value = Str (js (''Resource not found: '' @ last_segment uri))\<rparr>]\<rparr>"
  by (simp add: pythonBridge_handler_def Let_def object_get_def)

lemma pythonBridge_inherited:
  "code (last_segment uri) = None \<Longrightarrow> last_segment uri \<in> set Object_prototype_keys \<Longrightarrow>
   pythonBridge_handler code uri =
     \<lparr>contents = [\<lparr>item_uri = href uri, item_value = Builtin (last_segment uri)\<rparr>]\<rparr>"
  by (simp add: pythonBridge_handler_def Let_def object_get_def truthy_def)

text \<open>
  C10, at the segment \<open>constructor\<close>. The object has no own property of that name, and the
  \<open>pythonBridge\<close> handler does not answer \<open>Resource not found: constructor\<close>: the
  property read finds the constructor every object inherits, which is truthy, and the
  handler returns it as the text of the resource.
\<close>

theorem pythonBridge_constructor:
  "[''nuke_bridge.py'' \<mapsto> js ''import nuke''] ''constructor'' = None
   \<and> last_segment \<lparr>pathname = ''/constructor'', href = ''bridge:/constructor''\<rparr> = ''constructor''
   \<and> pythonBridge_handler [''nuke_bridge.py'' \<mapsto> js ''import nuke'']
       \<lparr>pathname = ''/constructor'', href = ''bridge:/constructor''\<rparr> =
     \<lparr>contents = [\<lparr>item_uri = ''bridge:/constructor'', item_value = Builtin ''constructor''\<rparr>]\<rparr>
   \<and> pythonBridge_handler [''nuke_bridge.py'' \<mapsto> js ''import nuke'']
       \<lparr>pathname = ''/constructor'', href = ''bridge:/constructor''\<rparr> \<noteq>
     \<lparr>contents = [\<lparr>item_uri = ''bridge:/constructor'',
        item_value = Str (js ''Resource not found: constructor'')\<rparr>]\<rparr>"
  by (simp add: pythonBridge_handler_def Let_def object_get_def truthy_def last_segment_def
      Object_prototype_keys_def)

section \<open>Registration of the tools\<close>


lemma is_tool_call_tool_call [simp]: "is_tool_call (tool_call e)"
  by (simp add: tool_call_def)

lemma call_name_tool_call [simp]: "call_name (tool_call e) = fst e"
  by (simp add: tool_call_def)











section \<open>Properties of the batch execution model\<close>

lemma resolve_from_dangling:
  "i < length batch \<Longrightarrow> SymbolicRef s f \<in> snd ` set (arguments (batch ! i)) \<Longrightarrow>
   s \<notin> set declared \<union> set (map stepId (take i batch)) \<Longrightarrow>
   resolve_from declared batch = Inl DanglingReference"
proof (induction batch arbitrary: i declared)
  case Nil
  then show ?case by simp
next
  case (Cons step rest)
  show ?case
  proof (cases "set (refs step) \<subseteq> set declared")
    case False
    then show ?thesis by simp
  next
    case True
    have "i \<noteq> 0"
    proof
      assume "i = 0"
      with Cons.prems have "SymbolicRef s f \<in> snd ` set (arguments step)" and "s \<notin> set declared"
        by auto
      then have "s \<in> set (refs step)"
        by (force simp: refs_def)
      with True \<open>s \<notin> set declared\<close> show False
        by auto
    qed
    then obtain j where j: "i = Suc j"
      by (cases i) auto
    with Cons.prems have "j < length rest"
      and "SymbolicRef s f \<in> snd ` set (arguments (rest ! j))"
      and "s \<notin> set (declared @ [stepId step]) \<union> set (map stepId (take j rest))"
      by auto
    then have "resolve_from (declared @ [stepId step]) rest = Inl DanglingReference"
      by (rule Cons.IH)
    with True show ?thesis by simp
  qed
qed

text \<open>
  C5. When an invocation of a submitted batch has a SymbolicRef argument whose stepId is
  not the stepId of an earlier invocation (the referring step's own stepId is not earlier),
  the batch fails with DanglingReference, the external state is as it was and the
  capability was invoked for no step.
\<close>

theorem dangling_reference_aborts:
  assumes "i < length batch"
    and "SymbolicRef s f \<in> snd ` set (arguments (batch ! i))"
    and "s \<notin> set (map stepId (take i batch))"
  shows "run_batch reg cap policy batch w = (Inl DanglingReference, w, [])"
proof -
  from assms have "resolve_from [] batch = Inl DanglingReference"
    by (intro resolve_from_dangling [of i batch s f]) auto
  then show ?thesis
    by (simp add: run_batch_def resolve_def)
qed

theorem dangling_reference_aborts_witness:
  "(1 :: nat) < length
       [\<lparr>operationName = ''createNode'', arguments = [(''type'', Literal ''Blur'')], stepId = ''a''\<rparr>,
        \<lparr>operationName = ''connectNodes'',
          arguments = [(''from'', SymbolicRef ''c'' ''name''), (''to'', Literal ''Write1'')],
          stepId = ''b''\<rparr>,
        \<lparr>operationName = ''createNode'', arguments = [(''type'', Literal ''Grade'')], stepId = ''c''\<rparr>]
   \<and> run_batch ([] :: unit operation_spec list)
        (\<lambda>opn args (w :: nat). (Some args, Suc w)) HaltOnFirstFailure
        [\<lparr>operationName = ''createNode'', arguments = [(''type'', Literal ''Blur'')], stepId = ''a''\<rparr>,
         \<lparr>operationName = ''connectNodes'',
           arguments = [(''from'', SymbolicRef ''c'' ''name''), (''to'', Literal ''Write1'')],
           stepId = ''b''\<rparr>,
         \<lparr>operationName = ''createNode'', arguments = [(''type'', Literal ''Grade'')], stepId = ''c''\<rparr>]
        0
      = (Inl DanglingReference, 0, [])"
proof -
  let ?batch = "[\<lparr>operationName = ''createNode'', arguments = [(''type'', Literal ''Blur'')], stepId = ''a''\<rparr>,
        \<lparr>operationName = ''connectNodes'',
          arguments = [(''from'', SymbolicRef ''c'' ''name''), (''to'', Literal ''Write1'')],
          stepId = ''b''\<rparr>,
        \<lparr>operationName = ''createNode'', arguments = [(''type'', Literal ''Grade'')], stepId = ''c''\<rparr>]
        :: string invocation list"
  have 1: "(1 :: nat) < length ?batch"
    by simp
  have 2: "SymbolicRef ''c'' ''name'' \<in> snd ` set (arguments (?batch ! 1))"
    by simp
  have 3: "''c'' \<notin> set (map stepId (take 1 ?batch))"
    by simp
  from dangling_reference_aborts [OF 1 2 3] 1 show ?thesis
    by simp
qed

lemma run_steps_append:
  "run_steps policy cap edges (xs @ ys) st =
   run_steps policy cap edges ys (run_steps policy cap edges xs st)"
  by (induction xs arbitrary: st) simp_all

lemma run_step_results:
  "\<exists>r. results (run_step policy cap edges step st) = results st @ [r] \<and> result_id r = stepId step"
  by (auto simp: run_step_def result_id_def split: sum.splits option.splits prod.splits)

lemma run_steps_ids:
  "map result_id (results (run_steps policy cap edges batch st))
   = map result_id (results st) @ map stepId batch"
proof (induction batch arbitrary: st)
  case Nil
  then show ?case by simp
next
  case (Cons step rest)
  from run_step_results [of policy cap edges step st]
  have "map result_id (results (run_step policy cap edges step st))
        = map result_id (results st) @ [stepId step]"
    by auto
  with Cons.IH [of "run_step policy cap edges step st"] show ?case
    by simp
qed

lemma run_steps_take:
  "take (length (results st)) (results (run_steps policy cap edges batch st)) = results st"
proof (induction batch arbitrary: st)
  case Nil
  then show ?case by simp
next
  case (Cons step rest)
  let ?st' = "run_step policy cap edges step st"
  let ?rs = "results (run_steps policy cap edges rest ?st')"
  from run_step_results [of policy cap edges step st]
  obtain r where r: "results ?st' = results st @ [r]"
    by auto
  have "take (length (results st)) ?rs = take (length (results st)) (take (length (results ?st')) ?rs)"
    by (simp add: r min_def)
  also have "\<dots> = take (length (results st)) (results ?st')"
    by (simp only: Cons.IH)
  also have "\<dots> = results st"
    by (simp add: r)
  finally show ?case
    by simp
qed

lemma run_step_invoked:
  "set (invoked (run_step policy cap edges step st)) \<subseteq> set (invoked st) \<union> {stepId step}"
  by (auto simp: run_step_def split: sum.splits option.splits prod.splits)

lemma run_steps_invoked:
  "set (invoked (run_steps policy cap edges batch st)) \<subseteq> set (invoked st) \<union> set (map stepId batch)"
proof (induction batch arbitrary: st)
  case Nil
  then show ?case by simp
next
  case (Cons step rest)
  have "set (invoked (run_steps policy cap edges rest (run_step policy cap edges step st)))
        \<subseteq> set (invoked (run_step policy cap edges step st)) \<union> set (map stepId rest)"
    by (rule Cons.IH)
  with run_step_invoked [of policy cap edges step st] show ?case
    by auto
qed

lemma run_steps_halted:
  "Failed \<in> set (map status (results st)) \<Longrightarrow>
   run_steps HaltOnFirstFailure cap edges batch st =
     st\<lparr>results := results st @ map (\<lambda>step. StepResult (stepId step) Skipped (Inr [])) batch\<rparr>"
proof (induction batch arbitrary: st)
  case Nil
  then show ?case by simp
next
  case (Cons step rest)
  from Cons.prems have s: "run_step HaltOnFirstFailure cap edges step st =
      st\<lparr>results := results st @ [StepResult (stepId step) Skipped (Inr [])]\<rparr>"
    by (simp add: run_step_def ready_def)
  with Cons.prems have "Failed \<in> set (map status (results (run_step HaltOnFirstFailure cap edges step st)))"
    by simp
  from Cons.IH [OF this] s show ?case
    by simp
qed

lemma position_in_self: "distinct xs \<Longrightarrow> map (position_in xs) xs = [0..<length xs]"
proof (induction xs)
  case Nil
  then show ?case by simp
next
  case (Cons t ts)
  then have "\<forall>s \<in> set ts. position_in (t # ts) s = Suc (position_in ts s)"
    by auto
  then have "map (position_in (t # ts)) ts = map Suc (map (position_in ts) ts)"
    by simp
  also have "\<dots> = map Suc [0..<length ts]"
    using Cons by simp
  also have "\<dots> = [Suc 0..<Suc (length ts)]"
    by (rule map_Suc_upt)
  finally have "position_in (t # ts) t # map (position_in (t # ts)) ts = 0 # [Suc 0..<Suc (length ts)]"
    by simp
  then show ?case
    by (simp only: list.map upt_conv_Cons [of 0 "Suc (length ts)"] length_Cons)
qed

lemma sort_in_order:
  assumes "distinct order" and "map result_id rs = order"
  shows "sort_key (\<lambda>r. position_in order (result_id r)) rs = rs"
proof -
  have "map (\<lambda>r. position_in order (result_id r)) rs = map (position_in order) (map result_id rs)"
    by simp
  also have "\<dots> = [0..<length order]"
    using assms by (simp add: position_in_self)
  finally have "sorted (map (\<lambda>r. position_in order (result_id r)) rs)"
    by simp
  then show ?thesis
    by (rule sort_key_id_if_sorted)
qed

text \<open>
  C6. Under haltOnFirstFailure, in a batch whose stepIds are distinct, when step \<open>k\<close> is
  reported Failed, every later step \<open>j\<close> is reported Skipped and the external capability
  was not invoked for it.
\<close>

theorem halt_on_first_failure:
  fixes batch :: "'v invocation list" and w :: 'w
  assumes run: "run_batch reg cap HaltOnFirstFailure batch w = (Inr report, w', called)"
    and ids: "distinct (map stepId batch)"
    and kj: "k < j" "j < length batch"
    and failed: "status (steps report ! k) = Failed"
  shows "status (steps report ! j) = Skipped \<and> stepId (batch ! j) \<notin> set called"
proof -
  obtain edges where edges: "resolve batch = Inr edges"
    using run by (auto simp: run_batch_def split: sum.splits)
  let ?init = "\<lparr>results = [], world = w, invoked = []\<rparr> :: ('v, 'w) exec_state"
  let ?run = "run_steps HaltOnFirstFailure cap edges"
  let ?final = "?run batch ?init"
  from run edges have rep: "report = aggregate (map stepId batch) (results ?final)"
    and called: "called = invoked ?final"
    by (auto simp: run_batch_def Let_def split: if_splits)
  have rid: "map result_id (results ?final) = map stepId batch"
    by (simp add: run_steps_ids)
  with ids rep have steps: "steps report = results ?final"
    by (simp add: aggregate_def sort_in_order)
  let ?pre = "take (Suc k) batch" and ?post = "drop (Suc k) batch"
  let ?mid = "?run ?pre ?init"
  have split: "?final = ?run ?post ?mid"
    using run_steps_append [of HaltOnFirstFailure cap edges ?pre ?post ?init] by simp
  from arg_cong [OF run_steps_ids [of HaltOnFirstFailure cap edges ?pre ?init], of length] kj
  have len1: "length (results ?mid) = Suc k"
    by simp
  from run_steps_take [of ?mid HaltOnFirstFailure cap edges ?post] split
  have pre: "take (Suc k) (results ?final) = results ?mid"
    by (simp add: len1)
  have "results ?final ! k = take (Suc k) (results ?final) ! k"
    by simp
  with failed steps pre have "status (results ?mid ! k) = Failed"
    by simp
  moreover from len1 have "results ?mid ! k \<in> set (results ?mid)"
    by simp
  ultimately have halted: "Failed \<in> set (map status (results ?mid))"
    by force
  from run_steps_halted [OF halted, of cap edges ?post] split
  have fin: "?final = ?mid\<lparr>results := results ?mid
      @ map (\<lambda>step. StepResult (stepId step) Skipped (Inr [])) ?post\<rparr>"
    by simp
  from arg_cong [OF fin, of results]
  have res': "results ?final = results ?mid @ map (\<lambda>step. StepResult (stepId step) Skipped (Inr [])) ?post"
    by simp
  from kj len1 have "results ?final ! j = map (\<lambda>step. StepResult (stepId step) Skipped (Inr [])) ?post ! (j - Suc k)"
    unfolding res' by (simp add: nth_append)
  also from kj have "\<dots> = StepResult (stepId (?post ! (j - Suc k))) Skipped (Inr [])"
    by (intro nth_map) simp
  finally have skipped: "status (steps report ! j) = Skipped"
    using steps by (simp add: status_def)
  from arg_cong [OF fin, of invoked] have "invoked ?final = invoked ?mid"
    by simp
  with run_steps_invoked [of HaltOnFirstFailure cap edges ?pre ?init] called
  have sub: "set called \<subseteq> set (map stepId ?pre)"
    by simp
  have "stepId (batch ! j) \<notin> set (map stepId ?pre)"
  proof
    assume "stepId (batch ! j) \<in> set (map stepId ?pre)"
    then obtain i where i: "i < Suc k" "i < length batch" "stepId (batch ! i) = stepId (batch ! j)"
      by (auto simp: in_set_conv_nth)
    with ids kj have "i = j"
      using nth_eq_iff_index_eq [of "map stepId batch" i j] by simp
    with i kj show False
      by simp
  qed
  with sub skipped show ?thesis
    by auto
qed

theorem halt_on_first_failure_witness:
  "run_batch [OperationSpec ''createNode'' () () False, OperationSpec ''render'' () () False]
     (\<lambda>opn args (w :: nat). if opn = ''render'' then (None, Suc w) else (Some args, Suc w))
     HaltOnFirstFailure
     [\<lparr>operationName = ''createNode'', arguments = [(''type'', Literal ''Read'')], stepId = ''s1''\<rparr>,
      \<lparr>operationName = ''createNode'', arguments = [(''type'', Literal ''Grade'')], stepId = ''s2''\<rparr>,
      \<lparr>operationName = ''render'', arguments = [(''node'', SymbolicRef ''s2'' ''type'')], stepId = ''s3''\<rparr>,
      \<lparr>operationName = ''createNode'', arguments = [(''type'', Literal ''Blur'')], stepId = ''s4''\<rparr>,
      \<lparr>operationName = ''createNode'', arguments = [(''type'', Literal ''Write'')], stepId = ''s5''\<rparr>]
     0
   = (Inr \<lparr>steps =
             [StepResult ''s1'' Success (Inr [(''type'', ''Read'')]),
              StepResult ''s2'' Success (Inr [(''type'', ''Grade'')]),
              StepResult ''s3'' Failed (Inl ExternalExecutionError),
              StepResult ''s4'' Skipped (Inr []),
              StepResult ''s5'' Skipped (Inr [])],
           overall = BatchFailed\<rparr>,
      3, [''s1'', ''s2'', ''s3''])
   \<and> status (StepResult ''s5'' Skipped (Inr []) :: string step_result) = Skipped
   \<and> ''s5'' \<notin> set [''s1'', ''s2'', ''s3'']"
proof -
  let ?reg = "[OperationSpec ''createNode'' () () False, OperationSpec ''render'' () () False]"
  let ?cap = "\<lambda>opn args (w :: nat).
      if opn = ''render'' then (None :: (string \<times> string) list option, Suc w) else (Some args, Suc w)"
  let ?batch = "[\<lparr>operationName = ''createNode'', arguments = [(''type'', Literal ''Read'')], stepId = ''s1''\<rparr>,
      \<lparr>operationName = ''createNode'', arguments = [(''type'', Literal ''Grade'')], stepId = ''s2''\<rparr>,
      \<lparr>operationName = ''render'', arguments = [(''node'', SymbolicRef ''s2'' ''type'')], stepId = ''s3''\<rparr>,
      \<lparr>operationName = ''createNode'', arguments = [(''type'', Literal ''Blur'')], stepId = ''s4''\<rparr>,
      \<lparr>operationName = ''createNode'', arguments = [(''type'', Literal ''Write'')], stepId = ''s5''\<rparr>]"
  let ?report = "\<lparr>steps =
             [StepResult ''s1'' Success (Inr [(''type'', ''Read'')]),
              StepResult ''s2'' Success (Inr [(''type'', ''Grade'')]),
              StepResult ''s3'' Failed (Inl ExternalExecutionError),
              StepResult ''s4'' Skipped (Inr []),
              StepResult ''s5'' Skipped (Inr [])],
           overall = BatchFailed\<rparr>"
  have run: "run_batch ?reg ?cap HaltOnFirstFailure ?batch 0 = (Inr ?report, 3, [''s1'', ''s2'', ''s3''])"
    by (simp add: run_batch_def resolve_def refs_def spec_name_def run_step_def ready_def
        dependencies_def succeeded_def result_id_def status_def result_output_def
        lookup_output_def aggregate_def numeral_3_eq_3)
  have ids: "distinct (map stepId ?batch)"
    by simp
  have kj: "(2 :: nat) < 4" "(4 :: nat) < length ?batch"
    by simp_all
  have failed: "status (steps ?report ! 2) = Failed"
    by (simp add: status_def)
  from halt_on_first_failure [OF run ids kj failed] run show ?thesis
    by (simp add: status_def)
qed

lemma nth_position_in: "s \<in> set xs \<Longrightarrow> xs ! position_in xs s = s"
  by (induction xs) auto

lemma inj_on_position_in: "inj_on (position_in order) (set order)"
proof (rule inj_onI)
  fix s t
  assume "s \<in> set order" and "t \<in> set order" and "position_in order s = position_in order t"
  then show "s = t"
    by (metis nth_position_in)
qed

lemma inj_on_result_key:
  assumes "distinct (map result_id rs)" and "result_id ` set rs \<subseteq> set order"
  shows "inj_on (\<lambda>r. position_in order (result_id r)) (set rs)"
proof (rule inj_onI)
  fix a b
  assume a: "a \<in> set rs" and b: "b \<in> set rs"
    and eq: "position_in order (result_id a) = position_in order (result_id b)"
  with assms(2) have "result_id a = result_id b"
    using inj_on_position_in [of order] by (auto dest: inj_onD)
  with assms(1) a b show "a = b"
    by (auto simp: distinct_map dest: inj_onD)
qed

lemma distinct_map_sort_key: "distinct (map f (sort_key f xs)) = distinct (map f xs)"
  by (induction xs) (simp_all add: distinct_insort_key)

lemma sort_key_set_unique:
  assumes "inj_on f (set xs)" and "distinct xs" and "distinct ys" and "set ys = set xs"
  shows "sort_key f ys = sort_key f xs"
proof (rule map_sorted_distinct_set_unique [of f])
  show "inj_on f (set (sort_key f ys) \<union> set (sort_key f xs))"
    using assms by simp
  show "distinct (map f (sort_key f ys))" and "distinct (map f (sort_key f xs))"
    using assms by (simp_all add: distinct_map_sort_key distinct_map)
  show "set (sort_key f ys) = set (sort_key f xs)"
    using assms by simp
qed simp_all

lemma overall_of_set:
  "set rs' = set rs \<Longrightarrow> overall (aggregate order rs') = overall (aggregate order rs)"
  by (simp add: aggregate_def)

lemma overall_aggregate:
  "overall (aggregate order rs) =
     (if \<exists>r \<in> set rs. status r = Failed then BatchFailed
      else if \<exists>r \<in> set rs. status r = Skipped then PartialSuccess
      else Succeeded)"
proof -
  have "(s \<in> status ` set rs) = (\<exists>r \<in> set rs. status r = s)" for s
    by auto
  then show ?thesis
    by (simp add: aggregate_def)
qed

lemma steps_in_order:
  assumes "distinct order" and "distinct (map result_id rs)" and "result_id ` set rs \<subseteq> set order"
  shows "map result_id (steps (aggregate order rs)) = filter (\<lambda>s. s \<in> result_id ` set rs) order"
proof -
  let ?key = "\<lambda>r. position_in order (result_id r)"
  let ?xs = "map result_id (sort_key ?key rs)"
  let ?ys = "filter (\<lambda>s. s \<in> result_id ` set rs) order"
  have keys: "map (position_in order) order = [0..<length order]"
    using assms(1) by (rule position_in_self)
  have "?xs = ?ys"
  proof (rule map_sorted_distinct_set_unique [of "position_in order"])
    show "inj_on (position_in order) (set ?xs \<union> set ?ys)"
      using assms(3) by (intro inj_on_subset [OF inj_on_position_in]) auto
    have "map (position_in order) ?xs = map ?key (sort_key ?key rs)"
      by simp
    then show "sorted (map (position_in order) ?xs)"
      by (simp only: sorted_sort_key)
    have "distinct (map ?key rs)"
      using assms(2) inj_on_result_key [OF assms(2,3)] by (simp add: distinct_map)
    then have "distinct (map ?key (sort_key ?key rs))"
      by (simp only: distinct_map_sort_key)
    then show "distinct (map (position_in order) ?xs)"
      by (simp add: comp_def)
    have "sorted (map (position_in order) order)" and "distinct (map (position_in order) order)"
      by (simp_all add: keys)
    then show "sorted (map (position_in order) ?ys)" and "distinct (map (position_in order) ?ys)"
      by (simp_all add: sorted_filter distinct_map_filter)
    show "set ?xs = set ?ys"
      using assms(3) by auto
  qed
  then show ?thesis
    by (simp add: aggregate_def)
qed

text \<open>
  C7. The report depends only on the set of StepResults (and on the submission order it
  sorts by): two lists of the same StepResults, with one result for each stepId and every
  stepId among those submitted, give the same BatchReport. The report lists the results
  in the order their stepIds have in the submitted batch; it is Succeeded exactly when
  every step Succeeded, Failed when some step Failed, and PartialSuccess when some step
  was Skipped and none Failed.
\<close>

theorem aggregate_pure:
  assumes "distinct order"
    and "distinct (map result_id rs)"
    and "result_id ` set rs \<subseteq> set order"
    and "set rs' = set rs"
    and "distinct (map result_id rs')"
  shows "aggregate order rs' = aggregate order rs
    \<and> map result_id (steps (aggregate order rs)) = filter (\<lambda>s. s \<in> result_id ` set rs) order
    \<and> (overall (aggregate order rs) = Succeeded \<longleftrightarrow> (\<forall>r \<in> set rs. status r = Success))
    \<and> ((\<exists>r \<in> set rs. status r = Failed) \<longrightarrow> overall (aggregate order rs) = BatchFailed)
    \<and> ((\<exists>r \<in> set rs. status r = Skipped) \<and> \<not> (\<exists>r \<in> set rs. status r = Failed)
         \<longrightarrow> overall (aggregate order rs) = PartialSuccess)"
proof (intro conjI)
  have "inj_on (\<lambda>r. position_in order (result_id r)) (set rs)"
    using assms(2,3) by (rule inj_on_result_key)
  moreover have "distinct rs" and "distinct rs'"
    using assms(2,5) by (auto simp: distinct_map)
  ultimately have "sort_key (\<lambda>r. position_in order (result_id r)) rs'
      = sort_key (\<lambda>r. position_in order (result_id r)) rs"
    using assms(4) by (intro sort_key_set_unique)
  then show "aggregate order rs' = aggregate order rs"
    using assms(4) by (simp add: aggregate_def)
next
  show "map result_id (steps (aggregate order rs)) = filter (\<lambda>s. s \<in> result_id ` set rs) order"
    using assms(1,2,3) by (rule steps_in_order)
next
  show "overall (aggregate order rs) = Succeeded \<longleftrightarrow> (\<forall>r \<in> set rs. status r = Success)"
  proof -
    have "status r = Success \<longleftrightarrow> status r \<noteq> Failed \<and> status r \<noteq> Skipped" for r :: "'a step_result"
      by (cases "status r") simp_all
    then show ?thesis
      by (auto simp: overall_aggregate)
  qed
next
  show "(\<exists>r \<in> set rs. status r = Failed) \<longrightarrow> overall (aggregate order rs) = BatchFailed"
    by (simp add: overall_aggregate)
next
  show "(\<exists>r \<in> set rs. status r = Skipped) \<and> \<not> (\<exists>r \<in> set rs. status r = Failed)
         \<longrightarrow> overall (aggregate order rs) = PartialSuccess"
    by (simp add: overall_aggregate)
qed

theorem aggregate_pure_witness:
  "distinct [''a'', ''b'', ''c'']
   \<and> aggregate [''a'', ''b'', ''c'']
        [StepResult ''a'' Success (Inr [(''name'', ''Blur1'')]), StepResult ''b'' Success (Inr []),
         StepResult ''c'' Skipped (Inr [])]
     = aggregate [''a'', ''b'', ''c'']
        [StepResult ''c'' Skipped (Inr []), StepResult ''a'' Success (Inr [(''name'', ''Blur1'')]),
         StepResult ''b'' Success (Inr [])]
   \<and> overall (aggregate [''a'', ''b'', ''c'']
        [StepResult ''c'' Skipped (Inr []), StepResult ''a'' Success (Inr [(''name'', ''Blur1'')]),
         StepResult ''b'' Success (Inr [])]) = PartialSuccess"
proof -
  let ?order = "[''a'', ''b'', ''c'']"
  let ?rs = "[StepResult ''c'' Skipped (Inr []), StepResult ''a'' Success (Inr [(''name'', ''Blur1'')]),
         StepResult ''b'' Success (Inr [])] :: string step_result list"
  let ?rs' = "[StepResult ''a'' Success (Inr [(''name'', ''Blur1'')]), StepResult ''b'' Success (Inr []),
         StepResult ''c'' Skipped (Inr [])] :: string step_result list"
  have 1: "distinct ?order"
    by simp
  have 2: "distinct (map result_id ?rs)"
    by (simp add: result_id_def)
  have 3: "result_id ` set ?rs \<subseteq> set ?order"
    by (simp add: result_id_def)
  have 4: "set ?rs' = set ?rs"
    by auto
  have 5: "distinct (map result_id ?rs')"
    by (simp add: result_id_def)
  have 6: "(\<exists>r \<in> set ?rs. status r = Skipped) \<and> \<not> (\<exists>r \<in> set ?rs. status r = Failed)"
    by (simp add: status_def)
  note all = aggregate_pure [OF 1 2 3 4 5]
  from all have same: "aggregate ?order ?rs' = aggregate ?order ?rs"
    by (rule conjunct1)
  from all [THEN conjunct2, THEN conjunct2, THEN conjunct2, THEN conjunct2] 6
  have partial: "overall (aggregate ?order ?rs) = PartialSuccess"
    by (rule mp)
  from 1 same partial show ?thesis
    by (intro conjI)
qed

end
